theory Spec2Isabelle
  imports Complex_Main "HOL-Library.AList" "HOL-Library.Multiset" "HOL-Library.Word"
begin

section \<open>Go strings\<close>

text \<open>
  A Go string is a sequence of bytes, here a \<open>string\<close> (one \<open>char\<close> per byte).
  The functions of package \<open>strings\<close> that the parser calls are written out on bytes.
  Where Go works on runes (\<open>TrimSpace\<close>, \<open>ToUpper\<close>, the key folding of
  \<open>encoding/json\<close>) the UTF-8 encodings of the runes concerned are listed as byte
  sequences.
\<close>

definition HasPrefix :: "string \<Rightarrow> string \<Rightarrow> bool" where
  "HasPrefix s p = (length p \<le> length s \<and> take (length p) s = p)"

definition HasSuffix :: "string \<Rightarrow> string \<Rightarrow> bool" where
  "HasSuffix s p = (length p \<le> length s \<and> drop (length s - length p) s = p)"

fun Contains :: "string \<Rightarrow> string \<Rightarrow> bool" where
  "Contains [] sub = (sub = [])"
| "Contains (c # cs) sub = (HasPrefix (c # cs) sub \<or> Contains cs sub)"

text \<open>
  The runes for which \<open>unicode.IsSpace\<close> holds, in UTF-8: the ASCII white space,
  U+0085, U+00A0, U+1680, U+2000 to U+200A, U+2028, U+2029, U+202F, U+205F and U+3000.
\<close>

definition space_runes :: "string list" where
  "space_runes =
    [[CHR 0x09], [CHR 0x0A], [CHR 0x0B], [CHR 0x0C], [CHR 0x0D], [CHR 0x20],
     [CHR 0xC2, CHR 0x85], [CHR 0xC2, CHR 0xA0],
     [CHR 0xE1, CHR 0x9A, CHR 0x80],
     [CHR 0xE2, CHR 0x80, CHR 0x80], [CHR 0xE2, CHR 0x80, CHR 0x81],
     [CHR 0xE2, CHR 0x80, CHR 0x82], [CHR 0xE2, CHR 0x80, CHR 0x83],
     [CHR 0xE2, CHR 0x80, CHR 0x84], [CHR 0xE2, CHR 0x80, CHR 0x85],
     [CHR 0xE2, CHR 0x80, CHR 0x86], [CHR 0xE2, CHR 0x80, CHR 0x87],
     [CHR 0xE2, CHR 0x80, CHR 0x88], [CHR 0xE2, CHR 0x80, CHR 0x89],
     [CHR 0xE2, CHR 0x80, CHR 0x8A],
     [CHR 0xE2, CHR 0x80, CHR 0xA8], [CHR 0xE2, CHR 0x80, CHR 0xA9],
     [CHR 0xE2, CHR 0x80, CHR 0xAF],
     [CHR 0xE2, CHR 0x81, CHR 0x9F],
     [CHR 0xE3, CHR 0x80, CHR 0x80]]"

text \<open>
  \<open>trim_runes rs s\<close> removes from the front of \<open>s\<close> every leading occurrence of
  one of the byte sequences \<open>rs\<close>, as \<open>strings.TrimLeftFunc\<close> does rune by rune.
\<close>

function trim_runes :: "string list \<Rightarrow> string \<Rightarrow> string" where
  "trim_runes rs s =
     (case find (\<lambda>r. r \<noteq> [] \<and> HasPrefix s r) rs of
        None \<Rightarrow> s
      | Some r \<Rightarrow> trim_runes rs (drop (length r) s))"
  by pat_completeness auto
termination
proof (relation "measure (\<lambda>(rs, s). length s)")
  show "wf (measure (\<lambda>(rs, s). length s))" by simp
next
  fix rs :: "string list" and s r :: string
  assume "find (\<lambda>r. r \<noteq> [] \<and> HasPrefix s r) rs = Some r"
  then have r: "r \<noteq> [] \<and> HasPrefix s r"
    by (auto simp: find_Some_iff)
  from r have "0 < length r" by simp
  moreover from r have "length r \<le> length s" by (simp add: HasPrefix_def)
  ultimately have "length s - length r < length s" by arith
  then show "((rs, drop (length r) s), (rs, s)) \<in> measure (\<lambda>(rs, s). length s)"
    by simp
qed

declare trim_runes.simps [simp del]

definition TrimSpace :: "string \<Rightarrow> string" where
  "TrimSpace s = rev (trim_runes (map rev space_runes) (rev (trim_runes space_runes s)))"

definition upper_byte :: "char \<Rightarrow> char" where
  "upper_byte c =
     (let n = (of_char c :: nat) in if 97 \<le> n \<and> n \<le> 122 then char_of (n - 32) else c)"

definition lower_byte :: "char \<Rightarrow> char" where
  "lower_byte c =
     (let n = (of_char c :: nat) in if 65 \<le> n \<and> n \<le> 90 then char_of (n + 32) else c)"

text \<open>
  \<open>strings.ToUpper\<close>. Besides the ASCII letters, two runes have an ASCII upper case:
  U+0131 (bytes C4 B1) maps to \<open>I\<close> and U+017F (bytes C5 BF) maps to \<open>S\<close>. Every
  other byte is kept; the result agrees with Go's whenever Go's result is an ASCII
  string, which is all that the method table below can observe.
\<close>

fun ToUpper :: "string \<Rightarrow> string" where
  "ToUpper [] = []"
| "ToUpper [c] = [upper_byte c]"
| "ToUpper (c # d # cs) =
     (if c = CHR 0xC4 \<and> d = CHR 0xB1 then CHR ''I'' # ToUpper cs
      else if c = CHR 0xC5 \<and> d = CHR 0xBF then CHR ''S'' # ToUpper cs
      else upper_byte c # ToUpper (d # cs))"

text \<open>
  The case folding under which \<open>encoding/json\<close> matches an object key with a struct
  field: ASCII letters fold together, U+017F (C5 BF) folds with \<open>s\<close> and U+212A
  (E2 84 AA) folds with \<open>k\<close>.
\<close>

fun fold_key :: "string \<Rightarrow> string" where
  "fold_key [] = []"
| "fold_key [c] = [lower_byte c]"
| "fold_key [c, d] =
     (if c = CHR 0xC5 \<and> d = CHR 0xBF then ''s'' else lower_byte c # fold_key [d])"
| "fold_key (c # d # e # cs) =
     (if c = CHR 0xC5 \<and> d = CHR 0xBF then CHR ''s'' # fold_key (e # cs)
      else if c = CHR 0xE2 \<and> d = CHR 0x84 \<and> e = CHR 0xAA then CHR ''k'' # fold_key cs
      else lower_byte c # fold_key (d # e # cs))"

definition key_is :: "string \<Rightarrow> string \<Rightarrow> bool" where
  "key_is k name = (fold_key k = fold_key name)"

text \<open>The decimal digits of \<open>fmt.Sprintf("%d", n)\<close> for an index \<open>n\<close>.\<close>

fun digits :: "nat \<Rightarrow> string" where
  "digits n = (if n < 10 then [char_of (48 + n)] else digits (n div 10) @ [char_of (48 + n mod 10)])"

declare digits.simps [simp del]

section \<open>JSON documents\<close>

text \<open>
  The byte-level scanner of \<open>encoding/json\<close> is outside the repository. A document is
  modelled by the value the scanner reads from it. A number keeps whether its literal is
  an integer literal (\<open>JInt\<close>) or has a fraction or an exponent (\<open>JFrac\<close>), because
  decoding into a Go \<open>int\<close> accepts the first only. An object keeps its members in
  document order. A \<open>float64\<close> is modelled by the real number it stands for: the
  package copies timing values and compares them with 0, nothing else.
\<close>

datatype json =
    JNull
  | JBool bool
  | JInt int
  | JFrac real
  | JStr string
  | JArr "json list"
  | JObj "(string \<times> json) list"

text \<open>The errors \<open>json.Unmarshal\<close> returns.\<close>

datatype json_err =
    SyntaxError
  | UnmarshalTypeError (ute_Value: string) (ute_Type: string) (ute_Field: string)
  | OtherError string

fun json_kind :: "json \<Rightarrow> string" where
  "json_kind JNull = ''null''"
| "json_kind (JBool b) = ''bool''"
| "json_kind (JInt n) = ''number''"
| "json_kind (JFrac r) = ''number''"
| "json_kind (JStr s) = ''string''"
| "json_kind (JArr xs) = ''array''"
| "json_kind (JObj ps) = ''object''"

type_synonym go_time = int

text \<open>
  A \<open>time.Time\<close> is the instant it denotes, counted from the zero time, so that
  \<open>IsZero\<close> is equality with 0.

  The functions of the Go standard library that read bytes or text are parameters of
  the model: the JSON scanner (bytes to a JSON value or a syntax error), the RFC 3339
  parser of \<open>time.Time.UnmarshalJSON\<close>, and \<open>url.Parse\<close>, of which only the error
  text is used. So is the order in which the runtime ranges over a
  \<open>map[string]string\<close>, which Go leaves unspecified: \<open>lib_range\<close> lists the
  entries of a map in the order of one \<open>range\<close> loop.
\<close>

record golib =
  lib_scan :: "string \<Rightarrow> json_err + json"
  lib_time :: "string \<Rightarrow> go_time option"
  lib_url_error :: "string \<Rightarrow> string option"
  lib_range :: "(string \<times> string) list \<Rightarrow> (string \<times> string) list"

definition IsZero :: "go_time \<Rightarrow> bool" where
  "IsZero t = (t = 0)"

section \<open>Errors\<close>

datatype ErrorCode =
    ErrCodeUnknown
  | ErrCodeFileSystem
  | ErrCodeJSONParse
  | ErrCodeInvalidFormat
  | ErrCodeValidation
  | ErrCodeMissingField
  | ErrCodeInvalidValue
  | ErrCodeUnsupported

text \<open>
  The message texts of the package are string literals in Chinese, some with a formatted
  argument. Each literal is one constructor of \<open>msg\<close>, named after what it says; a
  formatted argument is the constructor's argument.
\<close>

datatype msg =
    MsgInputEmpty
  | MsgInputNotJSON
  | MsgContentNotJSON
  | MsgHarIsNil
  | MsgStreamingUnsupported
  | MsgValidationFailed
  | MsgRequiredFieldMissing
  | MsgUnsupportedVersion string
  | MsgEntryNeedsStartTime
  | MsgRequestNeedsMethod
  | MsgRequestNeedsURL
  | MsgInvalidURLFormat string
  | MsgRequestNeedsVersion
  | MsgResponseNeedsStatus
  | MsgResponseNeedsVersion
  | MsgContentNeedsMimeType
  | MsgHeaderNeedsName
  | MsgCookieNeedsName
  | MsgWaitNegative
  | MsgReceiveNegative
  | MsgPageNeedsID
  | MsgPageNeedsStartTime
  | MsgTypeMismatch string string
  | MsgJSONSyntax
  | MsgJSONParseDetail string
  | MsgJSONParse
  | MsgLenientRoot
  | MsgCannotParseLog
  | MsgCannotParseVersion
  | MsgCannotParseCreator
  | MsgCannotParsePage nat
  | MsgCannotParsePages
  | MsgCannotParseEntry nat
  | MsgCannotParseEntries
  | MsgCannotLoadLazyContent
  | MsgFailedToParseHarBytes
  | MsgCannotParseHarData
  | MsgExpectedBracketAfterEntries

text \<open>
  \<open>HarError\<close>: code, message, wrapped cause, dotted field path and the partial errors.
  The metadata map (byte offsets, the offending value, the file path) is left out: no
  function of the package reads it back.
\<close>

datatype HarError =
  HarError (he_Code: ErrorCode) (he_Message: msg) (he_Err: "json_err option")
    (he_Field: string) (he_PartialErrors: "HarError list")

text \<open>
  A Go \<open>error\<close> value: a \<open>*HarError\<close>, an error of \<open>encoding/json\<close>, \<open>io.EOF\<close>,
  or an error built by \<open>fmt.Errorf\<close>, with (\<open>%w\<close>) or without a wrapped error.
\<close>

datatype go_error =
    ErrHar HarError
  | ErrJSON json_err
  | ErrEOF
  | ErrWrap msg go_error
  | ErrText msg

definition WithField :: "HarError \<Rightarrow> string \<Rightarrow> HarError" where
  "WithField e field =
     (case e of HarError c m w f ps \<Rightarrow>
        if f = [] then HarError c m w field ps
        else HarError c m w (field @ ''.'' @ f) ps)"

definition AddPartialError :: "HarError \<Rightarrow> HarError \<Rightarrow> HarError" where
  "AddPartialError e err = (case e of HarError c m w f ps \<Rightarrow> HarError c m w f (ps @ [err]))"

definition HasPartialErrors :: "HarError \<Rightarrow> bool" where
  "HasPartialErrors e = (0 < length (he_PartialErrors e))"

definition GetPartialErrors :: "HarError \<Rightarrow> HarError list" where
  "GetPartialErrors e = he_PartialErrors e"

definition NewHarError :: "ErrorCode \<Rightarrow> msg \<Rightarrow> json_err option \<Rightarrow> HarError" where
  "NewHarError code message err = HarError code message err [] []"

definition NewJSONParseError :: "msg \<Rightarrow> json_err option \<Rightarrow> HarError" where
  "NewJSONParseError message err = NewHarError ErrCodeJSONParse message err"

definition NewValidationError :: "msg \<Rightarrow> string \<Rightarrow> HarError" where
  "NewValidationError message field = WithField (NewHarError ErrCodeValidation message None) field"

definition NewInvalidFormatError :: "msg \<Rightarrow> HarError" where
  "NewInvalidFormatError message = NewHarError ErrCodeInvalidFormat message None"

definition NewMissingFieldError :: "string \<Rightarrow> HarError" where
  "NewMissingFieldError field =
     WithField (NewHarError ErrCodeMissingField MsgRequiredFieldMissing None) field"

definition NewUnsupportedError :: "msg \<Rightarrow> HarError" where
  "NewUnsupportedError message = NewHarError ErrCodeUnsupported message None"

definition ErrNotJsonContent :: HarError where
  "ErrNotJsonContent = NewInvalidFormatError MsgContentNotJSON"

text \<open>
  \<open>strings.Split(s, ":")\<close> as far as \<open>WrapJSONUnmarshalError\<close> uses it: the text
  between the first and the second colon, when there is a colon.
\<close>

definition after_first_colon :: "string \<Rightarrow> string option" where
  "after_first_colon s =
     (if CHR '':'' \<in> set s
      then Some (takeWhile (\<lambda>c. c \<noteq> CHR '':'') (tl (dropWhile (\<lambda>c. c \<noteq> CHR '':'') s)))
      else None)"

definition WrapJSONUnmarshalError :: "json_err \<Rightarrow> HarError" where
  "WrapJSONUnmarshalError err =
     (case err of
        UnmarshalTypeError v t f \<Rightarrow>
          WithField (NewJSONParseError (MsgTypeMismatch t v) (Some err)) f
      | SyntaxError \<Rightarrow> NewJSONParseError MsgJSONSyntax (Some err)
      | OtherError text \<Rightarrow>
          (if Contains text ''cannot unmarshal''
           then (case after_first_colon text of
                   Some part \<Rightarrow> NewJSONParseError (MsgJSONParseDetail (TrimSpace part)) (Some err)
                 | None \<Rightarrow> NewJSONParseError MsgJSONParse (Some err))
           else NewJSONParseError MsgJSONParse (Some err)))"

section \<open>The canonical data model\<close>

record Creator =
  cr_Name :: string
  cr_Version :: string

record PageTimings =
  pt_OnContentLoad :: real
  pt_OnLoad :: real
  pt_Comment :: string

record Pages =
  pg_StartedDateTime :: go_time
  pg_ID :: string
  pg_Title :: string
  pg_PageTimings :: PageTimings

record Headers =
  h_Name :: string
  h_Value :: string

record Cookie =
  ck_Name :: string
  ck_Value :: string
  ck_Path :: string
  ck_Domain :: string
  ck_Expires :: go_time
  ck_HTTPOnly :: bool
  ck_Secure :: bool
  ck_SameSite :: string

record Content =
  ct_Size :: int
  ct_MimeType :: string
  ct_Text :: string
  ct_Encoding :: string

text \<open>\<open>PostData\<close> and \<open>Error\<close> have type \<open>interface{}\<close>: nil or the decoded JSON value.\<close>

record Request =
  rq_Method :: string
  rq_URL :: string
  rq_HTTPVersion :: string
  rq_Cookies :: "Cookie list"
  rq_Headers :: "Headers list"
  rq_QueryString :: "Headers list"
  rq_PostData :: "json option"
  rq_HeadersSize :: int
  rq_BodySize :: int

record Response =
  rs_Status :: int
  rs_StatusText :: string
  rs_HTTPVersion :: string
  rs_Cookies :: "Cookie list"
  rs_Headers :: "Headers list"
  rs_Content :: Content
  rs_RedirectURL :: string
  rs_HeadersSize :: int
  rs_BodySize :: int
  rs_TransferSize :: int
  rs_Error :: "json option"

record BeforeRequest =
  br_Expires :: go_time
  br_LastAccess :: go_time
  br_ETag :: string
  br_HitCount :: int
  br_Comment :: string

record AfterRequest =
  ar_Expires :: go_time
  ar_LastAccess :: go_time
  ar_ETag :: string
  ar_HitCount :: int
  ar_Comment :: string

record Cache =
  ca_BeforeRequest :: "BeforeRequest option"
  ca_AfterRequest :: "AfterRequest option"
  ca_Comment :: string

record Timings =
  tm_Blocked :: real
  tm_DNS :: real
  tm_Connect :: real
  tm_Ssl :: real
  tm_Send :: real
  tm_Wait :: real
  tm_Receive :: real
  tm_BlockedQueueing :: real
  tm_BlockedProxy :: real

text \<open>
  \<open>Initiator\<close> is the Chrome DevTools extension field. Its \<open>stack\<close> (call frames and
  the chain of parent stacks) is kept as the JSON value read; nothing in the package
  looks inside it.
\<close>

record Initiator =
  in_Type :: string
  in_URL :: string
  in_LineNumber :: int
  in_Stack :: "json option"

record Entries =
  en_StartedDateTime :: go_time
  en_Time :: real
  en_Request :: Request
  en_Response :: Response
  en_Cache :: Cache
  en_Timings :: Timings
  en_Pageref :: string
  en_ServerIPAddress :: string
  en_Connection :: string
  en_Initiator :: Initiator
  en_Priority :: string
  en_ResourceType :: string

text \<open>
  \<open>Log.Entries\<close> is the one slice that the package tests for nil: \<open>None\<close> is the nil
  slice, \<open>Some []\<close> the empty one. Every other slice is a list.
\<close>

record Log =
  lg_Version :: string
  lg_Creator :: Creator
  lg_Pages :: "Pages list"
  lg_Entries :: "Entries list option"

record Har =
  hr_Log :: Log

definition slice :: "'a list option \<Rightarrow> 'a list" where
  "slice xs = (case xs of None \<Rightarrow> [] | Some ys \<Rightarrow> ys)"

subsection \<open>Zero values\<close>

definition zero_Creator :: Creator where
  "zero_Creator = \<lparr>cr_Name = [], cr_Version = []\<rparr>"

definition zero_PageTimings :: PageTimings where
  "zero_PageTimings = \<lparr>pt_OnContentLoad = 0, pt_OnLoad = 0, pt_Comment = []\<rparr>"

definition zero_Pages :: Pages where
  "zero_Pages = \<lparr>pg_StartedDateTime = 0, pg_ID = [], pg_Title = [], pg_PageTimings = zero_PageTimings\<rparr>"

definition zero_Headers :: Headers where
  "zero_Headers = \<lparr>h_Name = [], h_Value = []\<rparr>"

definition zero_Cookie :: Cookie where
  "zero_Cookie = \<lparr>ck_Name = [], ck_Value = [], ck_Path = [], ck_Domain = [], ck_Expires = 0,
     ck_HTTPOnly = False, ck_Secure = False, ck_SameSite = []\<rparr>"

definition zero_Content :: Content where
  "zero_Content = \<lparr>ct_Size = 0, ct_MimeType = [], ct_Text = [], ct_Encoding = []\<rparr>"

definition zero_Request :: Request where
  "zero_Request = \<lparr>rq_Method = [], rq_URL = [], rq_HTTPVersion = [], rq_Cookies = [],
     rq_Headers = [], rq_QueryString = [], rq_PostData = None, rq_HeadersSize = 0,
     rq_BodySize = 0\<rparr>"

definition zero_Response :: Response where
  "zero_Response = \<lparr>rs_Status = 0, rs_StatusText = [], rs_HTTPVersion = [], rs_Cookies = [],
     rs_Headers = [], rs_Content = zero_Content, rs_RedirectURL = [], rs_HeadersSize = 0,
     rs_BodySize = 0, rs_TransferSize = 0, rs_Error = None\<rparr>"

definition zero_BeforeRequest :: BeforeRequest where
  "zero_BeforeRequest = \<lparr>br_Expires = 0, br_LastAccess = 0, br_ETag = [], br_HitCount = 0,
     br_Comment = []\<rparr>"

definition zero_AfterRequest :: AfterRequest where
  "zero_AfterRequest = \<lparr>ar_Expires = 0, ar_LastAccess = 0, ar_ETag = [], ar_HitCount = 0,
     ar_Comment = []\<rparr>"

definition zero_Cache :: Cache where
  "zero_Cache = \<lparr>ca_BeforeRequest = None, ca_AfterRequest = None, ca_Comment = []\<rparr>"

definition zero_Timings :: Timings where
  "zero_Timings = \<lparr>tm_Blocked = 0, tm_DNS = 0, tm_Connect = 0, tm_Ssl = 0, tm_Send = 0,
     tm_Wait = 0, tm_Receive = 0, tm_BlockedQueueing = 0, tm_BlockedProxy = 0\<rparr>"

definition zero_Initiator :: Initiator where
  "zero_Initiator = \<lparr>in_Type = [], in_URL = [], in_LineNumber = 0, in_Stack = None\<rparr>"

definition zero_Entries :: Entries where
  "zero_Entries = \<lparr>en_StartedDateTime = 0, en_Time = 0, en_Request = zero_Request,
     en_Response = zero_Response, en_Cache = zero_Cache, en_Timings = zero_Timings,
     en_Pageref = [], en_ServerIPAddress = [], en_Connection = [],
     en_Initiator = zero_Initiator, en_Priority = [], en_ResourceType = []\<rparr>"

definition zero_Log :: Log where
  "zero_Log = \<lparr>lg_Version = [], lg_Creator = zero_Creator, lg_Pages = [], lg_Entries = None\<rparr>"

definition zero_Har :: Har where
  "zero_Har = \<lparr>hr_Log = zero_Log\<rparr>"

section \<open>Decoding JSON into the structs\<close>

text \<open>
  \<open>json.Unmarshal\<close> decodes into a value that already exists: a member of the document
  overwrites the field whose name it matches (under \<open>fold_key\<close>), members are taken in
  document order, a member that matches no field is skipped, \<open>null\<close> leaves a scalar or
  a struct as it is and sets a slice, a pointer or an interface to nil. A value of the
  wrong JSON type records an \<open>UnmarshalTypeError\<close> and decoding goes on; the first error
  recorded is returned at the end. An error returned by an \<open>UnmarshalJSON\<close> method
  (\<open>time.Time\<close>, \<open>LazyContent\<close>) stops decoding at once and is the error returned.

  A decoder returns \<open>Inl e\<close> when it was stopped by \<open>e\<close>, and otherwise
  \<open>Inr (first recorded error, decoded value)\<close>.
\<close>

type_synonym 'a dres = "json_err + (json_err option \<times> 'a)"

definition first_err :: "json_err option \<Rightarrow> json_err option \<Rightarrow> json_err option" where
  "first_err a b = (case a of Some e \<Rightarrow> Some e | None \<Rightarrow> b)"

text \<open>The field path of an \<open>UnmarshalTypeError\<close> is the path from the root struct.\<close>

fun add_ctx :: "string \<Rightarrow> json_err \<Rightarrow> json_err" where
  "add_ctx name (UnmarshalTypeError v t f) =
     UnmarshalTypeError v t (if f = [] then name else name @ ''.'' @ f)"
| "add_ctx name e = e"

definition fld ::
  "string \<Rightarrow> (json \<Rightarrow> 'f \<Rightarrow> 'f dres) \<Rightarrow> ('r \<Rightarrow> 'f) \<Rightarrow> ('f \<Rightarrow> 'r \<Rightarrow> 'r) \<Rightarrow> json \<Rightarrow> 'r \<Rightarrow> 'r dres" where
  "fld name dec get put v r =
     (case dec v (get r) of
        Inl e \<Rightarrow> Inl (add_ctx name e)
      | Inr (se, x) \<Rightarrow> Inr (map_option (add_ctx name) se, put x r))"

fun dec_members ::
  "(string \<Rightarrow> json \<Rightarrow> 'r \<Rightarrow> 'r dres) \<Rightarrow> (string \<times> json) list \<Rightarrow> json_err option \<times> 'r \<Rightarrow> 'r dres" where
  "dec_members step [] acc = Inr acc"
| "dec_members step ((k, v) # ps) (se, r) =
     (case step k v r of
        Inl e \<Rightarrow> Inl e
      | Inr (se', r') \<Rightarrow> dec_members step ps (first_err se se', r'))"

definition dec_obj ::
  "string \<Rightarrow> (string \<Rightarrow> json \<Rightarrow> 'r \<Rightarrow> 'r dres) \<Rightarrow> json \<Rightarrow> 'r \<Rightarrow> 'r dres" where
  "dec_obj tname step j r =
     (case j of
        JObj ps \<Rightarrow> dec_members step ps (None, r)
      | JNull \<Rightarrow> Inr (None, r)
      | _ \<Rightarrow> Inr (Some (UnmarshalTypeError (json_kind j) tname []), r))"

fun dec_elems ::
  "(json \<Rightarrow> 'a \<Rightarrow> 'a dres) \<Rightarrow> 'a \<Rightarrow> json list \<Rightarrow> json_err option \<times> 'a list \<Rightarrow> 'a list dres" where
  "dec_elems dec z [] acc = Inr acc"
| "dec_elems dec z (x # xs) (se, ys) =
     (case dec x z of
        Inl e \<Rightarrow> Inl e
      | Inr (se', y) \<Rightarrow> dec_elems dec z xs (first_err se se', ys @ [y]))"

definition dec_slice ::
  "string \<Rightarrow> (json \<Rightarrow> 'a \<Rightarrow> 'a dres) \<Rightarrow> 'a \<Rightarrow> json \<Rightarrow> 'a list \<Rightarrow> 'a list dres" where
  "dec_slice tname dec z j cur =
     (case j of
        JArr xs \<Rightarrow> dec_elems dec z xs (None, [])
      | JNull \<Rightarrow> Inr (None, [])
      | _ \<Rightarrow> Inr (Some (UnmarshalTypeError (json_kind j) tname []), cur))"

definition dec_nil_slice ::
  "string \<Rightarrow> (json \<Rightarrow> 'a \<Rightarrow> 'a dres) \<Rightarrow> 'a \<Rightarrow> json \<Rightarrow> 'a list option \<Rightarrow> 'a list option dres" where
  "dec_nil_slice tname dec z j cur =
     (case j of
        JArr xs \<Rightarrow>
          (case dec_elems dec z xs (None, []) of
             Inl e \<Rightarrow> Inl e
           | Inr (se, ys) \<Rightarrow> Inr (se, Some ys))
      | JNull \<Rightarrow> Inr (None, None)
      | _ \<Rightarrow> Inr (Some (UnmarshalTypeError (json_kind j) tname []), cur))"

definition dec_ptr :: "(json \<Rightarrow> 'a \<Rightarrow> 'a dres) \<Rightarrow> 'a \<Rightarrow> json \<Rightarrow> 'a option \<Rightarrow> 'a option dres" where
  "dec_ptr dec z j cur =
     (case j of
        JNull \<Rightarrow> Inr (None, None)
      | _ \<Rightarrow>
          (case dec j (case cur of None \<Rightarrow> z | Some x \<Rightarrow> x) of
             Inl e \<Rightarrow> Inl e
           | Inr (se, x) \<Rightarrow> Inr (se, Some x)))"

definition dec_string :: "json \<Rightarrow> string \<Rightarrow> string dres" where
  "dec_string j cur =
     (case j of
        JStr s \<Rightarrow> Inr (None, s)
      | JNull \<Rightarrow> Inr (None, cur)
      | _ \<Rightarrow> Inr (Some (UnmarshalTypeError (json_kind j) ''string'' []), cur))"

definition dec_bool :: "json \<Rightarrow> bool \<Rightarrow> bool dres" where
  "dec_bool j cur =
     (case j of
        JBool b \<Rightarrow> Inr (None, b)
      | JNull \<Rightarrow> Inr (None, cur)
      | _ \<Rightarrow> Inr (Some (UnmarshalTypeError (json_kind j) ''bool'' []), cur))"

text \<open>A Go \<open>int\<close> has 64 bits: an integer literal outside its range is a type error.\<close>

definition dec_int :: "json \<Rightarrow> int \<Rightarrow> int dres" where
  "dec_int j cur =
     (case j of
        JInt n \<Rightarrow>
          (if - 9223372036854775808 \<le> n \<and> n \<le> 9223372036854775807 then Inr (None, n)
           else Inr (Some (UnmarshalTypeError ''number'' ''int'' []), cur))
      | JNull \<Rightarrow> Inr (None, cur)
      | _ \<Rightarrow> Inr (Some (UnmarshalTypeError (json_kind j) ''int'' []), cur))"

definition dec_float64 :: "json \<Rightarrow> real \<Rightarrow> real dres" where
  "dec_float64 j cur =
     (case j of
        JInt n \<Rightarrow> Inr (None, of_int n)
      | JFrac x \<Rightarrow> Inr (None, x)
      | JNull \<Rightarrow> Inr (None, cur)
      | _ \<Rightarrow> Inr (Some (UnmarshalTypeError (json_kind j) ''float64'' []), cur))"

definition dec_any :: "json \<Rightarrow> json option \<Rightarrow> json option dres" where
  "dec_any j cur = (case j of JNull \<Rightarrow> Inr (None, None) | _ \<Rightarrow> Inr (None, Some j))"

definition dec_string_ptr :: "json \<Rightarrow> string option \<Rightarrow> string option dres" where
  "dec_string_ptr j cur =
     (case j of
        JStr s \<Rightarrow> Inr (None, Some s)
      | JNull \<Rightarrow> Inr (None, None)
      | _ \<Rightarrow> Inr (Some (UnmarshalTypeError (json_kind j) ''string'' []), cur))"

definition dec_time :: "golib \<Rightarrow> json \<Rightarrow> go_time \<Rightarrow> go_time dres" where
  "dec_time L j cur =
     (case j of
        JNull \<Rightarrow> Inr (None, cur)
      | JStr s \<Rightarrow>
          (case lib_time L s of
             Some t \<Rightarrow> Inr (None, t)
           | None \<Rightarrow> Inl (OtherError ''parsing time: cannot parse''))
      | _ \<Rightarrow> Inl (OtherError ''Time.UnmarshalJSON: input is not a JSON string''))"

text \<open>What \<open>json.Unmarshal\<close> returns for a decoder run on the zero value.\<close>

definition finish :: "'a dres \<Rightarrow> json_err + 'a" where
  "finish r =
     (case r of
        Inl e \<Rightarrow> Inl e
      | Inr (Some e, x) \<Rightarrow> Inl e
      | Inr (None, x) \<Rightarrow> Inr x)"

subsection \<open>One decoder for each struct, following its \<open>json\<close> tags\<close>

definition Creator_field :: "string \<Rightarrow> json \<Rightarrow> Creator \<Rightarrow> Creator dres" where
  "Creator_field k v r =
     (if key_is k ''name'' then fld ''name'' dec_string cr_Name (\<lambda>x r. r\<lparr>cr_Name := x\<rparr>) v r
      else if key_is k ''version'' then fld ''version'' dec_string cr_Version (\<lambda>x r. r\<lparr>cr_Version := x\<rparr>) v r
      else Inr (None, r))"

definition dec_Creator :: "json \<Rightarrow> Creator \<Rightarrow> Creator dres" where
  "dec_Creator = dec_obj ''har.Creator'' Creator_field"

definition PageTimings_field :: "string \<Rightarrow> json \<Rightarrow> PageTimings \<Rightarrow> PageTimings dres" where
  "PageTimings_field k v r =
     (if key_is k ''onContentLoad'' then fld ''onContentLoad'' dec_float64 pt_OnContentLoad (\<lambda>x r. r\<lparr>pt_OnContentLoad := x\<rparr>) v r
      else if key_is k ''onLoad'' then fld ''onLoad'' dec_float64 pt_OnLoad (\<lambda>x r. r\<lparr>pt_OnLoad := x\<rparr>) v r
      else if key_is k ''comment'' then fld ''comment'' dec_string pt_Comment (\<lambda>x r. r\<lparr>pt_Comment := x\<rparr>) v r
      else Inr (None, r))"

definition dec_PageTimings :: "json \<Rightarrow> PageTimings \<Rightarrow> PageTimings dres" where
  "dec_PageTimings = dec_obj ''har.PageTimings'' PageTimings_field"

definition Pages_field :: "golib \<Rightarrow> string \<Rightarrow> json \<Rightarrow> Pages \<Rightarrow> Pages dres" where
  "Pages_field L k v r =
     (if key_is k ''startedDateTime'' then fld ''startedDateTime'' (dec_time L) pg_StartedDateTime (\<lambda>x r. r\<lparr>pg_StartedDateTime := x\<rparr>) v r
      else if key_is k ''id'' then fld ''id'' dec_string pg_ID (\<lambda>x r. r\<lparr>pg_ID := x\<rparr>) v r
      else if key_is k ''title'' then fld ''title'' dec_string pg_Title (\<lambda>x r. r\<lparr>pg_Title := x\<rparr>) v r
      else if key_is k ''pageTimings'' then fld ''pageTimings'' dec_PageTimings pg_PageTimings (\<lambda>x r. r\<lparr>pg_PageTimings := x\<rparr>) v r
      else Inr (None, r))"

definition dec_Pages :: "golib \<Rightarrow> json \<Rightarrow> Pages \<Rightarrow> Pages dres" where
  "dec_Pages L = dec_obj ''har.Pages'' (Pages_field L)"

definition Headers_field :: "string \<Rightarrow> json \<Rightarrow> Headers \<Rightarrow> Headers dres" where
  "Headers_field k v r =
     (if key_is k ''name'' then fld ''name'' dec_string h_Name (\<lambda>x r. r\<lparr>h_Name := x\<rparr>) v r
      else if key_is k ''value'' then fld ''value'' dec_string h_Value (\<lambda>x r. r\<lparr>h_Value := x\<rparr>) v r
      else Inr (None, r))"

definition dec_Headers :: "json \<Rightarrow> Headers \<Rightarrow> Headers dres" where
  "dec_Headers = dec_obj ''har.Headers'' Headers_field"

definition Cookie_field :: "golib \<Rightarrow> string \<Rightarrow> json \<Rightarrow> Cookie \<Rightarrow> Cookie dres" where
  "Cookie_field L k v r =
     (if key_is k ''name'' then fld ''name'' dec_string ck_Name (\<lambda>x r. r\<lparr>ck_Name := x\<rparr>) v r
      else if key_is k ''value'' then fld ''value'' dec_string ck_Value (\<lambda>x r. r\<lparr>ck_Value := x\<rparr>) v r
      else if key_is k ''path'' then fld ''path'' dec_string ck_Path (\<lambda>x r. r\<lparr>ck_Path := x\<rparr>) v r
      else if key_is k ''domain'' then fld ''domain'' dec_string ck_Domain (\<lambda>x r. r\<lparr>ck_Domain := x\<rparr>) v r
      else if key_is k ''expires'' then fld ''expires'' (dec_time L) ck_Expires (\<lambda>x r. r\<lparr>ck_Expires := x\<rparr>) v r
      else if key_is k ''httpOnly'' then fld ''httpOnly'' dec_bool ck_HTTPOnly (\<lambda>x r. r\<lparr>ck_HTTPOnly := x\<rparr>) v r
      else if key_is k ''secure'' then fld ''secure'' dec_bool ck_Secure (\<lambda>x r. r\<lparr>ck_Secure := x\<rparr>) v r
      else if key_is k ''sameSite'' then fld ''sameSite'' dec_string ck_SameSite (\<lambda>x r. r\<lparr>ck_SameSite := x\<rparr>) v r
      else Inr (None, r))"

definition dec_Cookie :: "golib \<Rightarrow> json \<Rightarrow> Cookie \<Rightarrow> Cookie dres" where
  "dec_Cookie L = dec_obj ''har.Cookie'' (Cookie_field L)"

definition Content_field :: "string \<Rightarrow> json \<Rightarrow> Content \<Rightarrow> Content dres" where
  "Content_field k v r =
     (if key_is k ''size'' then fld ''size'' dec_int ct_Size (\<lambda>x r. r\<lparr>ct_Size := x\<rparr>) v r
      else if key_is k ''mimeType'' then fld ''mimeType'' dec_string ct_MimeType (\<lambda>x r. r\<lparr>ct_MimeType := x\<rparr>) v r
      else if key_is k ''text'' then fld ''text'' dec_string ct_Text (\<lambda>x r. r\<lparr>ct_Text := x\<rparr>) v r
      else if key_is k ''encoding'' then fld ''encoding'' dec_string ct_Encoding (\<lambda>x r. r\<lparr>ct_Encoding := x\<rparr>) v r
      else Inr (None, r))"

definition dec_Content :: "json \<Rightarrow> Content \<Rightarrow> Content dres" where
  "dec_Content = dec_obj ''har.Content'' Content_field"

definition Request_field :: "golib \<Rightarrow> string \<Rightarrow> json \<Rightarrow> Request \<Rightarrow> Request dres" where
  "Request_field L k v r =
     (if key_is k ''method'' then fld ''method'' dec_string rq_Method (\<lambda>x r. r\<lparr>rq_Method := x\<rparr>) v r
      else if key_is k ''url'' then fld ''url'' dec_string rq_URL (\<lambda>x r. r\<lparr>rq_URL := x\<rparr>) v r
      else if key_is k ''httpVersion'' then fld ''httpVersion'' dec_string rq_HTTPVersion (\<lambda>x r. r\<lparr>rq_HTTPVersion := x\<rparr>) v r
      else if key_is k ''cookies'' then fld ''cookies'' (dec_slice ''[]har.Cookie'' (dec_Cookie L) zero_Cookie) rq_Cookies (\<lambda>x r. r\<lparr>rq_Cookies := x\<rparr>) v r
      else if key_is k ''headers'' then fld ''headers'' (dec_slice ''[]har.Headers'' dec_Headers zero_Headers) rq_Headers (\<lambda>x r. r\<lparr>rq_Headers := x\<rparr>) v r
      else if key_is k ''queryString'' then fld ''queryString'' (dec_slice ''[]har.Headers'' dec_Headers zero_Headers) rq_QueryString (\<lambda>x r. r\<lparr>rq_QueryString := x\<rparr>) v r
      else if key_is k ''postData'' then fld ''postData'' dec_any rq_PostData (\<lambda>x r. r\<lparr>rq_PostData := x\<rparr>) v r
      else if key_is k ''headersSize'' then fld ''headersSize'' dec_int rq_HeadersSize (\<lambda>x r. r\<lparr>rq_HeadersSize := x\<rparr>) v r
      else if key_is k ''bodySize'' then fld ''bodySize'' dec_int rq_BodySize (\<lambda>x r. r\<lparr>rq_BodySize := x\<rparr>) v r
      else Inr (None, r))"

definition dec_Request :: "golib \<Rightarrow> json \<Rightarrow> Request \<Rightarrow> Request dres" where
  "dec_Request L = dec_obj ''har.Request'' (Request_field L)"

definition Response_field :: "golib \<Rightarrow> string \<Rightarrow> json \<Rightarrow> Response \<Rightarrow> Response dres" where
  "Response_field L k v r =
     (if key_is k ''status'' then fld ''status'' dec_int rs_Status (\<lambda>x r. r\<lparr>rs_Status := x\<rparr>) v r
      else if key_is k ''statusText'' then fld ''statusText'' dec_string rs_StatusText (\<lambda>x r. r\<lparr>rs_StatusText := x\<rparr>) v r
      else if key_is k ''httpVersion'' then fld ''httpVersion'' dec_string rs_HTTPVersion (\<lambda>x r. r\<lparr>rs_HTTPVersion := x\<rparr>) v r
      else if key_is k ''cookies'' then fld ''cookies'' (dec_slice ''[]har.Cookie'' (dec_Cookie L) zero_Cookie) rs_Cookies (\<lambda>x r. r\<lparr>rs_Cookies := x\<rparr>) v r
      else if key_is k ''headers'' then fld ''headers'' (dec_slice ''[]har.Headers'' dec_Headers zero_Headers) rs_Headers (\<lambda>x r. r\<lparr>rs_Headers := x\<rparr>) v r
      else if key_is k ''content'' then fld ''content'' dec_Content rs_Content (\<lambda>x r. r\<lparr>rs_Content := x\<rparr>) v r
      else if key_is k ''redirectURL'' then fld ''redirectURL'' dec_string rs_RedirectURL (\<lambda>x r. r\<lparr>rs_RedirectURL := x\<rparr>) v r
      else if key_is k ''headersSize'' then fld ''headersSize'' dec_int rs_HeadersSize (\<lambda>x r. r\<lparr>rs_HeadersSize := x\<rparr>) v r
      else if key_is k ''bodySize'' then fld ''bodySize'' dec_int rs_BodySize (\<lambda>x r. r\<lparr>rs_BodySize := x\<rparr>) v r
      else if key_is k ''_transferSize'' then fld ''_transferSize'' dec_int rs_TransferSize (\<lambda>x r. r\<lparr>rs_TransferSize := x\<rparr>) v r
      else if key_is k ''_error'' then fld ''_error'' dec_any rs_Error (\<lambda>x r. r\<lparr>rs_Error := x\<rparr>) v r
      else Inr (None, r))"

definition dec_Response :: "golib \<Rightarrow> json \<Rightarrow> Response \<Rightarrow> Response dres" where
  "dec_Response L = dec_obj ''har.Response'' (Response_field L)"

definition BeforeRequest_field :: "golib \<Rightarrow> string \<Rightarrow> json \<Rightarrow> BeforeRequest \<Rightarrow> BeforeRequest dres" where
  "BeforeRequest_field L k v r =
     (if key_is k ''expires'' then fld ''expires'' (dec_time L) br_Expires (\<lambda>x r. r\<lparr>br_Expires := x\<rparr>) v r
      else if key_is k ''lastAccess'' then fld ''lastAccess'' (dec_time L) br_LastAccess (\<lambda>x r. r\<lparr>br_LastAccess := x\<rparr>) v r
      else if key_is k ''eTag'' then fld ''eTag'' dec_string br_ETag (\<lambda>x r. r\<lparr>br_ETag := x\<rparr>) v r
      else if key_is k ''hitCount'' then fld ''hitCount'' dec_int br_HitCount (\<lambda>x r. r\<lparr>br_HitCount := x\<rparr>) v r
      else if key_is k ''comment'' then fld ''comment'' dec_string br_Comment (\<lambda>x r. r\<lparr>br_Comment := x\<rparr>) v r
      else Inr (None, r))"

definition dec_BeforeRequest :: "golib \<Rightarrow> json \<Rightarrow> BeforeRequest \<Rightarrow> BeforeRequest dres" where
  "dec_BeforeRequest L = dec_obj ''har.BeforeRequest'' (BeforeRequest_field L)"

definition AfterRequest_field :: "golib \<Rightarrow> string \<Rightarrow> json \<Rightarrow> AfterRequest \<Rightarrow> AfterRequest dres" where
  "AfterRequest_field L k v r =
     (if key_is k ''expires'' then fld ''expires'' (dec_time L) ar_Expires (\<lambda>x r. r\<lparr>ar_Expires := x\<rparr>) v r
      else if key_is k ''lastAccess'' then fld ''lastAccess'' (dec_time L) ar_LastAccess (\<lambda>x r. r\<lparr>ar_LastAccess := x\<rparr>) v r
      else if key_is k ''eTag'' then fld ''eTag'' dec_string ar_ETag (\<lambda>x r. r\<lparr>ar_ETag := x\<rparr>) v r
      else if key_is k ''hitCount'' then fld ''hitCount'' dec_int ar_HitCount (\<lambda>x r. r\<lparr>ar_HitCount := x\<rparr>) v r
      else if key_is k ''comment'' then fld ''comment'' dec_string ar_Comment (\<lambda>x r. r\<lparr>ar_Comment := x\<rparr>) v r
      else Inr (None, r))"

definition dec_AfterRequest :: "golib \<Rightarrow> json \<Rightarrow> AfterRequest \<Rightarrow> AfterRequest dres" where
  "dec_AfterRequest L = dec_obj ''har.AfterRequest'' (AfterRequest_field L)"

definition Cache_field :: "golib \<Rightarrow> string \<Rightarrow> json \<Rightarrow> Cache \<Rightarrow> Cache dres" where
  "Cache_field L k v r =
     (if key_is k ''beforeRequest'' then fld ''beforeRequest'' (dec_ptr (dec_BeforeRequest L) zero_BeforeRequest) ca_BeforeRequest (\<lambda>x r. r\<lparr>ca_BeforeRequest := x\<rparr>) v r
      else if key_is k ''afterRequest'' then fld ''afterRequest'' (dec_ptr (dec_AfterRequest L) zero_AfterRequest) ca_AfterRequest (\<lambda>x r. r\<lparr>ca_AfterRequest := x\<rparr>) v r
      else if key_is k ''comment'' then fld ''comment'' dec_string ca_Comment (\<lambda>x r. r\<lparr>ca_Comment := x\<rparr>) v r
      else Inr (None, r))"

definition dec_Cache :: "golib \<Rightarrow> json \<Rightarrow> Cache \<Rightarrow> Cache dres" where
  "dec_Cache L = dec_obj ''har.Cache'' (Cache_field L)"

definition Timings_field :: "string \<Rightarrow> json \<Rightarrow> Timings \<Rightarrow> Timings dres" where
  "Timings_field k v r =
     (if key_is k ''blocked'' then fld ''blocked'' dec_float64 tm_Blocked (\<lambda>x r. r\<lparr>tm_Blocked := x\<rparr>) v r
      else if key_is k ''dns'' then fld ''dns'' dec_float64 tm_DNS (\<lambda>x r. r\<lparr>tm_DNS := x\<rparr>) v r
      else if key_is k ''connect'' then fld ''connect'' dec_float64 tm_Connect (\<lambda>x r. r\<lparr>tm_Connect := x\<rparr>) v r
      else if key_is k ''ssl'' then fld ''ssl'' dec_float64 tm_Ssl (\<lambda>x r. r\<lparr>tm_Ssl := x\<rparr>) v r
      else if key_is k ''send'' then fld ''send'' dec_float64 tm_Send (\<lambda>x r. r\<lparr>tm_Send := x\<rparr>) v r
      else if key_is k ''wait'' then fld ''wait'' dec_float64 tm_Wait (\<lambda>x r. r\<lparr>tm_Wait := x\<rparr>) v r
      else if key_is k ''receive'' then fld ''receive'' dec_float64 tm_Receive (\<lambda>x r. r\<lparr>tm_Receive := x\<rparr>) v r
      else if key_is k ''_blocked_queueing'' then fld ''_blocked_queueing'' dec_float64 tm_BlockedQueueing (\<lambda>x r. r\<lparr>tm_BlockedQueueing := x\<rparr>) v r
      else if key_is k ''_blocked_proxy'' then fld ''_blocked_proxy'' dec_float64 tm_BlockedProxy (\<lambda>x r. r\<lparr>tm_BlockedProxy := x\<rparr>) v r
      else Inr (None, r))"

definition dec_Timings :: "json \<Rightarrow> Timings \<Rightarrow> Timings dres" where
  "dec_Timings = dec_obj ''har.Timings'' Timings_field"

definition Initiator_field :: "string \<Rightarrow> json \<Rightarrow> Initiator \<Rightarrow> Initiator dres" where
  "Initiator_field k v r =
     (if key_is k ''type'' then fld ''type'' dec_string in_Type (\<lambda>x r. r\<lparr>in_Type := x\<rparr>) v r
      else if key_is k ''url'' then fld ''url'' dec_string in_URL (\<lambda>x r. r\<lparr>in_URL := x\<rparr>) v r
      else if key_is k ''lineNumber'' then fld ''lineNumber'' dec_int in_LineNumber (\<lambda>x r. r\<lparr>in_LineNumber := x\<rparr>) v r
      else if key_is k ''stack'' then fld ''stack'' dec_any in_Stack (\<lambda>x r. r\<lparr>in_Stack := x\<rparr>) v r
      else Inr (None, r))"

definition dec_Initiator :: "json \<Rightarrow> Initiator \<Rightarrow> Initiator dres" where
  "dec_Initiator = dec_obj ''har.Initiator'' Initiator_field"

definition Entries_field :: "golib \<Rightarrow> string \<Rightarrow> json \<Rightarrow> Entries \<Rightarrow> Entries dres" where
  "Entries_field L k v r =
     (if key_is k ''startedDateTime'' then fld ''startedDateTime'' (dec_time L) en_StartedDateTime (\<lambda>x r. r\<lparr>en_StartedDateTime := x\<rparr>) v r
      else if key_is k ''time'' then fld ''time'' dec_float64 en_Time (\<lambda>x r. r\<lparr>en_Time := x\<rparr>) v r
      else if key_is k ''request'' then fld ''request'' (dec_Request L) en_Request (\<lambda>x r. r\<lparr>en_Request := x\<rparr>) v r
      else if key_is k ''response'' then fld ''response'' (dec_Response L) en_Response (\<lambda>x r. r\<lparr>en_Response := x\<rparr>) v r
      else if key_is k ''cache'' then fld ''cache'' (dec_Cache L) en_Cache (\<lambda>x r. r\<lparr>en_Cache := x\<rparr>) v r
      else if key_is k ''timings'' then fld ''timings'' dec_Timings en_Timings (\<lambda>x r. r\<lparr>en_Timings := x\<rparr>) v r
      else if key_is k ''pageref'' then fld ''pageref'' dec_string en_Pageref (\<lambda>x r. r\<lparr>en_Pageref := x\<rparr>) v r
      else if key_is k ''serverIPAddress'' then fld ''serverIPAddress'' dec_string en_ServerIPAddress (\<lambda>x r. r\<lparr>en_ServerIPAddress := x\<rparr>) v r
      else if key_is k ''connection'' then fld ''connection'' dec_string en_Connection (\<lambda>x r. r\<lparr>en_Connection := x\<rparr>) v r
      else if key_is k ''_initiator'' then fld ''_initiator'' dec_Initiator en_Initiator (\<lambda>x r. r\<lparr>en_Initiator := x\<rparr>) v r
      else if key_is k ''_priority'' then fld ''_priority'' dec_string en_Priority (\<lambda>x r. r\<lparr>en_Priority := x\<rparr>) v r
      else if key_is k ''_resourceType'' then fld ''_resourceType'' dec_string en_ResourceType (\<lambda>x r. r\<lparr>en_ResourceType := x\<rparr>) v r
      else Inr (None, r))"

definition dec_Entries :: "golib \<Rightarrow> json \<Rightarrow> Entries \<Rightarrow> Entries dres" where
  "dec_Entries L = dec_obj ''har.Entries'' (Entries_field L)"

definition Log_field :: "golib \<Rightarrow> string \<Rightarrow> json \<Rightarrow> Log \<Rightarrow> Log dres" where
  "Log_field L k v r =
     (if key_is k ''version'' then fld ''version'' dec_string lg_Version (\<lambda>x r. r\<lparr>lg_Version := x\<rparr>) v r
      else if key_is k ''creator'' then fld ''creator'' dec_Creator lg_Creator (\<lambda>x r. r\<lparr>lg_Creator := x\<rparr>) v r
      else if key_is k ''pages'' then fld ''pages'' (dec_slice ''[]har.Pages'' (dec_Pages L) zero_Pages) lg_Pages (\<lambda>x r. r\<lparr>lg_Pages := x\<rparr>) v r
      else if key_is k ''entries'' then fld ''entries'' (dec_nil_slice ''[]har.Entries'' (dec_Entries L) zero_Entries) lg_Entries (\<lambda>x r. r\<lparr>lg_Entries := x\<rparr>) v r
      else Inr (None, r))"

definition dec_Log :: "golib \<Rightarrow> json \<Rightarrow> Log \<Rightarrow> Log dres" where
  "dec_Log L = dec_obj ''har.Log'' (Log_field L)"

definition Har_field :: "golib \<Rightarrow> string \<Rightarrow> json \<Rightarrow> Har \<Rightarrow> Har dres" where
  "Har_field L k v r =
     (if key_is k ''log'' then fld ''log'' (dec_Log L) hr_Log (\<lambda>x r. r\<lparr>hr_Log := x\<rparr>) v r
      else Inr (None, r))"

definition dec_Har :: "golib \<Rightarrow> json \<Rightarrow> Har \<Rightarrow> Har dres" where
  "dec_Har L = dec_obj ''har.Har'' (Har_field L)"

text \<open>\<open>json.Unmarshal(bytes, &x)\<close>: scan the bytes, then decode into the zero value.\<close>

definition Unmarshal :: "golib \<Rightarrow> (json \<Rightarrow> 'a \<Rightarrow> 'a dres) \<Rightarrow> 'a \<Rightarrow> string \<Rightarrow> json_err + 'a" where
  "Unmarshal L dec z bytes =
     (case lib_scan L bytes of
        Inl e \<Rightarrow> Inl e
      | Inr j \<Rightarrow> finish (dec j z))"

section \<open>Validation (validator.go)\<close>

definition HarSpecVersion11 :: string where "HarSpecVersion11 = ''1.1''"
definition HarSpecVersion12 :: string where "HarSpecVersion12 = ''1.2''"
definition HarSpecVersion13 :: string where "HarSpecVersion13 = ''1.3''"

text \<open>
  The validators receive \<open>rootError\<close> by pointer and add partial errors to it; here they
  take the error and return it updated. \<open>idx path i\<close> is
  \<open>fmt.Sprintf("%s[%d]", path, i)\<close>.
\<close>

definition idx :: "string \<Rightarrow> nat \<Rightarrow> string" where
  "idx path i = path @ ''['' @ digits i @ '']''"

definition validateBasicStructure :: "Har \<Rightarrow> HarError \<Rightarrow> HarError \<times> HarError option" where
  "validateBasicStructure har rootError =
     (let r1 = (if lg_Version (hr_Log har) = []
                then AddPartialError rootError (NewMissingFieldError ''log.version'')
                else rootError);
          r2 = (if cr_Name (lg_Creator (hr_Log har)) = []
                then AddPartialError r1 (NewMissingFieldError ''log.creator.name'')
                else r1);
          r3 = (if cr_Version (lg_Creator (hr_Log har)) = []
                then AddPartialError r2 (NewMissingFieldError ''log.creator.version'')
                else r2);
          r4 = (if lg_Entries (hr_Log har) = None
                then AddPartialError r3 (NewMissingFieldError ''log.entries'')
                else r3)
      in if HasPartialErrors r4 then (r4, Some r4) else (r4, None))"

definition validateHarV11 :: "Har \<Rightarrow> HarError \<Rightarrow> HarError" where
  "validateHarV11 har rootError = rootError"

definition validateHarV12 :: "Har \<Rightarrow> HarError \<Rightarrow> HarError" where
  "validateHarV12 har rootError = rootError"

definition validateHarV13 :: "Har \<Rightarrow> HarError \<Rightarrow> HarError" where
  "validateHarV13 har rootError = rootError"

fun validateHeaders_from :: "nat \<Rightarrow> Headers list \<Rightarrow> string \<Rightarrow> HarError \<Rightarrow> HarError" where
  "validateHeaders_from i [] fieldPath rootError = rootError"
| "validateHeaders_from i (header # rest) fieldPath rootError =
     validateHeaders_from (Suc i) rest fieldPath
       (if h_Name header = []
        then AddPartialError rootError
               (NewValidationError MsgHeaderNeedsName (idx fieldPath i @ ''.name''))
        else rootError)"

definition validateHeaders :: "Headers list \<Rightarrow> string \<Rightarrow> HarError \<Rightarrow> HarError" where
  "validateHeaders headers fieldPath rootError = validateHeaders_from 0 headers fieldPath rootError"

fun validateCookies_from :: "nat \<Rightarrow> Cookie list \<Rightarrow> string \<Rightarrow> HarError \<Rightarrow> HarError" where
  "validateCookies_from i [] fieldPath rootError = rootError"
| "validateCookies_from i (cookie # rest) fieldPath rootError =
     validateCookies_from (Suc i) rest fieldPath
       (if ck_Name cookie = []
        then AddPartialError rootError
               (NewValidationError MsgCookieNeedsName (idx fieldPath i @ ''.name''))
        else rootError)"

definition validateCookies :: "Cookie list \<Rightarrow> string \<Rightarrow> HarError \<Rightarrow> HarError" where
  "validateCookies cookies fieldPath rootError = validateCookies_from 0 cookies fieldPath rootError"

definition validateRequest :: "golib \<Rightarrow> Request \<Rightarrow> string \<Rightarrow> HarError \<Rightarrow> HarError" where
  "validateRequest L req fieldPath rootError =
     (let r1 = (if rq_Method req = []
                then AddPartialError rootError
                       (NewValidationError MsgRequestNeedsMethod (fieldPath @ ''.method''))
                else rootError);
          r2 = (if rq_URL req = []
                then AddPartialError r1
                       (NewValidationError MsgRequestNeedsURL (fieldPath @ ''.url''))
                else (case lib_url_error L (rq_URL req) of
                        Some text \<Rightarrow>
                          AddPartialError r1
                            (NewValidationError (MsgInvalidURLFormat text) (fieldPath @ ''.url''))
                      | None \<Rightarrow> r1));
          r3 = (if rq_HTTPVersion req = []
                then AddPartialError r2
                       (NewValidationError MsgRequestNeedsVersion (fieldPath @ ''.httpVersion''))
                else r2);
          r4 = validateHeaders (rq_Headers req) (fieldPath @ ''.headers'') r3
      in validateCookies (rq_Cookies req) (fieldPath @ ''.cookies'') r4)"

definition validateContent :: "Content \<Rightarrow> string \<Rightarrow> HarError \<Rightarrow> HarError" where
  "validateContent content fieldPath rootError =
     (if ct_MimeType content = []
      then AddPartialError rootError
             (NewValidationError MsgContentNeedsMimeType (fieldPath @ ''.mimeType''))
      else rootError)"

definition validateResponse :: "Response \<Rightarrow> string \<Rightarrow> HarError \<Rightarrow> HarError" where
  "validateResponse resp fieldPath rootError =
     (let r1 = (if rs_Status resp \<le> 0
                then AddPartialError rootError
                       (NewValidationError MsgResponseNeedsStatus (fieldPath @ ''.status''))
                else rootError);
          r2 = (if rs_HTTPVersion resp = []
                then AddPartialError r1
                       (NewValidationError MsgResponseNeedsVersion (fieldPath @ ''.httpVersion''))
                else r1);
          r3 = validateContent (rs_Content resp) (fieldPath @ ''.content'') r2;
          r4 = validateHeaders (rs_Headers resp) (fieldPath @ ''.headers'') r3
      in validateCookies (rs_Cookies resp) (fieldPath @ ''.cookies'') r4)"

definition validateTimings :: "Timings \<Rightarrow> string \<Rightarrow> HarError \<Rightarrow> HarError" where
  "validateTimings timings fieldPath rootError =
     (let r1 = (if tm_Wait timings < 0
                then AddPartialError rootError
                       (NewValidationError MsgWaitNegative (fieldPath @ ''.wait''))
                else rootError)
      in if tm_Receive timings < 0
         then AddPartialError r1
                (NewValidationError MsgReceiveNegative (fieldPath @ ''.receive''))
         else r1)"

fun validateEntries_from :: "golib \<Rightarrow> nat \<Rightarrow> Entries list \<Rightarrow> HarError \<Rightarrow> HarError" where
  "validateEntries_from L i [] rootError = rootError"
| "validateEntries_from L i (entry # rest) rootError =
     (let entryPrefix = idx ''log.entries'' i;
          r1 = (if IsZero (en_StartedDateTime entry)
                then AddPartialError rootError
                       (NewValidationError MsgEntryNeedsStartTime (entryPrefix @ ''.startedDateTime''))
                else rootError);
          r2 = validateRequest L (en_Request entry) (entryPrefix @ ''.request'') r1;
          r3 = validateResponse (en_Response entry) (entryPrefix @ ''.response'') r2;
          r4 = validateTimings (en_Timings entry) (entryPrefix @ ''.timings'') r3
      in validateEntries_from L (Suc i) rest r4)"

definition validateEntries :: "golib \<Rightarrow> Entries list \<Rightarrow> HarError \<Rightarrow> HarError" where
  "validateEntries L entries rootError = validateEntries_from L 0 entries rootError"

definition validatePageTimings :: "PageTimings \<Rightarrow> string \<Rightarrow> HarError \<Rightarrow> HarError" where
  "validatePageTimings timings fieldPath rootError = rootError"

fun validatePages_from :: "nat \<Rightarrow> Pages list \<Rightarrow> HarError \<Rightarrow> HarError" where
  "validatePages_from i [] rootError = rootError"
| "validatePages_from i (page # rest) rootError =
     (let pagePath = idx ''log.pages'' i;
          r1 = (if pg_ID page = []
                then AddPartialError rootError
                       (NewValidationError MsgPageNeedsID (pagePath @ ''.id''))
                else rootError);
          r2 = (if IsZero (pg_StartedDateTime page)
                then AddPartialError r1
                       (NewValidationError MsgPageNeedsStartTime (pagePath @ ''.startedDateTime''))
                else r1);
          r3 = validatePageTimings (pg_PageTimings page) (pagePath @ ''.pageTimings'') r2
      in validatePages_from (Suc i) rest r3)"

definition validatePages :: "Pages list \<Rightarrow> HarError \<Rightarrow> HarError" where
  "validatePages pages rootError = validatePages_from 0 pages rootError"

text \<open>The \<open>switch\<close> on the version inside \<open>ValidateHarFile\<close>.\<close>

definition validateVersion :: "Har \<Rightarrow> HarError \<Rightarrow> HarError" where
  "validateVersion har rootError =
     (let v = lg_Version (hr_Log har)
      in if v = HarSpecVersion11 then validateHarV11 har rootError
         else if v = HarSpecVersion12 then validateHarV12 har rootError
         else if v = HarSpecVersion13 then validateHarV13 har rootError
         else AddPartialError rootError
                (NewValidationError (MsgUnsupportedVersion v) ''log.version''))"

definition validationRoot :: HarError where
  "validationRoot = HarError ErrCodeValidation MsgValidationFailed None [] []"

text \<open>\<open>ValidateHarFile\<close> takes a \<open>*Har\<close> (\<open>None\<close> is nil) and returns an \<open>error\<close> (\<open>None\<close> is nil).\<close>

definition ValidateHarFile :: "golib \<Rightarrow> Har option \<Rightarrow> HarError option" where
  "ValidateHarFile L h =
     (case h of
        None \<Rightarrow> Some (NewInvalidFormatError MsgHarIsNil)
      | Some har \<Rightarrow>
          (case validateBasicStructure har validationRoot of
             (r0, Some err) \<Rightarrow> Some err
           | (r0, None) \<Rightarrow>
               (let r1 = validateVersion har r0;
                    r2 = validateEntries L (slice (lg_Entries (hr_Log har))) r1;
                    r3 = validatePages (lg_Pages (hr_Log har)) r2
                in if HasPartialErrors r3 then Some r3 else None)))"

definition IsValidHarVersion :: "string \<Rightarrow> bool" where
  "IsValidHarVersion version =
     (version = HarSpecVersion11 \<or> version = HarSpecVersion12 \<or> version = HarSpecVersion13)"

definition DetectHarVersion :: "Har option \<Rightarrow> string" where
  "DetectHarVersion h =
     (case h of
        None \<Rightarrow> HarSpecVersion12
      | Some har \<Rightarrow>
          if lg_Version (hr_Log har) = [] then HarSpecVersion12
          else (let version = TrimSpace (lg_Version (hr_Log har))
                in if IsValidHarVersion version then version
                   else if HasPrefix version ''1.1'' then HarSpecVersion11
                   else if HasPrefix version ''1.2'' then HarSpecVersion12
                   else if HasPrefix version ''1.3'' then HarSpecVersion13
                   else HarSpecVersion12))"

section \<open>Strict and lenient parsing (har.go, enhanced parse)\<close>

text \<open>
  A Go result \<open>(*T, error)\<close> is a pair of options: \<open>None\<close> is nil on either side, and
  both sides can be present.
\<close>

type_synonym 'a result = "'a option \<times> go_error option"

definition isJSONContent :: "string \<Rightarrow> bool" where
  "isJSONContent content =
     (let trimmed = TrimSpace content
      in (HasPrefix trimmed ''{'' \<and> HasSuffix trimmed ''}'') \<or>
         (HasPrefix trimmed ''['' \<and> HasSuffix trimmed '']''))"

definition ParseHar :: "golib \<Rightarrow> string \<Rightarrow> Har result" where
  "ParseHar L harFileBytes =
     (if length harFileBytes = 0 then (None, Some (ErrHar (NewInvalidFormatError MsgInputEmpty)))
      else if \<not> isJSONContent harFileBytes then (None, Some (ErrHar ErrNotJsonContent))
      else (case Unmarshal L (dec_Har L) zero_Har harFileBytes of
              Inl err \<Rightarrow> (None, Some (ErrHar (WrapJSONUnmarshalError err)))
            | Inr har \<Rightarrow>
                (case ValidateHarFile L (Some har) of
                   Some err \<Rightarrow> (None, Some (ErrHar err))
                 | None \<Rightarrow> (Some har, None))))"

record ParseOptions =
  po_Lenient :: bool
  po_SkipValidation :: bool
  po_CollectWarnings :: bool
  po_MaxWarnings :: int

definition DefaultParseOptions :: ParseOptions where
  "DefaultParseOptions =
     \<lparr>po_Lenient = False, po_SkipValidation = False, po_CollectWarnings = False,
      po_MaxWarnings = 100\<rparr>"

definition validateHar :: "golib \<Rightarrow> Har option \<Rightarrow> HarError option" where
  "validateHar L h =
     (case h of
        None \<Rightarrow> Some (NewInvalidFormatError MsgHarIsNil)
      | Some har \<Rightarrow> ValidateHarFile L (Some har))"

text \<open>
  \<open>json.Unmarshal\<close> into a \<open>map[string]json.RawMessage\<close> or a \<open>[]json.RawMessage\<close>:
  a raw message is the JSON value itself; of two members with the same key the map
  keeps the later one; \<open>null\<close> gives the nil map or slice without an error.
\<close>

definition dec_raw_map :: "json \<Rightarrow> json_err + (string \<rightharpoonup> json)" where
  "dec_raw_map j =
     (case j of
        JObj ps \<Rightarrow> Inr (map_of (rev ps))
      | JNull \<Rightarrow> Inr Map.empty
      | _ \<Rightarrow> Inl (UnmarshalTypeError (json_kind j) ''map[string]json.RawMessage'' []))"

definition dec_raw_slice :: "json \<Rightarrow> json_err + json list" where
  "dec_raw_slice j =
     (case j of
        JArr xs \<Rightarrow> Inr xs
      | JNull \<Rightarrow> Inr []
      | _ \<Rightarrow> Inl (UnmarshalTypeError (json_kind j) ''[]json.RawMessage'' []))"

text \<open>
  The state of \<open>parseLenient\<close> is the archive under construction and \<open>rootError\<close>.
  The loops over the raw pages and the raw entries:
\<close>

fun lenient_pages :: "golib \<Rightarrow> nat \<Rightarrow> json list \<Rightarrow> Har \<times> HarError \<Rightarrow> Har \<times> HarError" where
  "lenient_pages L i [] st = st"
| "lenient_pages L i (pageBytes # rest) (har, rootError) =
     lenient_pages L (Suc i) rest
       (case finish (dec_Pages L pageBytes zero_Pages) of
          Inr page \<Rightarrow>
            (har\<lparr>hr_Log := (hr_Log har)\<lparr>lg_Pages := lg_Pages (hr_Log har) @ [page]\<rparr>\<rparr>, rootError)
        | Inl err \<Rightarrow>
            (har, AddPartialError rootError
                    (WithField (NewJSONParseError (MsgCannotParsePage (i + 1)) (Some err))
                       (idx ''log.pages'' i))))"

fun lenient_entries :: "golib \<Rightarrow> nat \<Rightarrow> json list \<Rightarrow> Har \<times> HarError \<Rightarrow> Har \<times> HarError" where
  "lenient_entries L i [] st = st"
| "lenient_entries L i (entryBytes # rest) (har, rootError) =
     lenient_entries L (Suc i) rest
       (case finish (dec_Entries L entryBytes zero_Entries) of
          Inr entry \<Rightarrow>
            (har\<lparr>hr_Log := (hr_Log har)
                    \<lparr>lg_Entries := Some (slice (lg_Entries (hr_Log har)) @ [entry])\<rparr>\<rparr>, rootError)
        | Inl err \<Rightarrow>
            (har, AddPartialError rootError
                    (WithField (NewJSONParseError (MsgCannotParseEntry (i + 1)) (Some err))
                       (idx ''log.entries'' i))))"

definition lenient_version :: "(string \<rightharpoonup> json) \<Rightarrow> Har \<times> HarError \<Rightarrow> Har \<times> HarError" where
  "lenient_version logData st =
     (case st of (har, rootError) \<Rightarrow>
        (case logData ''version'' of
           None \<Rightarrow> st
         | Some versionBytes \<Rightarrow>
             (case finish (dec_string versionBytes []) of
                Inr version \<Rightarrow> (har\<lparr>hr_Log := (hr_Log har)\<lparr>lg_Version := version\<rparr>\<rparr>, rootError)
              | Inl err \<Rightarrow>
                  (har, AddPartialError rootError
                          (WithField (NewJSONParseError MsgCannotParseVersion (Some err))
                             ''log.version'')))))"

definition lenient_creator :: "(string \<rightharpoonup> json) \<Rightarrow> Har \<times> HarError \<Rightarrow> Har \<times> HarError" where
  "lenient_creator logData st =
     (case st of (har, rootError) \<Rightarrow>
        (case logData ''creator'' of
           None \<Rightarrow> st
         | Some creatorBytes \<Rightarrow>
             (case finish (dec_Creator creatorBytes zero_Creator) of
                Inr creator \<Rightarrow> (har\<lparr>hr_Log := (hr_Log har)\<lparr>lg_Creator := creator\<rparr>\<rparr>, rootError)
              | Inl err \<Rightarrow>
                  (har, AddPartialError rootError
                          (WithField (NewJSONParseError MsgCannotParseCreator (Some err))
                             ''log.creator'')))))"

definition lenient_pages_field :: "golib \<Rightarrow> (string \<rightharpoonup> json) \<Rightarrow> Har \<times> HarError \<Rightarrow> Har \<times> HarError" where
  "lenient_pages_field L logData st =
     (case st of (har, rootError) \<Rightarrow>
        (case logData ''pages'' of
           None \<Rightarrow> st
         | Some pagesBytes \<Rightarrow>
             (case dec_raw_slice pagesBytes of
                Inr pages \<Rightarrow> lenient_pages L 0 pages st
              | Inl err \<Rightarrow>
                  (har, AddPartialError rootError
                          (WithField (NewJSONParseError MsgCannotParsePages (Some err))
                             ''log.pages'')))))"

definition lenient_entries_field :: "golib \<Rightarrow> (string \<rightharpoonup> json) \<Rightarrow> Har \<times> HarError \<Rightarrow> Har \<times> HarError" where
  "lenient_entries_field L logData st =
     (case st of (har, rootError) \<Rightarrow>
        (case logData ''entries'' of
           None \<Rightarrow> st
         | Some entriesBytes \<Rightarrow>
             (case dec_raw_slice entriesBytes of
                Inr entries \<Rightarrow> lenient_entries L 0 entries st
              | Inl err \<Rightarrow>
                  (har, AddPartialError rootError
                          (WithField (NewJSONParseError MsgCannotParseEntries (Some err))
                             ''log.entries'')))))"

text \<open>The part of \<open>parseLenient\<close> that reads the \<open>log\<close> field of the top-level map.\<close>

definition lenient_log :: "golib \<Rightarrow> (string \<rightharpoonup> json) \<Rightarrow> Har \<times> HarError \<Rightarrow> Har \<times> HarError" where
  "lenient_log L rawData st =
     (case st of (har, rootError) \<Rightarrow>
        (case rawData ''log'' of
           Some logBytes \<Rightarrow>
             (case dec_raw_map logBytes of
                Inl err \<Rightarrow>
                  (har, AddPartialError rootError
                          (WithField (NewJSONParseError MsgCannotParseLog (Some err)) ''log''))
              | Inr logData \<Rightarrow>
                  lenient_entries_field L logData
                    (lenient_pages_field L logData
                      (lenient_creator logData (lenient_version logData st))))
         | None \<Rightarrow> (har, AddPartialError rootError (NewMissingFieldError ''log''))))"

definition lenient_start :: "Har \<times> HarError" where
  "lenient_start =
     (\<lparr>hr_Log = \<lparr>lg_Version = [], lg_Creator = zero_Creator, lg_Pages = [], lg_Entries = Some []\<rparr>\<rparr>,
      HarError ErrCodeJSONParse MsgLenientRoot None [] [])"

definition parseLenient :: "golib \<Rightarrow> string \<Rightarrow> ParseOptions \<Rightarrow> Har result" where
  "parseLenient L harFileBytes options =
     (case (case lib_scan L harFileBytes of Inl e \<Rightarrow> Inl e | Inr j \<Rightarrow> dec_raw_map j) of
        Inl err \<Rightarrow> (None, Some (ErrHar (WrapJSONUnmarshalError err)))
      | Inr rawData \<Rightarrow>
          (case lenient_log L rawData lenient_start of (har, rootError) \<Rightarrow>
             if HasPartialErrors rootError \<and> po_CollectWarnings options
             then (if lg_Version (hr_Log har) \<noteq> [] \<or> 0 < length (slice (lg_Entries (hr_Log har)))
                      \<or> 0 < length (lg_Pages (hr_Log har))
                   then (Some har, Some (ErrHar rootError))
                   else (None, Some (ErrHar rootError)))
             else if HasPartialErrors rootError then (None, Some (ErrHar rootError))
             else (Some har, None)))"

definition ParseHarWithOptions :: "golib \<Rightarrow> string \<Rightarrow> ParseOptions \<Rightarrow> Har result" where
  "ParseHarWithOptions L harFileBytes options =
     (if length harFileBytes = 0 then (None, Some (ErrHar (NewInvalidFormatError MsgInputEmpty)))
      else if \<not> isJSONContent harFileBytes
      then (None, Some (ErrHar (NewInvalidFormatError MsgInputNotJSON)))
      else if \<not> po_Lenient options
      then (case Unmarshal L (dec_Har L) zero_Har harFileBytes of
              Inl err \<Rightarrow> (None, Some (ErrHar (WrapJSONUnmarshalError err)))
            | Inr har \<Rightarrow>
                (if \<not> po_SkipValidation options
                 then (case validateHar L (Some har) of
                         Some err \<Rightarrow> (None, Some (ErrHar err))
                       | None \<Rightarrow> (Some har, None))
                 else (Some har, None)))
      else parseLenient L harFileBytes options)"

definition ParseHarLenient :: "golib \<Rightarrow> string \<Rightarrow> Har result" where
  "ParseHarLenient L harFileBytes =
     ParseHarWithOptions L harFileBytes
       (DefaultParseOptions\<lparr>po_Lenient := True, po_CollectWarnings := True\<rparr>)"

section \<open>The compact representation (optimized.go)\<close>

type_synonym HTTPMethod = "8 word"

definition MethodUnknown :: HTTPMethod where "MethodUnknown = 0"
definition MethodGET :: HTTPMethod where "MethodGET = 1"
definition MethodPOST :: HTTPMethod where "MethodPOST = 2"
definition MethodPUT :: HTTPMethod where "MethodPUT = 3"
definition MethodDELETE :: HTTPMethod where "MethodDELETE = 4"
definition MethodHEAD :: HTTPMethod where "MethodHEAD = 5"
definition MethodOPTIONS :: HTTPMethod where "MethodOPTIONS = 6"
definition MethodPATCH :: HTTPMethod where "MethodPATCH = 7"
definition MethodCONNECT :: HTTPMethod where "MethodCONNECT = 8"
definition MethodTRACE :: HTTPMethod where "MethodTRACE = 9"

definition methodToString :: "(HTTPMethod \<times> string) list" where
  "methodToString =
     [(MethodUnknown, ''UNKNOWN''), (MethodGET, ''GET''), (MethodPOST, ''POST''),
      (MethodPUT, ''PUT''), (MethodDELETE, ''DELETE''), (MethodHEAD, ''HEAD''),
      (MethodOPTIONS, ''OPTIONS''), (MethodPATCH, ''PATCH''), (MethodCONNECT, ''CONNECT''),
      (MethodTRACE, ''TRACE'')]"

definition stringToMethod :: "(string \<times> HTTPMethod) list" where
  "stringToMethod =
     [(''GET'', MethodGET), (''POST'', MethodPOST), (''PUT'', MethodPUT),
      (''DELETE'', MethodDELETE), (''HEAD'', MethodHEAD), (''OPTIONS'', MethodOPTIONS),
      (''PATCH'', MethodPATCH), (''CONNECT'', MethodCONNECT), (''TRACE'', MethodTRACE)]"

definition HTTPMethod_String :: "HTTPMethod \<Rightarrow> string" where
  "HTTPMethod_String m = (case map_of methodToString m of Some s \<Rightarrow> s | None \<Rightarrow> ''UNKNOWN'')"

definition ParseMethod :: "string \<Rightarrow> HTTPMethod" where
  "ParseMethod method =
     (case map_of stringToMethod (ToUpper method) of Some m \<Rightarrow> m | None \<Rightarrow> MethodUnknown)"

text \<open>
  A \<open>map[string]string\<close> is an association list with distinct keys; \<open>m[k] = v\<close> is
  \<open>AList.update k v m\<close>. A pointer field is an option.
\<close>

type_synonym go_map = "(string \<times> string) list"

record OptimizedTimings =
  ot_Blocked :: "real option"
  ot_DNS :: "real option"
  ot_Connect :: "real option"
  ot_Send :: "real option"
  ot_Wait :: "real option"
  ot_Receive :: "real option"
  ot_Ssl :: "real option"
  ot_BlockedQueueing :: "real option"
  ot_BlockedProxy :: "real option"

record OptimizedContent =
  oc_Size :: int
  oc_MimeType :: string
  oc_Text :: "string option"
  oc_Encoding :: "string option"
  oc_Comment :: "string option"

record OptimizedRequest =
  oq_Method :: HTTPMethod
  oq_URL :: string
  oq_HTTPVersion :: string
  oq_Cookies :: "Cookie list"
  oq_Headers :: go_map
  oq_QueryString :: go_map
  oq_HeadersSize :: "int option"
  oq_BodySize :: "int option"

record OptimizedResponse =
  os_Status :: int
  os_StatusText :: string
  os_HTTPVersion :: string
  os_Cookies :: "Cookie list"
  os_Headers :: go_map
  os_RedirectURL :: string
  os_HeadersSize :: "int option"
  os_BodySize :: "int option"
  os_Content :: "OptimizedContent option"
  os_TransferSize :: "int option"

record OptimizedEntries =
  oe_StartedDateTime :: go_time
  oe_Time :: real
  oe_Request :: OptimizedRequest
  oe_Response :: OptimizedResponse
  oe_Cache :: "Cache option"
  oe_Timings :: OptimizedTimings
  oe_PageRef :: "string option"
  oe_ServerIP :: "string option"
  oe_Connection :: "string option"

text \<open>The anonymous \<open>Log\<close> struct of \<open>OptimizedHar\<close>, its four fields side by side.\<close>

record OptimizedHar =
  oh_Version :: string
  oh_Creator :: Creator
  oh_Pages :: "Pages list"
  oh_Entries :: "OptimizedEntries list"

text \<open>\<open>if x != 0 { v := x; p = &v }\<close> for the optional numbers, and the same for strings.\<close>

definition nonzero_real :: "real \<Rightarrow> real option" where
  "nonzero_real x = (if x \<noteq> 0 then Some x else None)"

definition nonzero_int :: "int \<Rightarrow> int option" where
  "nonzero_int x = (if x \<noteq> 0 then Some x else None)"

definition nonempty :: "string \<Rightarrow> string option" where
  "nonempty x = (if x \<noteq> [] then Some x else None)"

definition headers_to_map :: "Headers list \<Rightarrow> go_map" where
  "headers_to_map hs = foldl (\<lambda>m header. AList.update (h_Name header) (h_Value header) m) [] hs"

definition convertToOptimizedEntry :: "Entries \<Rightarrow> OptimizedEntries" where
  "convertToOptimizedEntry entry =
     \<lparr>oe_StartedDateTime = en_StartedDateTime entry,
      oe_Time = en_Time entry,
      oe_Request =
        \<lparr>oq_Method = ParseMethod (rq_Method (en_Request entry)),
         oq_URL = rq_URL (en_Request entry),
         oq_HTTPVersion = rq_HTTPVersion (en_Request entry),
         oq_Cookies = rq_Cookies (en_Request entry),
         oq_Headers = headers_to_map (rq_Headers (en_Request entry)),
         oq_QueryString = [],
         oq_HeadersSize = nonzero_int (rq_HeadersSize (en_Request entry)),
         oq_BodySize = nonzero_int (rq_BodySize (en_Request entry))\<rparr>,
      oe_Response =
        \<lparr>os_Status = rs_Status (en_Response entry),
         os_StatusText = rs_StatusText (en_Response entry),
         os_HTTPVersion = rs_HTTPVersion (en_Response entry),
         os_Cookies = rs_Cookies (en_Response entry),
         os_Headers = headers_to_map (rs_Headers (en_Response entry)),
         os_RedirectURL = rs_RedirectURL (en_Response entry),
         os_HeadersSize = nonzero_int (rs_HeadersSize (en_Response entry)),
         os_BodySize = nonzero_int (rs_BodySize (en_Response entry)),
         os_Content =
           (if ct_Size (rs_Content (en_Response entry)) \<noteq> 0
               \<or> ct_MimeType (rs_Content (en_Response entry)) \<noteq> []
            then Some \<lparr>oc_Size = ct_Size (rs_Content (en_Response entry)),
                       oc_MimeType = ct_MimeType (rs_Content (en_Response entry)),
                       oc_Text = None, oc_Encoding = None, oc_Comment = None\<rparr>
            else None),
         os_TransferSize = nonzero_int (rs_TransferSize (en_Response entry))\<rparr>,
      oe_Cache =
        (if ca_Comment (en_Cache entry) \<noteq> [] \<or> ca_BeforeRequest (en_Cache entry) \<noteq> None
            \<or> ca_AfterRequest (en_Cache entry) \<noteq> None
         then Some (en_Cache entry) else None),
      oe_Timings =
        \<lparr>ot_Blocked = nonzero_real (tm_Blocked (en_Timings entry)),
         ot_DNS = nonzero_real (tm_DNS (en_Timings entry)),
         ot_Connect = nonzero_real (tm_Connect (en_Timings entry)),
         ot_Send = nonzero_real (tm_Send (en_Timings entry)),
         ot_Wait = nonzero_real (tm_Wait (en_Timings entry)),
         ot_Receive = nonzero_real (tm_Receive (en_Timings entry)),
         ot_Ssl = nonzero_real (tm_Ssl (en_Timings entry)),
         ot_BlockedQueueing = nonzero_real (tm_BlockedQueueing (en_Timings entry)),
         ot_BlockedProxy = nonzero_real (tm_BlockedProxy (en_Timings entry))\<rparr>,
      oe_PageRef = nonempty (en_Pageref entry),
      oe_ServerIP = nonempty (en_ServerIPAddress entry),
      oe_Connection = nonempty (en_Connection entry)\<rparr>"

definition ToOptimizedHar :: "Har \<Rightarrow> OptimizedHar" where
  "ToOptimizedHar standardHar =
     \<lparr>oh_Version = lg_Version (hr_Log standardHar),
      oh_Creator = lg_Creator (hr_Log standardHar),
      oh_Pages = lg_Pages (hr_Log standardHar),
      oh_Entries = map convertToOptimizedEntry (slice (lg_Entries (hr_Log standardHar)))\<rparr>"

text \<open>\<open>if p != nil { x = *p }\<close> on a field that starts at its zero value.\<close>

definition deref_or :: "'a \<Rightarrow> 'a option \<Rightarrow> 'a" where
  "deref_or z p = (case p of Some x \<Rightarrow> x | None \<Rightarrow> z)"

definition map_to_headers :: "golib \<Rightarrow> go_map \<Rightarrow> Headers list" where
  "map_to_headers L m = map (\<lambda>(name, val). \<lparr>h_Name = name, h_Value = val\<rparr>) (lib_range L m)"

definition convertToStandardEntry :: "golib \<Rightarrow> OptimizedEntries \<Rightarrow> Entries" where
  "convertToStandardEntry L entry =
     \<lparr>en_StartedDateTime = oe_StartedDateTime entry,
      en_Time = oe_Time entry,
      en_Request =
        \<lparr>rq_Method = HTTPMethod_String (oq_Method (oe_Request entry)),
         rq_URL = oq_URL (oe_Request entry),
         rq_HTTPVersion = oq_HTTPVersion (oe_Request entry),
         rq_Cookies = oq_Cookies (oe_Request entry),
         rq_Headers = map_to_headers L (oq_Headers (oe_Request entry)),
         rq_QueryString = [],
         rq_PostData = None,
         rq_HeadersSize = deref_or 0 (oq_HeadersSize (oe_Request entry)),
         rq_BodySize = deref_or 0 (oq_BodySize (oe_Request entry))\<rparr>,
      en_Response =
        \<lparr>rs_Status = os_Status (oe_Response entry),
         rs_StatusText = os_StatusText (oe_Response entry),
         rs_HTTPVersion = os_HTTPVersion (oe_Response entry),
         rs_Cookies = os_Cookies (oe_Response entry),
         rs_Headers = map_to_headers L (os_Headers (oe_Response entry)),
         rs_Content =
           (case os_Content (oe_Response entry) of
              Some c \<Rightarrow> \<lparr>ct_Size = oc_Size c, ct_MimeType = oc_MimeType c, ct_Text = [],
                          ct_Encoding = []\<rparr>
            | None \<Rightarrow> zero_Content),
         rs_RedirectURL = os_RedirectURL (oe_Response entry),
         rs_HeadersSize = deref_or 0 (os_HeadersSize (oe_Response entry)),
         rs_BodySize = deref_or 0 (os_BodySize (oe_Response entry)),
         rs_TransferSize = deref_or 0 (os_TransferSize (oe_Response entry)),
         rs_Error = None\<rparr>,
      en_Cache = deref_or zero_Cache (oe_Cache entry),
      en_Timings =
        \<lparr>tm_Blocked = deref_or 0 (ot_Blocked (oe_Timings entry)),
         tm_DNS = deref_or 0 (ot_DNS (oe_Timings entry)),
         tm_Connect = deref_or 0 (ot_Connect (oe_Timings entry)),
         tm_Ssl = deref_or 0 (ot_Ssl (oe_Timings entry)),
         tm_Send = deref_or 0 (ot_Send (oe_Timings entry)),
         tm_Wait = deref_or 0 (ot_Wait (oe_Timings entry)),
         tm_Receive = deref_or 0 (ot_Receive (oe_Timings entry)),
         tm_BlockedQueueing = deref_or 0 (ot_BlockedQueueing (oe_Timings entry)),
         tm_BlockedProxy = deref_or 0 (ot_BlockedProxy (oe_Timings entry))\<rparr>,
      en_Pageref = deref_or [] (oe_PageRef entry),
      en_ServerIPAddress = deref_or [] (oe_ServerIP entry),
      en_Connection = deref_or [] (oe_Connection entry),
      en_Initiator = zero_Initiator,
      en_Priority = [],
      en_ResourceType = []\<rparr>"

definition ToStandardHar :: "golib \<Rightarrow> OptimizedHar \<Rightarrow> Har" where
  "ToStandardHar L oh =
     \<lparr>hr_Log =
        \<lparr>lg_Version = oh_Version oh,
         lg_Creator = oh_Creator oh,
         lg_Pages = oh_Pages oh,
         lg_Entries = Some (map (convertToStandardEntry L) (oh_Entries oh))\<rparr>\<rparr>"

text \<open>
  \<open>ParseHar\<close> returns an archive or an error, never neither; the middle case below is
  never taken (in Go it would dereference nil).
\<close>

definition ParseHarOptimized :: "golib \<Rightarrow> string \<Rightarrow> OptimizedHar result" where
  "ParseHarOptimized L harFileBytes =
     (case ParseHar L harFileBytes of
        (h, Some err) \<Rightarrow> (None, Some (ErrWrap MsgFailedToParseHarBytes err))
      | (None, None) \<Rightarrow> (None, None)
      | (Some standardHar, None) \<Rightarrow> (Some (ToOptimizedHar standardHar), None))"

section \<open>The deferred representation (lazy.go)\<close>

text \<open>
  \<open>rawData\<close> is the JSON value of the content object, kept for \<open>Load\<close>. The mutex
  of \<open>LazyContent\<close> is not modelled: every function here is one sequential call.
\<close>

record LazyContent =
  lc_Size :: int
  lc_MimeType :: string
  lc_Text :: "string option"
  lc_Encoding :: "string option"
  lc_Comment :: string
  lc_rawData :: json
  lc_loaded :: bool

record LazyResponse =
  lr_Status :: int
  lr_StatusText :: string
  lr_HTTPVersion :: string
  lr_Cookies :: "Cookie list"
  lr_Headers :: "Headers list"
  lr_RedirectURL :: string
  lr_HeadersSize :: int
  lr_BodySize :: int
  lr_Content :: "LazyContent option"
  lr_TransferSize :: int
  lr_Error :: "json option"

record LazyEntries =
  le_StartedDateTime :: go_time
  le_Time :: real
  le_Request :: Request
  le_Response :: LazyResponse
  le_Cache :: Cache
  le_Timings :: Timings
  le_Pageref :: string
  le_Initiator :: Initiator
  le_Priority :: string
  le_ResourceType :: string
  le_Connection :: string
  le_ServerIPAddress :: string

text \<open>The anonymous \<open>Log\<close> struct of \<open>LazyHar\<close>, its four fields side by side.\<close>

record LazyHar =
  lh_Version :: string
  lh_Creator :: Creator
  lh_Pages :: "Pages list"
  lh_Entries :: "LazyEntries list"

definition zero_LazyContent :: LazyContent where
  "zero_LazyContent = \<lparr>lc_Size = 0, lc_MimeType = [], lc_Text = None, lc_Encoding = None,
     lc_Comment = [], lc_rawData = JNull, lc_loaded = False\<rparr>"

definition zero_LazyResponse :: LazyResponse where
  "zero_LazyResponse = \<lparr>lr_Status = 0, lr_StatusText = [], lr_HTTPVersion = [], lr_Cookies = [],
     lr_Headers = [], lr_RedirectURL = [], lr_HeadersSize = 0, lr_BodySize = 0,
     lr_Content = None, lr_TransferSize = 0, lr_Error = None\<rparr>"

definition zero_LazyEntries :: LazyEntries where
  "zero_LazyEntries = \<lparr>le_StartedDateTime = 0, le_Time = 0, le_Request = zero_Request,
     le_Response = zero_LazyResponse, le_Cache = zero_Cache, le_Timings = zero_Timings,
     le_Pageref = [], le_Initiator = zero_Initiator, le_Priority = [], le_ResourceType = [],
     le_Connection = [], le_ServerIPAddress = []\<rparr>"

definition zero_LazyHar :: LazyHar where
  "zero_LazyHar = \<lparr>lh_Version = [], lh_Creator = zero_Creator, lh_Pages = [], lh_Entries = []\<rparr>"

text \<open>The local struct \<open>BasicContent\<close> of \<open>UnmarshalJSON\<close> and \<open>FullContent\<close> of \<open>Load\<close>.\<close>

record BasicContent =
  bc_Size :: int
  bc_MimeType :: string
  bc_Comment :: string

record FullContent =
  fc_Text :: "string option"
  fc_Encoding :: "string option"

definition BasicContent_field :: "string \<Rightarrow> json \<Rightarrow> BasicContent \<Rightarrow> BasicContent dres" where
  "BasicContent_field k v r =
     (if key_is k ''size'' then fld ''size'' dec_int bc_Size (\<lambda>x r. r\<lparr>bc_Size := x\<rparr>) v r
      else if key_is k ''mimeType'' then fld ''mimeType'' dec_string bc_MimeType (\<lambda>x r. r\<lparr>bc_MimeType := x\<rparr>) v r
      else if key_is k ''comment'' then fld ''comment'' dec_string bc_Comment (\<lambda>x r. r\<lparr>bc_Comment := x\<rparr>) v r
      else Inr (None, r))"

definition FullContent_field :: "string \<Rightarrow> json \<Rightarrow> FullContent \<Rightarrow> FullContent dres" where
  "FullContent_field k v r =
     (if key_is k ''text'' then fld ''text'' dec_string_ptr fc_Text (\<lambda>x r. r\<lparr>fc_Text := x\<rparr>) v r
      else if key_is k ''encoding'' then fld ''encoding'' dec_string_ptr fc_Encoding (\<lambda>x r. r\<lparr>fc_Encoding := x\<rparr>) v r
      else Inr (None, r))"

text \<open>
  \<open>LazyContent.UnmarshalJSON\<close>, as the decoder of the field: an error of the inner
  \<open>json.Unmarshal\<close> stops the outer decoding, which puts its own field path on it.
\<close>

definition LazyContent_UnmarshalJSON :: "json \<Rightarrow> LazyContent \<Rightarrow> LazyContent dres" where
  "LazyContent_UnmarshalJSON data lc =
     (case finish (dec_obj ''har.BasicContent'' BasicContent_field data
                     \<lparr>bc_Size = 0, bc_MimeType = [], bc_Comment = []\<rparr>) of
        Inl (UnmarshalTypeError v t f) \<Rightarrow> Inl (UnmarshalTypeError v t [])
      | Inl err \<Rightarrow> Inl err
      | Inr basic \<Rightarrow>
          Inr (None, lc\<lparr>lc_rawData := data, lc_Size := bc_Size basic,
                         lc_MimeType := bc_MimeType basic, lc_Comment := bc_Comment basic,
                         lc_loaded := False\<rparr>))"

text \<open>\<open>Load\<close> returns the content as it is after the call, and the error.\<close>

definition Load :: "LazyContent \<Rightarrow> LazyContent \<times> json_err option" where
  "Load lc =
     (if lc_loaded lc then (lc, None)
      else (case finish (dec_obj ''har.FullContent'' FullContent_field (lc_rawData lc)
                           \<lparr>fc_Text = None, fc_Encoding = None\<rparr>) of
              Inl err \<Rightarrow> (lc, Some err)
            | Inr full \<Rightarrow>
                (lc\<lparr>lc_Text := fc_Text full, lc_Encoding := fc_Encoding full, lc_loaded := True\<rparr>,
                 None)))"

definition LazyContent_GetText :: "LazyContent \<Rightarrow> LazyContent \<times> string option \<times> json_err option" where
  "LazyContent_GetText lc =
     (if lc_loaded lc then (lc, lc_Text lc, None)
      else (case Load lc of
              (lc', Some err) \<Rightarrow> (lc', None, Some err)
            | (lc', None) \<Rightarrow> (lc', lc_Text lc', None)))"

definition LazyResponse_field :: "golib \<Rightarrow> string \<Rightarrow> json \<Rightarrow> LazyResponse \<Rightarrow> LazyResponse dres" where
  "LazyResponse_field L k v r =
     (if key_is k ''status'' then fld ''status'' dec_int lr_Status (\<lambda>x r. r\<lparr>lr_Status := x\<rparr>) v r
      else if key_is k ''statusText'' then fld ''statusText'' dec_string lr_StatusText (\<lambda>x r. r\<lparr>lr_StatusText := x\<rparr>) v r
      else if key_is k ''httpVersion'' then fld ''httpVersion'' dec_string lr_HTTPVersion (\<lambda>x r. r\<lparr>lr_HTTPVersion := x\<rparr>) v r
      else if key_is k ''cookies'' then fld ''cookies'' (dec_slice ''[]har.Cookie'' (dec_Cookie L) zero_Cookie) lr_Cookies (\<lambda>x r. r\<lparr>lr_Cookies := x\<rparr>) v r
      else if key_is k ''headers'' then fld ''headers'' (dec_slice ''[]har.Headers'' dec_Headers zero_Headers) lr_Headers (\<lambda>x r. r\<lparr>lr_Headers := x\<rparr>) v r
      else if key_is k ''redirectURL'' then fld ''redirectURL'' dec_string lr_RedirectURL (\<lambda>x r. r\<lparr>lr_RedirectURL := x\<rparr>) v r
      else if key_is k ''headersSize'' then fld ''headersSize'' dec_int lr_HeadersSize (\<lambda>x r. r\<lparr>lr_HeadersSize := x\<rparr>) v r
      else if key_is k ''bodySize'' then fld ''bodySize'' dec_int lr_BodySize (\<lambda>x r. r\<lparr>lr_BodySize := x\<rparr>) v r
      else if key_is k ''content'' then fld ''content'' (dec_ptr LazyContent_UnmarshalJSON zero_LazyContent) lr_Content (\<lambda>x r. r\<lparr>lr_Content := x\<rparr>) v r
      else if key_is k ''_transferSize'' then fld ''_transferSize'' dec_int lr_TransferSize (\<lambda>x r. r\<lparr>lr_TransferSize := x\<rparr>) v r
      else if key_is k ''_error'' then fld ''_error'' dec_any lr_Error (\<lambda>x r. r\<lparr>lr_Error := x\<rparr>) v r
      else Inr (None, r))"

definition dec_LazyResponse :: "golib \<Rightarrow> json \<Rightarrow> LazyResponse \<Rightarrow> LazyResponse dres" where
  "dec_LazyResponse L = dec_obj ''har.LazyResponse'' (LazyResponse_field L)"

definition LazyEntries_field :: "golib \<Rightarrow> string \<Rightarrow> json \<Rightarrow> LazyEntries \<Rightarrow> LazyEntries dres" where
  "LazyEntries_field L k v r =
     (if key_is k ''startedDateTime'' then fld ''startedDateTime'' (dec_time L) le_StartedDateTime (\<lambda>x r. r\<lparr>le_StartedDateTime := x\<rparr>) v r
      else if key_is k ''time'' then fld ''time'' dec_float64 le_Time (\<lambda>x r. r\<lparr>le_Time := x\<rparr>) v r
      else if key_is k ''request'' then fld ''request'' (dec_Request L) le_Request (\<lambda>x r. r\<lparr>le_Request := x\<rparr>) v r
      else if key_is k ''response'' then fld ''response'' (dec_LazyResponse L) le_Response (\<lambda>x r. r\<lparr>le_Response := x\<rparr>) v r
      else if key_is k ''cache'' then fld ''cache'' (dec_Cache L) le_Cache (\<lambda>x r. r\<lparr>le_Cache := x\<rparr>) v r
      else if key_is k ''timings'' then fld ''timings'' dec_Timings le_Timings (\<lambda>x r. r\<lparr>le_Timings := x\<rparr>) v r
      else if key_is k ''pageref'' then fld ''pageref'' dec_string le_Pageref (\<lambda>x r. r\<lparr>le_Pageref := x\<rparr>) v r
      else if key_is k ''_initiator'' then fld ''_initiator'' dec_Initiator le_Initiator (\<lambda>x r. r\<lparr>le_Initiator := x\<rparr>) v r
      else if key_is k ''_priority'' then fld ''_priority'' dec_string le_Priority (\<lambda>x r. r\<lparr>le_Priority := x\<rparr>) v r
      else if key_is k ''_resourceType'' then fld ''_resourceType'' dec_string le_ResourceType (\<lambda>x r. r\<lparr>le_ResourceType := x\<rparr>) v r
      else if key_is k ''connection'' then fld ''connection'' dec_string le_Connection (\<lambda>x r. r\<lparr>le_Connection := x\<rparr>) v r
      else if key_is k ''serverIPAddress'' then fld ''serverIPAddress'' dec_string le_ServerIPAddress (\<lambda>x r. r\<lparr>le_ServerIPAddress := x\<rparr>) v r
      else Inr (None, r))"

definition dec_LazyEntries :: "golib \<Rightarrow> json \<Rightarrow> LazyEntries \<Rightarrow> LazyEntries dres" where
  "dec_LazyEntries L = dec_obj ''har.LazyEntries'' (LazyEntries_field L)"

definition LazyLog_field :: "golib \<Rightarrow> string \<Rightarrow> json \<Rightarrow> LazyHar \<Rightarrow> LazyHar dres" where
  "LazyLog_field L k v r =
     (if key_is k ''version'' then fld ''version'' dec_string lh_Version (\<lambda>x r. r\<lparr>lh_Version := x\<rparr>) v r
      else if key_is k ''creator'' then fld ''creator'' dec_Creator lh_Creator (\<lambda>x r. r\<lparr>lh_Creator := x\<rparr>) v r
      else if key_is k ''pages'' then fld ''pages'' (dec_slice ''[]har.Pages'' (dec_Pages L) zero_Pages) lh_Pages (\<lambda>x r. r\<lparr>lh_Pages := x\<rparr>) v r
      else if key_is k ''entries'' then fld ''entries'' (dec_slice ''[]har.LazyEntries'' (dec_LazyEntries L) zero_LazyEntries) lh_Entries (\<lambda>x r. r\<lparr>lh_Entries := x\<rparr>) v r
      else Inr (None, r))"

definition LazyHar_field :: "golib \<Rightarrow> string \<Rightarrow> json \<Rightarrow> LazyHar \<Rightarrow> LazyHar dres" where
  "LazyHar_field L k v r =
     (if key_is k ''log'' then fld ''log'' (dec_obj ''struct'' (LazyLog_field L)) (\<lambda>r. r) (\<lambda>x r. x) v r
      else Inr (None, r))"

definition dec_LazyHar :: "golib \<Rightarrow> json \<Rightarrow> LazyHar \<Rightarrow> LazyHar dres" where
  "dec_LazyHar L = dec_obj ''har.LazyHar'' (LazyHar_field L)"

definition ParseHarWithLazyLoading :: "golib \<Rightarrow> string \<Rightarrow> LazyHar result" where
  "ParseHarWithLazyLoading L harFileBytes =
     (case Unmarshal L (dec_LazyHar L) zero_LazyHar harFileBytes of
        Inl err \<Rightarrow> (None, Some (ErrHar (WrapJSONUnmarshalError err)))
      | Inr har \<Rightarrow> (Some har, None))"

text \<open>
  The loop of \<open>LazyHar.ToStandardHar\<close>. \<open>Load\<close> writes through the content pointer, so
  the entries of the deferred archive change too: the function returns them as they are
  after the loop, and the converted entries or the error that stopped the loop.
\<close>

definition lazy_entry_base :: "LazyEntries \<Rightarrow> Entries" where
  "lazy_entry_base lazyEntry =
     \<lparr>en_StartedDateTime = le_StartedDateTime lazyEntry,
      en_Time = le_Time lazyEntry,
      en_Request = le_Request lazyEntry,
      en_Response =
        \<lparr>rs_Status = lr_Status (le_Response lazyEntry),
         rs_StatusText = lr_StatusText (le_Response lazyEntry),
         rs_HTTPVersion = lr_HTTPVersion (le_Response lazyEntry),
         rs_Cookies = lr_Cookies (le_Response lazyEntry),
         rs_Headers = lr_Headers (le_Response lazyEntry),
         rs_Content = zero_Content,
         rs_RedirectURL = lr_RedirectURL (le_Response lazyEntry),
         rs_HeadersSize = lr_HeadersSize (le_Response lazyEntry),
         rs_BodySize = lr_BodySize (le_Response lazyEntry),
         rs_TransferSize = lr_TransferSize (le_Response lazyEntry),
         rs_Error = lr_Error (le_Response lazyEntry)\<rparr>,
      en_Cache = le_Cache lazyEntry,
      en_Timings = le_Timings lazyEntry,
      en_Pageref = le_Pageref lazyEntry,
      en_ServerIPAddress = le_ServerIPAddress lazyEntry,
      en_Connection = le_Connection lazyEntry,
      en_Initiator = le_Initiator lazyEntry,
      en_Priority = le_Priority lazyEntry,
      en_ResourceType = le_ResourceType lazyEntry\<rparr>"

fun lazy_to_standard_entries :: "LazyEntries list \<Rightarrow> LazyEntries list \<times> (json_err + Entries list)" where
  "lazy_to_standard_entries [] = ([], Inr [])"
| "lazy_to_standard_entries (lazyEntry # rest) =
     (case lr_Content (le_Response lazyEntry) of
        None \<Rightarrow>
          (case lazy_to_standard_entries rest of
             (rest', Inl err) \<Rightarrow> (lazyEntry # rest', Inl err)
           | (rest', Inr es) \<Rightarrow> (lazyEntry # rest', Inr (lazy_entry_base lazyEntry # es)))
      | Some content \<Rightarrow>
          (case Load content of
             (content', Some err) \<Rightarrow>
               (lazyEntry\<lparr>le_Response := (le_Response lazyEntry)\<lparr>lr_Content := Some content'\<rparr>\<rparr> # rest,
                Inl err)
           | (content', None) \<Rightarrow>
               (let lazyEntry' = lazyEntry\<lparr>le_Response := (le_Response lazyEntry)\<lparr>lr_Content := Some content'\<rparr>\<rparr>;
                    base = lazy_entry_base lazyEntry;
                    entry = base\<lparr>en_Response := (en_Response base)
                              \<lparr>rs_Content := \<lparr>ct_Size = lc_Size content', ct_MimeType = lc_MimeType content',
                                              ct_Text = [], ct_Encoding = []\<rparr>\<rparr>\<rparr>
                in (case lazy_to_standard_entries rest of
                      (rest', Inl err) \<Rightarrow> (lazyEntry' # rest', Inl err)
                    | (rest', Inr es) \<Rightarrow> (lazyEntry' # rest', Inr (entry # es))))))"

definition LazyHar_ToStandardHar :: "LazyHar \<Rightarrow> LazyHar \<times> Har result" where
  "LazyHar_ToStandardHar lh =
     (case lazy_to_standard_entries (lh_Entries lh) of
        (entries', Inl err) \<Rightarrow>
          (lh\<lparr>lh_Entries := entries'\<rparr>,
           (None, Some (ErrHar (NewJSONParseError MsgCannotLoadLazyContent (Some err)))))
      | (entries', Inr es) \<Rightarrow>
          (lh\<lparr>lh_Entries := entries'\<rparr>,
           (Some \<lparr>hr_Log = \<lparr>lg_Version = lh_Version lh, lg_Creator = lh_Creator lh,
                            lg_Pages = lh_Pages lh, lg_Entries = Some es\<rparr>\<rparr>, None)))"

section \<open>The provider layer (interfaces.go and the three implementations)\<close>

text \<open>
  A value of interface type \<open>ContentProvider\<close> is nil (\<open>None\<close>) or holds a pointer to
  one of the implementing types. Calling a method on the nil interface panics with a nil
  pointer dereference; \<open>invoke\<close> makes the panic a result.
\<close>

datatype panic = NilDereference

datatype ContentProvider =
    CP_Content Content
  | CP_OptimizedContent OptimizedContent
  | CP_lazyContentWrapper "LazyContent option"

definition invoke :: "'i option \<Rightarrow> ('i \<Rightarrow> 'a) \<Rightarrow> panic + 'a" where
  "invoke p f = (case p of None \<Rightarrow> Inl NilDereference | Some x \<Rightarrow> Inr (f x))"

subsection \<open>standard_impl.go\<close>

definition Response_GetContent :: "Response \<Rightarrow> ContentProvider option" where
  "Response_GetContent r = Some (CP_Content (rs_Content r))"

definition Content_GetSize :: "Content \<Rightarrow> int" where
  "Content_GetSize c = ct_Size c"

definition Content_GetMimeType :: "Content \<Rightarrow> string" where
  "Content_GetMimeType c = ct_MimeType c"

definition Content_GetText :: "Content \<Rightarrow> string" where
  "Content_GetText c = []"

definition Content_GetEncoding :: "Content \<Rightarrow> string" where
  "Content_GetEncoding c = []"

definition Timings_GetSSL :: "Timings \<Rightarrow> real" where
  "Timings_GetSSL t = tm_Ssl t"

subsection \<open>optimized_impl.go\<close>

definition OptimizedEntries_GetPageref :: "OptimizedEntries \<Rightarrow> string" where
  "OptimizedEntries_GetPageref e = (case oe_PageRef e of Some p \<Rightarrow> p | None \<Rightarrow> [])"

definition OptimizedRequest_GetBodySize :: "OptimizedRequest \<Rightarrow> int" where
  "OptimizedRequest_GetBodySize r = (case oq_BodySize r of Some n \<Rightarrow> n | None \<Rightarrow> 0)"

definition OptimizedRequest_GetHeadersSize :: "OptimizedRequest \<Rightarrow> int" where
  "OptimizedRequest_GetHeadersSize r = (case oq_HeadersSize r of Some n \<Rightarrow> n | None \<Rightarrow> 0)"

definition OptimizedResponse_GetBodySize :: "OptimizedResponse \<Rightarrow> int" where
  "OptimizedResponse_GetBodySize r = (case os_BodySize r of Some n \<Rightarrow> n | None \<Rightarrow> 0)"

definition OptimizedResponse_GetHeadersSize :: "OptimizedResponse \<Rightarrow> int" where
  "OptimizedResponse_GetHeadersSize r = (case os_HeadersSize r of Some n \<Rightarrow> n | None \<Rightarrow> 0)"

definition OptimizedResponse_GetContent :: "OptimizedResponse \<Rightarrow> ContentProvider option" where
  "OptimizedResponse_GetContent r =
     (case os_Content r of None \<Rightarrow> None | Some c \<Rightarrow> Some (CP_OptimizedContent c))"

definition OptimizedContent_GetSize :: "OptimizedContent \<Rightarrow> int" where
  "OptimizedContent_GetSize c = oc_Size c"

definition OptimizedContent_GetMimeType :: "OptimizedContent \<Rightarrow> string" where
  "OptimizedContent_GetMimeType c = oc_MimeType c"

definition OptimizedContent_GetText :: "OptimizedContent \<Rightarrow> string" where
  "OptimizedContent_GetText c = (case oc_Text c of Some t \<Rightarrow> t | None \<Rightarrow> [])"

definition OptimizedContent_GetEncoding :: "OptimizedContent \<Rightarrow> string" where
  "OptimizedContent_GetEncoding c = (case oc_Encoding c of Some t \<Rightarrow> t | None \<Rightarrow> [])"

definition OptimizedTimings_GetBlocked :: "OptimizedTimings \<Rightarrow> real" where
  "OptimizedTimings_GetBlocked t = (case ot_Blocked t of Some x \<Rightarrow> x | None \<Rightarrow> - 1)"

definition OptimizedTimings_GetDNS :: "OptimizedTimings \<Rightarrow> real" where
  "OptimizedTimings_GetDNS t = (case ot_DNS t of Some x \<Rightarrow> x | None \<Rightarrow> - 1)"

definition OptimizedTimings_GetConnect :: "OptimizedTimings \<Rightarrow> real" where
  "OptimizedTimings_GetConnect t = (case ot_Connect t of Some x \<Rightarrow> x | None \<Rightarrow> - 1)"

definition OptimizedTimings_GetSend :: "OptimizedTimings \<Rightarrow> real" where
  "OptimizedTimings_GetSend t = (case ot_Send t of Some x \<Rightarrow> x | None \<Rightarrow> - 1)"

definition OptimizedTimings_GetWait :: "OptimizedTimings \<Rightarrow> real" where
  "OptimizedTimings_GetWait t = (case ot_Wait t of Some x \<Rightarrow> x | None \<Rightarrow> - 1)"

definition OptimizedTimings_GetReceive :: "OptimizedTimings \<Rightarrow> real" where
  "OptimizedTimings_GetReceive t = (case ot_Receive t of Some x \<Rightarrow> x | None \<Rightarrow> - 1)"

definition OptimizedTimings_GetSSL :: "OptimizedTimings \<Rightarrow> real" where
  "OptimizedTimings_GetSSL t = (case ot_Ssl t of Some x \<Rightarrow> x | None \<Rightarrow> - 1)"

subsection \<open>lazy_impl.go\<close>

definition LazyResponse_GetContent :: "LazyResponse \<Rightarrow> ContentProvider option" where
  "LazyResponse_GetContent r = Some (CP_lazyContentWrapper (lr_Content r))"

definition lazyContentWrapper_GetSize :: "LazyContent option \<Rightarrow> int" where
  "lazyContentWrapper_GetSize w = (case w of None \<Rightarrow> 0 | Some c \<Rightarrow> lc_Size c)"

definition lazyContentWrapper_GetMimeType :: "LazyContent option \<Rightarrow> string" where
  "lazyContentWrapper_GetMimeType w = (case w of None \<Rightarrow> [] | Some c \<Rightarrow> lc_MimeType c)"

text \<open>The two accessors that load: they return the content after the call, and the value.\<close>

definition lazyContentWrapper_GetText :: "LazyContent option \<Rightarrow> LazyContent option \<times> string" where
  "lazyContentWrapper_GetText w =
     (case w of
        None \<Rightarrow> (None, [])
      | Some c \<Rightarrow>
          (case LazyContent_GetText c of
             (c', Some t, None) \<Rightarrow> (Some c', t)
           | (c', _, _) \<Rightarrow> (Some c', [])))"

definition lazyContentWrapper_GetEncoding :: "LazyContent option \<Rightarrow> LazyContent option \<times> string" where
  "lazyContentWrapper_GetEncoding w =
     (case w of
        None \<Rightarrow> (None, [])
      | Some c \<Rightarrow>
          (case Load c of
             (c', _) \<Rightarrow> (Some c', (case lc_Encoding c' of None \<Rightarrow> [] | Some e \<Rightarrow> e))))"

subsection \<open>Calls through the interface\<close>

fun ContentProvider_GetSize :: "ContentProvider \<Rightarrow> int" where
  "ContentProvider_GetSize (CP_Content c) = Content_GetSize c"
| "ContentProvider_GetSize (CP_OptimizedContent c) = OptimizedContent_GetSize c"
| "ContentProvider_GetSize (CP_lazyContentWrapper w) = lazyContentWrapper_GetSize w"

fun ContentProvider_GetMimeType :: "ContentProvider \<Rightarrow> string" where
  "ContentProvider_GetMimeType (CP_Content c) = Content_GetMimeType c"
| "ContentProvider_GetMimeType (CP_OptimizedContent c) = OptimizedContent_GetMimeType c"
| "ContentProvider_GetMimeType (CP_lazyContentWrapper w) = lazyContentWrapper_GetMimeType w"

fun ContentProvider_GetText :: "ContentProvider \<Rightarrow> string" where
  "ContentProvider_GetText (CP_Content c) = Content_GetText c"
| "ContentProvider_GetText (CP_OptimizedContent c) = OptimizedContent_GetText c"
| "ContentProvider_GetText (CP_lazyContentWrapper w) = snd (lazyContentWrapper_GetText w)"

fun ContentProvider_GetEncoding :: "ContentProvider \<Rightarrow> string" where
  "ContentProvider_GetEncoding (CP_Content c) = Content_GetEncoding c"
| "ContentProvider_GetEncoding (CP_OptimizedContent c) = OptimizedContent_GetEncoding c"
| "ContentProvider_GetEncoding (CP_lazyContentWrapper w) = snd (lazyContentWrapper_GetEncoding w)"

section \<open>The streaming cursor (streaming.go)\<close>

text \<open>
  \<open>json.Decoder.Token\<close> returns the delimiters, strings (object keys and string values
  alike), numbers, booleans and null of the input one by one. The decoder is modelled by
  the tokens it has not read yet; a token that opens a value carries this value, which
  \<open>Decode\<close> reads whole. A decoder over bytes that do not scan has no token; the cursor
  is only made over bytes that \<open>json.Unmarshal\<close> has accepted, or over no bytes at all.
\<close>

datatype token = TDelim char | TString string | TNumber real | TBool bool | TNull

type_synonym Decoder = "(token \<times> json option) list"

fun tokens :: "json \<Rightarrow> Decoder" where
  "tokens JNull = [(TNull, Some JNull)]"
| "tokens (JBool b) = [(TBool b, Some (JBool b))]"
| "tokens (JInt n) = [(TNumber (of_int n), Some (JInt n))]"
| "tokens (JFrac x) = [(TNumber x, Some (JFrac x))]"
| "tokens (JStr s) = [(TString s, Some (JStr s))]"
| "tokens (JArr xs) =
     (TDelim (CHR ''[''), Some (JArr xs)) # concat (map tokens xs) @ [(TDelim (CHR '']''), None)]"
| "tokens (JObj ps) =
     (TDelim (CHR ''{''), Some (JObj ps))
       # concat (map (\<lambda>p. (TString (fst p), None) # tokens (snd p)) ps)
       @ [(TDelim (CHR ''}''), None)]"

definition NewDecoder :: "golib \<Rightarrow> string \<Rightarrow> Decoder" where
  "NewDecoder L data = (case lib_scan L data of Inr j \<Rightarrow> tokens j | Inl e \<Rightarrow> [])"

definition Decoder_Token :: "Decoder \<Rightarrow> (go_error + token) \<times> Decoder" where
  "Decoder_Token d = (case d of [] \<Rightarrow> (Inl ErrEOF, []) | (t, v) # rest \<Rightarrow> (Inr t, rest))"

definition Decoder_More :: "Decoder \<Rightarrow> bool" where
  "Decoder_More d =
     (case d of
        [] \<Rightarrow> False
      | (t, v) # rest \<Rightarrow> t \<noteq> TDelim (CHR '']'') \<and> t \<noteq> TDelim (CHR ''}''))"

definition Decoder_Decode :: "Decoder \<Rightarrow> (go_error + json) \<times> Decoder" where
  "Decoder_Decode d =
     (case d of
        [] \<Rightarrow> (Inl ErrEOF, [])
      | (t, None) # rest \<Rightarrow> (Inl (ErrJSON SyntaxError), rest)
      | (t, Some v) # rest \<Rightarrow> (Inr v, drop (length (tokens v) - 1) rest))"

text \<open>
  A \<open>StreamingHar\<close> made from bytes has no file, and the iterator it makes has none
  either: the file fields are left out.
\<close>

record StreamingHar =
  sh_creator :: Creator
  sh_pages :: "Pages list"
  sh_version :: string
  sh_data :: string

record StreamingEntryIterator =
  it_decoder :: Decoder
  it_err :: "go_error option"
  it_currentPos :: nat
  it_entry :: Entries
  it_closed :: bool

definition NewStreamingHarFromBytes :: "golib \<Rightarrow> string \<Rightarrow> StreamingHar result" where
  "NewStreamingHarFromBytes L data =
     (case Unmarshal L (dec_Har L) zero_Har data of
        Inl err \<Rightarrow> (None, Some (ErrWrap MsgCannotParseHarData (ErrJSON err)))
      | Inr tempHar \<Rightarrow>
          (Some \<lparr>sh_creator = lg_Creator (hr_Log tempHar), sh_pages = lg_Pages (hr_Log tempHar),
                  sh_version = lg_Version (hr_Log tempHar), sh_data = data\<rparr>, None))"

definition StreamingHar_Entries :: "golib \<Rightarrow> StreamingHar \<Rightarrow> StreamingEntryIterator" where
  "StreamingHar_Entries L h =
     \<lparr>it_decoder = NewDecoder L (sh_data h), it_err = None, it_currentPos = 0,
      it_entry = zero_Entries, it_closed = False\<rparr>"

text \<open>
  The search loop of the first \<open>Next\<close>: read tokens until a string token \<open>"entries"\<close>
  is found; the token after it must be \<open>[\<close>. It returns the decoder after the search,
  and the error that ended it if there is one.
\<close>

fun find_entries :: "Decoder \<Rightarrow> go_error option \<times> Decoder" where
  "find_entries [] = (Some ErrEOF, [])"
| "find_entries ((t, v) # rest) =
     (if t = TString ''entries''
      then (case rest of
              [] \<Rightarrow> (Some ErrEOF, [])
            | (t', v') # rest' \<Rightarrow>
                if t' = TDelim (CHR ''['') then (None, rest')
                else (Some (ErrText MsgExpectedBracketAfterEntries), rest'))
      else find_entries rest)"

definition Next :: "golib \<Rightarrow> StreamingEntryIterator \<Rightarrow> bool \<times> StreamingEntryIterator" where
  "Next L it =
     (if it_closed it \<or> it_err it \<noteq> None then (False, it)
      else (case (if it_currentPos it = 0 then find_entries (it_decoder it)
                  else (None, it_decoder it)) of
              (Some err, d) \<Rightarrow> (False, it\<lparr>it_decoder := d, it_err := Some err\<rparr>)
            | (None, d) \<Rightarrow>
                if \<not> Decoder_More d then (False, it\<lparr>it_decoder := d\<rparr>)
                else (case Decoder_Decode d of
                        (Inl err, d') \<Rightarrow> (False, it\<lparr>it_decoder := d', it_err := Some err\<rparr>)
                      | (Inr v, d') \<Rightarrow>
                          (case finish (dec_Entries L v zero_Entries) of
                             Inl err \<Rightarrow> (False, it\<lparr>it_decoder := d', it_err := Some (ErrJSON err)\<rparr>)
                           | Inr entry \<Rightarrow>
                               (True, it\<lparr>it_decoder := d', it_entry := entry,
                                         it_currentPos := it_currentPos it + 1\<rparr>)))))"

definition Entry :: "StreamingEntryIterator \<Rightarrow> Entries" where
  "Entry it = it_entry it"

definition Position :: "StreamingEntryIterator \<Rightarrow> nat" where
  "Position it = it_currentPos it"

definition Err :: "StreamingEntryIterator \<Rightarrow> go_error option" where
  "Err it = (if it_err it = Some ErrEOF then None else it_err it)"

definition Close :: "StreamingEntryIterator \<Rightarrow> StreamingEntryIterator" where
  "Close it = (if it_closed it then it else it\<lparr>it_closed := True\<rparr>)"

text \<open>
  \<open>for it.Next() { n++ }\<close>: the number of times \<open>Next\<close> returns true before it first
  returns false, and the iterator then. Every true call consumes at least one token.
\<close>

function drain :: "golib \<Rightarrow> StreamingEntryIterator \<Rightarrow> nat \<times> StreamingEntryIterator" where
  "drain L it =
     (case Next L it of
        (False, it') \<Rightarrow> (0, it')
      | (True, it') \<Rightarrow>
          (if length (it_decoder it') < length (it_decoder it)
           then (case drain L it' of (n, it'') \<Rightarrow> (Suc n, it''))
           else (0, it')))"
  by pat_completeness auto
termination
  by (relation "measure (\<lambda>(L, it). length (it_decoder it))") auto

declare drain.simps [simp del]

section \<open>Options and the Parse entry point (options.go, parse.go)\<close>

record options =
  o_lenient :: bool
  o_skipValidation :: bool
  o_collectWarnings :: bool
  o_maxWarnings :: int
  o_useMemoryOptimized :: bool
  o_useLazyLoading :: bool
  o_useStreaming :: bool
  o_harVersion :: string
  o_autoDetectVersion :: bool

definition defaultOptions :: options where
  "defaultOptions =
     \<lparr>o_lenient = False, o_skipValidation = False, o_collectWarnings = False,
      o_maxWarnings = 100, o_useMemoryOptimized = False, o_useLazyLoading = False,
      o_useStreaming = False, o_harVersion = HarSpecVersion12, o_autoDetectVersion = True\<rparr>"

definition toParseOptions :: "options \<Rightarrow> ParseOptions" where
  "toParseOptions o' =
     \<lparr>po_Lenient = o_lenient o', po_SkipValidation = o_skipValidation o',
      po_CollectWarnings = o_collectWarnings o', po_MaxWarnings = o_maxWarnings o'\<rparr>"

text \<open>
  An \<open>Option\<close> is a closure \<open>func(*options)\<close>; the fields of \<open>options\<close> are not
  exported, so the closures are those the package's \<open>With...\<close> functions return. Each is
  a constructor, and \<open>apply_Option\<close> is the body of its closure.
\<close>

datatype Option =
    WithLenient
  | WithSkipValidation
  | WithCollectWarnings
  | WithMaxWarnings int
  | WithMemoryOptimized
  | WithLazyLoading
  | WithStreaming
  | WithHarVersion string
  | WithAutoDetectVersion bool

fun apply_Option :: "Option \<Rightarrow> options \<Rightarrow> options" where
  "apply_Option WithLenient o' = o'\<lparr>o_lenient := True\<rparr>"
| "apply_Option WithSkipValidation o' = o'\<lparr>o_skipValidation := True\<rparr>"
| "apply_Option WithCollectWarnings o' = o'\<lparr>o_collectWarnings := True\<rparr>"
| "apply_Option (WithMaxWarnings m) o' = o'\<lparr>o_maxWarnings := m\<rparr>"
| "apply_Option WithMemoryOptimized o' = o'\<lparr>o_useMemoryOptimized := True\<rparr>"
| "apply_Option WithLazyLoading o' = o'\<lparr>o_useLazyLoading := True\<rparr>"
| "apply_Option WithStreaming o' = o'\<lparr>o_useStreaming := True\<rparr>"
| "apply_Option (WithHarVersion version) o' =
     (if IsValidHarVersion version
      then o'\<lparr>o_harVersion := version, o_autoDetectVersion := False\<rparr>
      else o')"
| "apply_Option (WithAutoDetectVersion enabled) o' = o'\<lparr>o_autoDetectVersion := enabled\<rparr>"

definition applyOptions :: "Option list \<Rightarrow> options" where
  "applyOptions opts = foldl (\<lambda>o' opt. apply_Option opt o') defaultOptions opts"

definition validateInput :: "string \<Rightarrow> HarError option" where
  "validateInput harFileBytes =
     (if length harFileBytes = 0 then Some (NewInvalidFormatError MsgInputEmpty)
      else if \<not> isJSONContent harFileBytes then Some (NewInvalidFormatError MsgInputNotJSON)
      else None)"

text \<open>
  A \<open>HARProvider\<close> interface value: nil, or a pointer of one of the three archive types.
  Returning the \<open>(*T, error)\<close> of a parser as \<open>(HARProvider, error)\<close> wraps the pointer,
  nil or not, in the interface.
\<close>

datatype HARProvider =
    HP_Har "Har option"
  | HP_OptimizedHar "OptimizedHar option"
  | HP_LazyHar "LazyHar option"

definition parseWithStrategy :: "golib \<Rightarrow> string \<Rightarrow> options \<Rightarrow> HARProvider result" where
  "parseWithStrategy L harFileBytes opts =
     (if o_useStreaming opts
      then (None, Some (ErrHar (NewUnsupportedError MsgStreamingUnsupported)))
      else if o_useMemoryOptimized opts
      then (case ParseHarOptimized L harFileBytes of (h, err) \<Rightarrow> (Some (HP_OptimizedHar h), err))
      else if o_useLazyLoading opts
      then (case ParseHarWithLazyLoading L harFileBytes of (h, err) \<Rightarrow> (Some (HP_LazyHar h), err))
      else (case ParseHarWithOptions L harFileBytes (toParseOptions opts) of
              (h, err) \<Rightarrow> (Some (HP_Har h), err)))"

definition Parse :: "golib \<Rightarrow> string \<Rightarrow> Option list \<Rightarrow> HARProvider result" where
  "Parse L harFileBytes opts =
     (let options = applyOptions opts
      in case validateInput harFileBytes of
           Some err \<Rightarrow> (None, Some (ErrHar err))
         | None \<Rightarrow> parseWithStrategy L harFileBytes options)"

definition NewStreamingParser :: "golib \<Rightarrow> string \<Rightarrow> Option list \<Rightarrow> StreamingEntryIterator result" where
  "NewStreamingParser L harFileBytes opts =
     (case validateInput harFileBytes of
        Some err \<Rightarrow> (None, Some (ErrHar err))
      | None \<Rightarrow>
          (case NewStreamingHarFromBytes L harFileBytes of
             (Some streamingHar, None) \<Rightarrow> (Some (StreamingHar_Entries L streamingHar), None)
           | (h, err) \<Rightarrow> (None, err)))"

section \<open>Sample documents\<close>

text \<open>
  The documents used to run the model, each as the bytes of the document and as the JSON
  value these bytes scan to. \<open>lib0\<close> is the library restricted to them: its scanner
  knows the sample documents, its time parser the one time stamp they use, its
  \<open>url.Parse\<close> rejects the one malformed URL of the package's tests, and its \<open>range\<close>
  visits a map from its last entry to its first.
\<close>

definition s_creator_bytes :: "string \<Rightarrow> string" where
  \<open>s_creator_bytes name = ''{"name":"'' @ name @ ''","version":"1.0"}''\<close>

definition s_creator_json :: "string \<Rightarrow> json" where
  "s_creator_json name = JObj [(''name'', JStr name), (''version'', JStr ''1.0'')]"

definition s_entry_bytes :: "string \<Rightarrow> string \<Rightarrow> string" where
  \<open>s_entry_bytes status timings =
     ''{"startedDateTime":"2024-01-01T00:00:00Z",''
     @ ''"request":{"method":"GET","url":"https://example.com/","httpVersion":"HTTP/1.1"},''
     @ ''"response":{"status":'' @ status @ '',"httpVersion":"HTTP/1.1",''
     @ ''"content":{"size":5,"mimeType":"text/plain","text":"hello"}},''
     @ ''"timings":'' @ timings @ ''}''\<close>

definition s_entry_json :: "json \<Rightarrow> json \<Rightarrow> json" where
  "s_entry_json status timings =
     JObj [(''startedDateTime'', JStr ''2024-01-01T00:00:00Z''),
           (''request'', JObj [(''method'', JStr ''GET''), (''url'', JStr ''https://example.com/''),
                               (''httpVersion'', JStr ''HTTP/1.1'')]),
           (''response'', JObj [(''status'', status), (''httpVersion'', JStr ''HTTP/1.1''),
                                (''content'', JObj [(''size'', JInt 5), (''mimeType'', JStr ''text/plain''),
                                                    (''text'', JStr ''hello'')])]),
           (''timings'', timings)]"

definition s_doc_bytes :: "string \<Rightarrow> string \<Rightarrow> string" where
  \<open>s_doc_bytes creator entries =
     ''{"log":{"version":"1.2","creator":'' @ creator @ '',"entries":['' @ entries @ '']}}''\<close>

definition s_doc_json :: "json \<Rightarrow> json list \<Rightarrow> json" where
  "s_doc_json creator entries =
     JObj [(''log'', JObj [(''version'', JStr ''1.2''), (''creator'', creator),
                           (''entries'', JArr entries)])]"

definition s_timings_bytes :: string where
  \<open>s_timings_bytes = ''{"wait":1,"receive":1}''\<close>

definition s_timings_json :: json where
  "s_timings_json = JObj [(''wait'', JInt 1), (''receive'', JInt 1)]"

definition s_timings_ssl0_bytes :: string where
  \<open>s_timings_ssl0_bytes = ''{"wait":1,"receive":1,"ssl":0}''\<close>

definition s_timings_ssl0_json :: json where
  "s_timings_ssl0_json = JObj [(''wait'', JInt 1), (''receive'', JInt 1), (''ssl'', JInt 0)]"

text \<open>One valid entry, whose response content has the body text \<open>hello\<close> and whose timings have no \<open>ssl\<close>.\<close>

definition doc_one_bytes :: string where
  "doc_one_bytes = s_doc_bytes (s_creator_bytes ''go-har'') (s_entry_bytes ''200'' s_timings_bytes)"

definition doc_one_json :: json where
  "doc_one_json = s_doc_json (s_creator_json ''go-har'') [s_entry_json (JInt 200) s_timings_json]"

text \<open>The same document with an explicit \<open>"ssl": 0\<close>.\<close>

definition doc_ssl0_bytes :: string where
  "doc_ssl0_bytes = s_doc_bytes (s_creator_bytes ''go-har'') (s_entry_bytes ''200'' s_timings_ssl0_bytes)"

definition doc_ssl0_json :: json where
  "doc_ssl0_json = s_doc_json (s_creator_json ''go-har'') [s_entry_json (JInt 200) s_timings_ssl0_json]"

text \<open>Two entries; the status of the second is the string \<open>"not-a-number"\<close>.\<close>

definition doc_badstatus_bytes :: string where
  \<open>doc_badstatus_bytes =
     s_doc_bytes (s_creator_bytes ''go-har'')
       (s_entry_bytes ''200'' s_timings_bytes @ '','' @ s_entry_bytes ''"not-a-number"'' s_timings_bytes)\<close>

definition doc_badstatus_json :: json where
  "doc_badstatus_json =
     s_doc_json (s_creator_json ''go-har'')
       [s_entry_json (JInt 200) s_timings_json, s_entry_json (JStr ''not-a-number'') s_timings_json]"

text \<open>A valid document with one entry, made by a tool whose name is \<open>entries\<close>.\<close>

definition doc_named_entries_bytes :: string where
  "doc_named_entries_bytes =
     s_doc_bytes (s_creator_bytes ''entries'') (s_entry_bytes ''200'' s_timings_bytes)"

definition doc_named_entries_json :: json where
  "doc_named_entries_json =
     s_doc_json (s_creator_json ''entries'') [s_entry_json (JInt 200) s_timings_json]"

text \<open>A \<open>log\<close> object without members, and a document without \<open>log\<close>.\<close>

definition doc_emptylog_bytes :: string where
  \<open>doc_emptylog_bytes = ''{"log":{}}''\<close>

definition doc_emptylog_json :: json where
  "doc_emptylog_json = JObj [(''log'', JObj [])]"

definition doc_nolog_bytes :: string where
  "doc_nolog_bytes = ''{}''"

definition doc_nolog_json :: json where
  "doc_nolog_json = JObj []"

definition sample_docs :: "(string \<times> json) list" where
  "sample_docs =
     [(doc_one_bytes, doc_one_json), (doc_ssl0_bytes, doc_ssl0_json),
      (doc_badstatus_bytes, doc_badstatus_json),
      (doc_named_entries_bytes, doc_named_entries_json),
      (doc_emptylog_bytes, doc_emptylog_json), (doc_nolog_bytes, doc_nolog_json)]"

definition lib0 :: golib where
  "lib0 =
     \<lparr>lib_scan = (\<lambda>bytes. case map_of sample_docs bytes of Some j \<Rightarrow> Inr j | None \<Rightarrow> Inl SyntaxError),
      lib_time = (\<lambda>s. if s = ''2024-01-01T00:00:00Z'' then Some 63839664000 else None),
      lib_url_error = (\<lambda>u. if u = ''://invalid-url'' then Some ''missing protocol scheme'' else None),
      lib_range = rev\<rparr>"

definition har_with_version :: "string \<Rightarrow> Har" where
  "har_with_version v = zero_Har\<lparr>hr_Log := zero_Log\<lparr>lg_Version := v\<rparr>\<rparr>"

section \<open>The claims, where they need a name\<close>

text \<open>
  What the claim about \<open>WithStreaming\<close> says of a result of \<open>Parse\<close>: a nil provider
  and an error of kind Unsupported.
\<close>

definition refused_as_unsupported :: "HARProvider result \<Rightarrow> bool" where
  "refused_as_unsupported r =
     (case r of
        (None, Some (ErrHar e)) \<Rightarrow> he_Code e = ErrCodeUnsupported
      | _ \<Rightarrow> False)"

text \<open>The \<open>Ssl\<close> timing of the first entry of a parsed archive.\<close>

definition first_entry_ssl :: "Har result \<Rightarrow> real option" where
  "first_entry_ssl r =
     (case r of
        (Some har, err) \<Rightarrow>
          (case slice (lg_Entries (hr_Log har)) of
             [] \<Rightarrow> None
           | entry # rest \<Rightarrow> Some (tm_Ssl (en_Timings entry)))
      | (None, err) \<Rightarrow> None)"

text \<open>The body text of the response content of the first entry of a parsed archive.\<close>

definition first_entry_text :: "Har result \<Rightarrow> string option" where
  "first_entry_text r =
     (case r of
        (Some har, err) \<Rightarrow>
          (case slice (lg_Entries (hr_Log har)) of
             [] \<Rightarrow> None
           | entry # rest \<Rightarrow> Some (ct_Text (rs_Content (en_Response entry))))
      | (None, err) \<Rightarrow> None)"

text \<open>\<open>ParseHarWithLazyLoading\<close> followed by \<open>ToStandardHar\<close> on the archive it returns.\<close>

definition lazy_then_standard :: "golib \<Rightarrow> string \<Rightarrow> Har result" where
  "lazy_then_standard L harFileBytes =
     (case ParseHarWithLazyLoading L harFileBytes of
        (Some lh, None) \<Rightarrow> snd (LazyHar_ToStandardHar lh)
      | (h, err) \<Rightarrow> (None, err))"

text \<open>
  \<open>NewStreamingParser\<close> followed by \<open>for it.Next() { n++ }\<close> and \<open>it.Err()\<close>: how
  often \<open>Next\<close> returned true, and the error reported afterwards.
\<close>

definition stream_all :: "golib \<Rightarrow> string \<Rightarrow> (nat \<times> go_error option) option" where
  "stream_all L harFileBytes =
     (case NewStreamingParser L harFileBytes [] of
        (Some it, err) \<Rightarrow> (case drain L it of (n, it') \<Rightarrow> Some (n, Err it'))
      | (None, err) \<Rightarrow> None)"

text \<open>
  The entry that the builder \<open>Har.AddEntry(method, url, httpVersion, pageref)\<close> appends
  (builder.go), \<open>now\<close> being the value of \<open>time.Now()\<close>.
\<close>

definition AddEntry_entry :: "go_time \<Rightarrow> string \<Rightarrow> string \<Rightarrow> string \<Rightarrow> string \<Rightarrow> Entries" where
  "AddEntry_entry now method url httpVersion pageref =
     \<lparr>en_StartedDateTime = now,
      en_Time = 0,
      en_Request =
        \<lparr>rq_Method = method, rq_URL = url, rq_HTTPVersion = httpVersion, rq_Cookies = [],
         rq_Headers = [], rq_QueryString = [], rq_PostData = None, rq_HeadersSize = - 1,
         rq_BodySize = - 1\<rparr>,
      en_Response =
        \<lparr>rs_Status = 0, rs_StatusText = [], rs_HTTPVersion = httpVersion, rs_Cookies = [],
         rs_Headers = [], rs_Content = \<lparr>ct_Size = 0, ct_MimeType = [], ct_Text = [], ct_Encoding = []\<rparr>,
         rs_RedirectURL = [], rs_HeadersSize = - 1, rs_BodySize = - 1, rs_TransferSize = - 1,
         rs_Error = None\<rparr>,
      en_Cache = zero_Cache,
      en_Timings =
        \<lparr>tm_Blocked = - 1, tm_DNS = - 1, tm_Connect = - 1, tm_Ssl = - 1, tm_Send = - 1,
         tm_Wait = - 1, tm_Receive = - 1, tm_BlockedQueueing = 0, tm_BlockedProxy = 0\<rparr>,
      en_Pageref = pageref,
      en_ServerIPAddress = [],
      en_Connection = [],
      en_Initiator = zero_Initiator,
      en_Priority = [],
      en_ResourceType = []\<rparr>"

text \<open>
  Lenient decoding "fails outright": no archive, and an error. "Something was
  recovered": the test of \<open>parseLenient\<close> on version, entries and pages.
\<close>

definition fails_outright :: "Har result \<Rightarrow> bool" where
  "fails_outright r = (fst r = None \<and> snd r \<noteq> None)"

definition something_recovered :: "Har \<Rightarrow> bool" where
  "something_recovered har =
     (lg_Version (hr_Log har) \<noteq> [] \<or> 0 < length (slice (lg_Entries (hr_Log har)))
      \<or> 0 < length (lg_Pages (hr_Log har)))"

definition lenient_options :: "bool \<Rightarrow> ParseOptions" where
  "lenient_options collect = DefaultParseOptions\<lparr>po_Lenient := True, po_CollectWarnings := collect\<rparr>"

text \<open>
  For the claim about one invalid entry: the result of decoding one raw entry, the
  entries of a raw list that decode, in order, and the partial errors that
  \<open>parseLenient\<close> records for those that do not, the first raw entry having index \<open>k\<close>.
\<close>

definition entry_result :: "golib \<Rightarrow> json \<Rightarrow> json_err + Entries" where
  "entry_result L raw = finish (dec_Entries L raw zero_Entries)"

definition good_entries :: "golib \<Rightarrow> json list \<Rightarrow> Entries list" where
  "good_entries L raws =
     concat (map (\<lambda>raw. case entry_result L raw of Inr entry \<Rightarrow> [entry] | Inl err \<Rightarrow> []) raws)"

definition entry_error :: "nat \<Rightarrow> json_err \<Rightarrow> HarError" where
  "entry_error i err =
     HarError ErrCodeJSONParse (MsgCannotParseEntry (i + 1)) (Some err) (idx ''log.entries'' i) []"

fun entry_errors :: "golib \<Rightarrow> nat \<Rightarrow> json list \<Rightarrow> HarError list" where
  "entry_errors L k [] = []"
| "entry_errors L k (raw # rest) =
     (case entry_result L raw of Inl err \<Rightarrow> [entry_error k err] | Inr entry \<Rightarrow> [])
     @ entry_errors L (Suc k) rest"

definition set_entries :: "Har \<Rightarrow> Entries list \<Rightarrow> Har" where
  "set_entries har es = har\<lparr>hr_Log := (hr_Log har)\<lparr>lg_Entries := Some es\<rparr>\<rparr>"

text \<open>What the claim reads off the result: the number of entries and the field paths of the partial errors.\<close>

definition entries_count :: "Har result \<Rightarrow> nat option" where
  "entries_count r = map_option (\<lambda>har. length (slice (lg_Entries (hr_Log har)))) (fst r)"

definition partial_fields :: "Har result \<Rightarrow> string list" where
  "partial_fields r =
     (case snd r of
        Some (ErrHar e) \<Rightarrow> map he_Field (he_PartialErrors e)
      | _ \<Rightarrow> [])"

definition sample_good_entry :: json where
  "sample_good_entry = s_entry_json (JInt 200) s_timings_json"

definition sample_bad_entry :: json where
  "sample_bad_entry = s_entry_json (JStr ''not-a-number'') s_timings_json"

definition sample_log_members :: "(string \<times> json) list" where
  "sample_log_members =
     [(''version'', JStr ''1.2''), (''creator'', s_creator_json ''go-har''),
      (''entries'', JArr ([sample_good_entry] @ [sample_bad_entry] @ []))]"

definition sample_before_entries :: Har where
  "sample_before_entries =
     \<lparr>hr_Log = \<lparr>lg_Version = ''1.2'', lg_Creator = \<lparr>cr_Name = ''go-har'', cr_Version = ''1.0''\<rparr>,
                 lg_Pages = [], lg_Entries = Some []\<rparr>\<rparr>"

text \<open>
  For the claim about validation: the invariant violations of an archive as lists, one
  list for each check that the specification names, in the order of the document, and
  the reading of the claim in which every check runs (\<open>all_violations\<close>).
\<close>

definition basic_violations :: "Har \<Rightarrow> HarError list" where
  "basic_violations har =
     (if lg_Version (hr_Log har) = [] then [NewMissingFieldError ''log.version''] else [])
     @ (if cr_Name (lg_Creator (hr_Log har)) = [] then [NewMissingFieldError ''log.creator.name''] else [])
     @ (if cr_Version (lg_Creator (hr_Log har)) = [] then [NewMissingFieldError ''log.creator.version''] else [])
     @ (if lg_Entries (hr_Log har) = None then [NewMissingFieldError ''log.entries''] else [])"

definition version_violations :: "Har \<Rightarrow> HarError list" where
  "version_violations har =
     (if IsValidHarVersion (lg_Version (hr_Log har)) then []
      else [NewValidationError (MsgUnsupportedVersion (lg_Version (hr_Log har))) ''log.version''])"

definition header_violations :: "string \<Rightarrow> nat \<Rightarrow> Headers list \<Rightarrow> HarError list" where
  "header_violations fieldPath k headers =
     concat (map (\<lambda>(i, header).
                    if h_Name header = []
                    then [NewValidationError MsgHeaderNeedsName (idx fieldPath i @ ''.name'')]
                    else [])
               (enumerate k headers))"

definition cookie_violations :: "string \<Rightarrow> nat \<Rightarrow> Cookie list \<Rightarrow> HarError list" where
  "cookie_violations fieldPath k cookies =
     concat (map (\<lambda>(i, cookie).
                    if ck_Name cookie = []
                    then [NewValidationError MsgCookieNeedsName (idx fieldPath i @ ''.name'')]
                    else [])
               (enumerate k cookies))"

definition request_violations :: "golib \<Rightarrow> string \<Rightarrow> Request \<Rightarrow> HarError list" where
  "request_violations L fieldPath req =
     (if rq_Method req = [] then [NewValidationError MsgRequestNeedsMethod (fieldPath @ ''.method'')] else [])
     @ (if rq_URL req = [] then [NewValidationError MsgRequestNeedsURL (fieldPath @ ''.url'')]
        else (case lib_url_error L (rq_URL req) of
                Some text \<Rightarrow> [NewValidationError (MsgInvalidURLFormat text) (fieldPath @ ''.url'')]
              | None \<Rightarrow> []))
     @ (if rq_HTTPVersion req = []
        then [NewValidationError MsgRequestNeedsVersion (fieldPath @ ''.httpVersion'')] else [])
     @ header_violations (fieldPath @ ''.headers'') 0 (rq_Headers req)
     @ cookie_violations (fieldPath @ ''.cookies'') 0 (rq_Cookies req)"

definition response_violations :: "string \<Rightarrow> Response \<Rightarrow> HarError list" where
  "response_violations fieldPath resp =
     (if rs_Status resp \<le> 0 then [NewValidationError MsgResponseNeedsStatus (fieldPath @ ''.status'')] else [])
     @ (if rs_HTTPVersion resp = []
        then [NewValidationError MsgResponseNeedsVersion (fieldPath @ ''.httpVersion'')] else [])
     @ (if ct_MimeType (rs_Content resp) = []
        then [NewValidationError MsgContentNeedsMimeType (fieldPath @ ''.content'' @ ''.mimeType'')] else [])
     @ header_violations (fieldPath @ ''.headers'') 0 (rs_Headers resp)
     @ cookie_violations (fieldPath @ ''.cookies'') 0 (rs_Cookies resp)"

definition timings_violations :: "string \<Rightarrow> Timings \<Rightarrow> HarError list" where
  "timings_violations fieldPath timings =
     (if tm_Wait timings < 0 then [NewValidationError MsgWaitNegative (fieldPath @ ''.wait'')] else [])
     @ (if tm_Receive timings < 0 then [NewValidationError MsgReceiveNegative (fieldPath @ ''.receive'')] else [])"

definition entry_violations :: "golib \<Rightarrow> nat \<Rightarrow> Entries \<Rightarrow> HarError list" where
  "entry_violations L i entry =
     (if IsZero (en_StartedDateTime entry)
      then [NewValidationError MsgEntryNeedsStartTime (idx ''log.entries'' i @ ''.startedDateTime'')] else [])
     @ request_violations L (idx ''log.entries'' i @ ''.request'') (en_Request entry)
     @ response_violations (idx ''log.entries'' i @ ''.response'') (en_Response entry)
     @ timings_violations (idx ''log.entries'' i @ ''.timings'') (en_Timings entry)"

definition entries_violations :: "golib \<Rightarrow> nat \<Rightarrow> Entries list \<Rightarrow> HarError list" where
  "entries_violations L k entries =
     concat (map (\<lambda>(i, entry). entry_violations L i entry) (enumerate k entries))"

definition page_violations :: "nat \<Rightarrow> Pages \<Rightarrow> HarError list" where
  "page_violations i page =
     (if pg_ID page = [] then [NewValidationError MsgPageNeedsID (idx ''log.pages'' i @ ''.id'')] else [])
     @ (if IsZero (pg_StartedDateTime page)
        then [NewValidationError MsgPageNeedsStartTime (idx ''log.pages'' i @ ''.startedDateTime'')] else [])"

definition pages_violations :: "nat \<Rightarrow> Pages list \<Rightarrow> HarError list" where
  "pages_violations k pages = concat (map (\<lambda>(i, page). page_violations i page) (enumerate k pages))"

definition content_violations :: "golib \<Rightarrow> Har \<Rightarrow> HarError list" where
  "content_violations L har =
     version_violations har
     @ entries_violations L 0 (slice (lg_Entries (hr_Log har)))
     @ pages_violations 0 (lg_Pages (hr_Log har))"

definition all_violations :: "golib \<Rightarrow> Har \<Rightarrow> HarError list" where
  "all_violations L har = basic_violations har @ content_violations L har"

definition validation_error :: "HarError list \<Rightarrow> HarError" where
  "validation_error vs = HarError ErrCodeValidation MsgValidationFailed None [] vs"

text \<open>An archive without a creator name, whose one entry is the zero entry.\<close>

definition sample_invalid_har :: Har where
  "sample_invalid_har =
     \<lparr>hr_Log = \<lparr>lg_Version = ''1.2'', lg_Creator = \<lparr>cr_Name = [], cr_Version = ''1.0''\<rparr>,
                 lg_Pages = [], lg_Entries = Some [zero_Entries]\<rparr>\<rparr>"

text \<open>
  For the claim about the compact round trip. \<open>round_trip_equal\<close> is the equality of
  the claim: two archives are equal but for the order of the header and query-string
  lists, of which the sets of name/value pairs are compared.
\<close>

definition pairs :: "Headers list \<Rightarrow> (string \<times> string) set" where
  "pairs hs = set (map (\<lambda>h. (h_Name h, h_Value h)) hs)"

definition without_lists :: "Entries \<Rightarrow> Entries" where
  "without_lists e =
     e\<lparr>en_Request := (en_Request e)\<lparr>rq_Headers := [], rq_QueryString := []\<rparr>,
       en_Response := (en_Response e)\<lparr>rs_Headers := []\<rparr>\<rparr>"

definition same_modulo_order :: "Entries \<Rightarrow> Entries \<Rightarrow> bool" where
  "same_modulo_order e e' =
     (pairs (rq_Headers (en_Request e')) = pairs (rq_Headers (en_Request e))
      \<and> pairs (rq_QueryString (en_Request e')) = pairs (rq_QueryString (en_Request e))
      \<and> pairs (rs_Headers (en_Response e')) = pairs (rs_Headers (en_Response e))
      \<and> without_lists e' = without_lists e)"

definition round_trip_equal :: "Har \<Rightarrow> Har \<Rightarrow> bool" where
  "round_trip_equal A B =
     (lg_Version (hr_Log B) = lg_Version (hr_Log A)
      \<and> lg_Creator (hr_Log B) = lg_Creator (hr_Log A)
      \<and> lg_Pages (hr_Log B) = lg_Pages (hr_Log A)
      \<and> list_all2 same_modulo_order (slice (lg_Entries (hr_Log A))) (slice (lg_Entries (hr_Log B))))"

text \<open>
  What a map keeps of a header list: of the headers of one name the last one. The
  headers of a list that no later header of the same name follows:
\<close>

fun last_headers :: "Headers list \<Rightarrow> Headers list" where
  "last_headers [] = []"
| "last_headers (h # hs) =
     (if h_Name h \<in> set (map h_Name hs) then last_headers hs else h # last_headers hs)"

text \<open>
  What the round trip keeps of an entry \<open>e\<close> in its image \<open>e'\<close>. The query string and
  the text and encoding of the content are not spoken of.
\<close>

definition compact_kept :: "Entries \<Rightarrow> Entries \<Rightarrow> bool" where
  "compact_kept e e' =
     (en_StartedDateTime e' = en_StartedDateTime e
      \<and> en_Time e' = en_Time e
      \<and> rq_Method (en_Request e') = HTTPMethod_String (ParseMethod (rq_Method (en_Request e)))
      \<and> rq_URL (en_Request e') = rq_URL (en_Request e)
      \<and> rq_HTTPVersion (en_Request e') = rq_HTTPVersion (en_Request e)
      \<and> rq_Cookies (en_Request e') = rq_Cookies (en_Request e)
      \<and> mset (rq_Headers (en_Request e')) = mset (last_headers (rq_Headers (en_Request e)))
      \<and> rq_PostData (en_Request e') = None
      \<and> rq_HeadersSize (en_Request e') = rq_HeadersSize (en_Request e)
      \<and> rq_BodySize (en_Request e') = rq_BodySize (en_Request e)
      \<and> rs_Status (en_Response e') = rs_Status (en_Response e)
      \<and> rs_StatusText (en_Response e') = rs_StatusText (en_Response e)
      \<and> rs_HTTPVersion (en_Response e') = rs_HTTPVersion (en_Response e)
      \<and> rs_Cookies (en_Response e') = rs_Cookies (en_Response e)
      \<and> mset (rs_Headers (en_Response e')) = mset (last_headers (rs_Headers (en_Response e)))
      \<and> ct_Size (rs_Content (en_Response e')) = ct_Size (rs_Content (en_Response e))
      \<and> ct_MimeType (rs_Content (en_Response e')) = ct_MimeType (rs_Content (en_Response e))
      \<and> rs_RedirectURL (en_Response e') = rs_RedirectURL (en_Response e)
      \<and> rs_HeadersSize (en_Response e') = rs_HeadersSize (en_Response e)
      \<and> rs_BodySize (en_Response e') = rs_BodySize (en_Response e)
      \<and> rs_TransferSize (en_Response e') = rs_TransferSize (en_Response e)
      \<and> rs_Error (en_Response e') = None
      \<and> en_Cache e' = en_Cache e
      \<and> en_Timings e' = en_Timings e
      \<and> en_Pageref e' = en_Pageref e
      \<and> en_ServerIPAddress e' = en_ServerIPAddress e
      \<and> en_Connection e' = en_Connection e
      \<and> en_Initiator e' = zero_Initiator
      \<and> en_Priority e' = []
      \<and> en_ResourceType e' = [])"

text \<open>
  The entries that the compact form can hold in full: the method is one of the nine
  names of the table \<open>stringToMethod\<close>, no header name occurs twice, and the fields for
  which the compact form has no place (or which it never fills) are empty.
\<close>

definition compact_exact :: "Entries \<Rightarrow> bool" where
  "compact_exact e =
     (rq_Method (en_Request e) \<in> set (map fst stringToMethod)
      \<and> distinct (map h_Name (rq_Headers (en_Request e)))
      \<and> distinct (map h_Name (rs_Headers (en_Response e)))
      \<and> rq_QueryString (en_Request e) = []
      \<and> rq_PostData (en_Request e) = None
      \<and> rs_Error (en_Response e) = None
      \<and> ct_Text (rs_Content (en_Response e)) = []
      \<and> ct_Encoding (rs_Content (en_Response e)) = []
      \<and> en_Initiator e = zero_Initiator
      \<and> en_Priority e = []
      \<and> en_ResourceType e = [])"

text \<open>
  A valid entry, an archive holding it, and the same archive with two \<open>Set-Cookie\<close>
  headers in the response.
\<close>

definition sample_get_entry :: "Headers list \<Rightarrow> Entries" where
  "sample_get_entry responseHeaders =
     zero_Entries
       \<lparr>en_StartedDateTime := 63839664000,
        en_Time := 12,
        en_Request := zero_Request
          \<lparr>rq_Method := ''GET'', rq_URL := ''http://example.com/'', rq_HTTPVersion := ''HTTP/1.1'',
           rq_Headers := [\<lparr>h_Name = ''Accept'', h_Value = ''*/*''\<rparr>,
                          \<lparr>h_Name = ''Host'', h_Value = ''example.com''\<rparr>]\<rparr>,
        en_Response := zero_Response
          \<lparr>rs_Status := 200, rs_StatusText := ''OK'', rs_HTTPVersion := ''HTTP/1.1'',
           rs_Headers := responseHeaders,
           rs_Content := \<lparr>ct_Size = 5, ct_MimeType = ''text/html'', ct_Text = [], ct_Encoding = []\<rparr>\<rparr>,
        en_Timings := zero_Timings\<lparr>tm_Wait := 10, tm_Receive := 2\<rparr>\<rparr>"

definition sample_har :: "Headers list \<Rightarrow> Har" where
  "sample_har responseHeaders =
     \<lparr>hr_Log = \<lparr>lg_Version = ''1.2'', lg_Creator = \<lparr>cr_Name = ''go-har'', cr_Version = ''1.0''\<rparr>,
                 lg_Pages = [], lg_Entries = Some [sample_get_entry responseHeaders]\<rparr>\<rparr>"

definition two_cookies :: "Headers list" where
  "two_cookies = [\<lparr>h_Name = ''Set-Cookie'', h_Value = ''a=1''\<rparr>,
                  \<lparr>h_Name = ''Set-Cookie'', h_Value = ''b=2''\<rparr>]"

definition two_headers :: "Headers list" where
  "two_headers = [\<lparr>h_Name = ''Content-Type'', h_Value = ''text/html''\<rparr>,
                  \<lparr>h_Name = ''Set-Cookie'', h_Value = ''a=1''\<rparr>]"

section \<open>Properties\<close>

subsection \<open>Version normalisation\<close>

lemma DetectHarVersion_one_two_one:
  "DetectHarVersion (Some (har_with_version ''1.2.1'')) = ''1.2''"
  by code_simp

lemma DetectHarVersion_one_three_five:
  "DetectHarVersion (Some (har_with_version ''1.3.5'')) = ''1.3''"
  by code_simp

lemma DetectHarVersion_zero_nine:
  "DetectHarVersion (Some (har_with_version ''0.9'')) = ''1.2''"
  by code_simp

lemma DetectHarVersion_empty:
  "DetectHarVersion (Some (har_with_version [])) = ''1.2''"
  by code_simp

lemma DetectHarVersion_prefix:
  "DetectHarVersion (Some har) =
     (if lg_Version (hr_Log har) = [] then ''1.2''
      else if HasPrefix (TrimSpace (lg_Version (hr_Log har))) ''1.1'' then ''1.1''
      else if HasPrefix (TrimSpace (lg_Version (hr_Log har))) ''1.3'' then ''1.3''
      else ''1.2'')"
  by (auto simp: DetectHarVersion_def Let_def IsValidHarVersion_def HarSpecVersion11_def
      HarSpecVersion12_def HarSpecVersion13_def HasPrefix_def)

text \<open>
  C7. \<open>DetectHarVersion\<close> is a prefix match with the baseline \<open>1.2\<close>: it maps
  \<open>1.2.1\<close> to \<open>1.2\<close> and \<open>1.3.5\<close> to \<open>1.3\<close>; \<open>0.9\<close>, the empty string and a
  nil archive go to \<open>1.2\<close>; and in general the result is \<open>1.1\<close> or \<open>1.3\<close> when
  the trimmed version starts with that, and \<open>1.2\<close> for every other version string.
\<close>

theorem DetectHarVersion_normalises:
  "DetectHarVersion (Some (har_with_version ''1.2.1'')) = ''1.2''
   \<and> DetectHarVersion (Some (har_with_version ''1.3.5'')) = ''1.3''
   \<and> DetectHarVersion (Some (har_with_version ''0.9'')) = ''1.2''
   \<and> DetectHarVersion (Some (har_with_version [])) = ''1.2''
   \<and> DetectHarVersion None = ''1.2''
   \<and> DetectHarVersion (Some (har_with_version v)) =
       (if v = [] then ''1.2''
        else if HasPrefix (TrimSpace v) ''1.1'' then ''1.1''
        else if HasPrefix (TrimSpace v) ''1.3'' then ''1.3''
        else ''1.2'')"
proof -
  have "lg_Version (hr_Log (har_with_version v)) = v"
    by (simp add: har_with_version_def)
  moreover have "DetectHarVersion None = ''1.2''"
    by (simp add: DetectHarVersion_def HarSpecVersion12_def)
  ultimately show ?thesis
    using DetectHarVersion_one_two_one DetectHarVersion_one_three_five
      DetectHarVersion_zero_nine DetectHarVersion_empty
      DetectHarVersion_prefix [of "har_with_version v"]
    by simp
qed

subsection \<open>Parse with the streaming option\<close>

lemma apply_Option_keeps_streaming:
  "o_useStreaming o' \<Longrightarrow> o_useStreaming (apply_Option opt o')"
  by (cases opt) auto

lemma foldl_keeps_streaming:
  "o_useStreaming o' \<Longrightarrow> o_useStreaming (foldl (\<lambda>o' opt. apply_Option opt o') o' opts)"
  by (induction opts arbitrary: o') (auto simp: apply_Option_keeps_streaming)

lemma foldl_sets_streaming:
  "WithStreaming \<in> set opts \<Longrightarrow> o_useStreaming (foldl (\<lambda>o' opt. apply_Option opt o') o' opts)"
proof (induction opts arbitrary: o')
  case Nil
  then show ?case by simp
next
  case (Cons opt opts)
  show ?case
  proof (cases "opt = WithStreaming")
    case True
    then show ?thesis by (simp add: foldl_keeps_streaming)
  next
    case False
    with Cons.prems have "WithStreaming \<in> set opts" by simp
    then show ?thesis using Cons.IH by simp
  qed
qed

lemma applyOptions_streaming:
  "WithStreaming \<in> set opts \<Longrightarrow> o_useStreaming (applyOptions opts)"
  by (simp add: applyOptions_def foldl_sets_streaming)

lemma isJSONContent_nolog: "isJSONContent doc_nolog_bytes"
  by code_simp

text \<open>
  C10, as stated, at the empty buffer: \<open>Parse\<close> checks the input before it looks at the
  options, and the error it returns is of kind InvalidFormat, not Unsupported.
\<close>

theorem Parse_WithStreaming_empty_input:
  "\<not> refused_as_unsupported (Parse lib0 [] [WithStreaming])"
  by (simp add: Parse_def validateInput_def refused_as_unsupported_def
      NewInvalidFormatError_def NewHarError_def)

text \<open>
  C10, amended. With \<open>WithStreaming\<close> among the options, whatever the other options and
  their order, \<open>Parse\<close> returns the nil provider and an error: InvalidFormat for an
  empty buffer or one that is not JSON-shaped, and Unsupported for every buffer that
  passes \<open>validateInput\<close>. It never returns a provider.
\<close>

theorem Parse_WithStreaming:
  assumes "WithStreaming \<in> set opts"
  shows "Parse L bytes opts =
           (None, Some (ErrHar (if length bytes = 0 then NewInvalidFormatError MsgInputEmpty
                                else if \<not> isJSONContent bytes then NewInvalidFormatError MsgInputNotJSON
                                else NewUnsupportedError MsgStreamingUnsupported)))
         \<and> (validateInput bytes = None \<longrightarrow> refused_as_unsupported (Parse L bytes opts))"
  using applyOptions_streaming [OF assms]
  by (simp add: Parse_def validateInput_def parseWithStrategy_def refused_as_unsupported_def
      NewUnsupportedError_def NewHarError_def)

theorem Parse_WithStreaming_witness:
  "WithStreaming \<in> set [WithLenient, WithStreaming, WithMemoryOptimized]
   \<and> validateInput doc_nolog_bytes = None
   \<and> Parse lib0 doc_nolog_bytes [WithLenient, WithStreaming, WithMemoryOptimized] =
       (None, Some (ErrHar (NewUnsupportedError MsgStreamingUnsupported)))
   \<and> refused_as_unsupported (Parse lib0 doc_nolog_bytes [WithLenient, WithStreaming, WithMemoryOptimized])"
proof -
  have m: "WithStreaming \<in> set [WithLenient, WithStreaming, WithMemoryOptimized]" by simp
  have n: "length doc_nolog_bytes \<noteq> 0" by (simp add: doc_nolog_bytes_def)
  have v: "validateInput doc_nolog_bytes = None"
    using n isJSONContent_nolog by (simp add: validateInput_def)
  note p = Parse_WithStreaming [OF m, of lib0 doc_nolog_bytes]
  from p [THEN conjunct1]
  have "Parse lib0 doc_nolog_bytes [WithLenient, WithStreaming, WithMemoryOptimized] =
          (None, Some (ErrHar (NewUnsupportedError MsgStreamingUnsupported)))"
    using n isJSONContent_nolog by simp
  moreover from p [THEN conjunct2] v
  have "refused_as_unsupported (Parse lib0 doc_nolog_bytes [WithLenient, WithStreaming, WithMemoryOptimized])"
    by blast
  ultimately show ?thesis using m v by blast
qed

subsection \<open>Decoding the timings\<close>

lemma dec_members_append:
  "dec_members step (ps @ qs) acc =
     (case dec_members step ps acc of Inl e \<Rightarrow> Inl e | Inr acc' \<Rightarrow> dec_members step qs acc')"
proof (induction ps arbitrary: acc)
  case Nil
  then show ?case by simp
next
  case (Cons p ps)
  obtain k v where p: "p = (k, v)" by (cases p)
  obtain se r where acc: "acc = (se, r)" by (cases acc)
  show ?case
    using Cons.IH by (simp add: p acc split: sum.splits prod.splits)
qed

lemma dec_float64_Inr: "\<exists>se x. dec_float64 v cur = Inr (se, x)"
  by (cases v) (simp_all add: dec_float64_def)

lemma fld_float64_keeps:
  assumes "\<And>x. sel (put x t) = sel t"
  shows "\<exists>se t'. fld name dec_float64 get put v t = Inr (se, t') \<and> sel t' = sel t"
proof -
  from dec_float64_Inr [of v "get t"]
  obtain se x where "dec_float64 v (get t) = Inr (se, x)" by blast
  then show ?thesis using assms by (simp add: fld_def)
qed

lemma Timings_field_other:
  assumes "\<not> key_is k ''ssl''"
  shows "\<exists>se t'. Timings_field k v t = Inr (se, t') \<and> tm_Ssl t' = tm_Ssl t"
  unfolding Timings_field_def using assms
  by (simp add: fld_float64_keeps)

lemma dec_members_no_ssl:
  assumes "list_all (\<lambda>p. \<not> key_is (fst p) ''ssl'') ps"
  shows "\<exists>se' t'. dec_members Timings_field ps (se, t) = Inr (se', t') \<and> tm_Ssl t' = tm_Ssl t"
  using assms
proof (induction ps arbitrary: se t)
  case Nil
  then show ?case by simp
next
  case (Cons p ps)
  obtain k v where p: "p = (k, v)" by (cases p)
  from Cons.prems p have k: "\<not> key_is k ''ssl''" and rest: "list_all (\<lambda>p. \<not> key_is (fst p) ''ssl'') ps"
    by simp_all
  from Timings_field_other [OF k, of v t]
  obtain se1 t1 where s: "Timings_field k v t = Inr (se1, t1)" and e: "tm_Ssl t1 = tm_Ssl t"
    by blast
  from Cons.IH [OF rest, of "first_err se se1" t1] e
  show ?case by (simp add: p s)
qed

lemma key_is_ssl_facts:
  "\<not> key_is ''ssl'' ''blocked''" "\<not> key_is ''ssl'' ''dns''" "\<not> key_is ''ssl'' ''connect''"
  "key_is ''ssl'' ''ssl''"
  by code_simp+

lemma Timings_field_ssl_zero:
  assumes "tm_Ssl t = 0"
  shows "Timings_field ''ssl'' (JInt 0) t = Inr (None, t)"
proof -
  have "t\<lparr>tm_Ssl := 0\<rparr> = t" using assms by (cases t) simp
  then show ?thesis
    by (simp add: Timings_field_def key_is_ssl_facts fld_def dec_float64_def)
qed

lemma sample_ssl_absent: "first_entry_ssl (ParseHar lib0 doc_one_bytes) = Some 0"
  by code_simp

lemma sample_ssl_same: "ParseHar lib0 doc_one_bytes = ParseHar lib0 doc_ssl0_bytes"
  by code_simp

text \<open>
  C4, as stated, at the sample document whose timings have no \<open>ssl\<close> member: strict
  parsing gives \<open>Ssl = 0\<close>, not \<open>-1\<close>, and the archive is the one parsed from the
  document with an explicit \<open>"ssl": 0\<close>.
\<close>

theorem absent_ssl_is_zero_counterexample:
  "first_entry_ssl (ParseHar lib0 doc_one_bytes) \<noteq> Some (- 1)
   \<and> first_entry_ssl (ParseHar lib0 doc_one_bytes) = Some 0
   \<and> ParseHar lib0 doc_one_bytes = ParseHar lib0 doc_ssl0_bytes"
  using sample_ssl_absent sample_ssl_same by simp

text \<open>
  C4, amended. Decoding a timings object that has no \<open>ssl\<close> member yields \<open>Ssl = 0\<close>,
  and yields the same \<open>Timings\<close> value and the same error state as decoding the object
  with \<open>"ssl": 0\<close> put in at any place: after decoding, the absent \<open>ssl\<close> and the
  explicit zero are the same value.
\<close>

theorem absent_ssl_decodes_as_zero:
  assumes "list_all (\<lambda>p. \<not> key_is (fst p) ''ssl'') (ps1 @ ps2)"
  shows "(\<exists>se t. dec_Timings (JObj (ps1 @ ps2)) zero_Timings = Inr (se, t) \<and> tm_Ssl t = 0)
         \<and> dec_Timings (JObj (ps1 @ [(''ssl'', JInt 0)] @ ps2)) zero_Timings =
             dec_Timings (JObj (ps1 @ ps2)) zero_Timings"
proof -
  from assms have n1: "list_all (\<lambda>p. \<not> key_is (fst p) ''ssl'') ps1"
    and n2: "list_all (\<lambda>p. \<not> key_is (fst p) ''ssl'') ps2"
    by simp_all
  have z: "tm_Ssl zero_Timings = 0" by (simp add: zero_Timings_def)
  from dec_members_no_ssl [OF assms, of None zero_Timings] z
  have first: "\<exists>se t. dec_Timings (JObj (ps1 @ ps2)) zero_Timings = Inr (se, t) \<and> tm_Ssl t = 0"
    by (simp add: dec_Timings_def dec_obj_def)
  from dec_members_no_ssl [OF n1, of None zero_Timings] z
  obtain se1 t1 where d1: "dec_members Timings_field ps1 (None, zero_Timings) = Inr (se1, t1)"
    and s1: "tm_Ssl t1 = 0"
    by auto
  have "dec_members Timings_field (ps1 @ [(''ssl'', JInt 0)] @ ps2) (None, zero_Timings) =
          dec_members Timings_field ps2 (se1, t1)"
    by (simp add: dec_members_append d1 Timings_field_ssl_zero [OF s1] first_err_def
        split: option.splits)
  moreover have "dec_members Timings_field (ps1 @ ps2) (None, zero_Timings) =
          dec_members Timings_field ps2 (se1, t1)"
    by (simp add: dec_members_append d1)
  ultimately have "dec_Timings (JObj (ps1 @ [(''ssl'', JInt 0)] @ ps2)) zero_Timings =
             dec_Timings (JObj (ps1 @ ps2)) zero_Timings"
    by (simp add: dec_Timings_def dec_obj_def)
  with first show ?thesis by blast
qed

lemma sample_timings_decoded:
  "dec_Timings (JObj ([(''wait'', JInt 1)] @ [(''receive'', JInt 1)])) zero_Timings =
     Inr (None, zero_Timings\<lparr>tm_Wait := 1, tm_Receive := 1\<rparr>)"
  by code_simp

lemma sample_timings_no_ssl:
  "list_all (\<lambda>p. \<not> key_is (fst p) ''ssl'') ([(''wait'', JInt 1)] @ [(''receive'', JInt 1)])"
  by code_simp

lemma sample_timings_ssl_zero:
  "tm_Ssl (zero_Timings\<lparr>tm_Wait := 1, tm_Receive := 1\<rparr>) = 0"
  by (simp add: zero_Timings_def)

theorem absent_ssl_decodes_as_zero_witness:
  "list_all (\<lambda>p. \<not> key_is (fst p) ''ssl'') ([(''wait'', JInt 1)] @ [(''receive'', JInt 1)])
   \<and> dec_Timings (JObj ([(''wait'', JInt 1)] @ [(''ssl'', JInt 0)] @ [(''receive'', JInt 1)])) zero_Timings =
       Inr (None, zero_Timings\<lparr>tm_Wait := 1, tm_Receive := 1\<rparr>)
   \<and> tm_Ssl (zero_Timings\<lparr>tm_Wait := 1, tm_Receive := 1\<rparr>) = 0"
proof -
  note t = absent_ssl_decodes_as_zero [OF sample_timings_no_ssl]
  from t [THEN conjunct2] sample_timings_decoded
  have "dec_Timings (JObj ([(''wait'', JInt 1)] @ [(''ssl'', JInt 0)] @ [(''receive'', JInt 1)])) zero_Timings =
       Inr (None, zero_Timings\<lparr>tm_Wait := 1, tm_Receive := 1\<rparr>)"
    by (rule trans)
  with sample_timings_no_ssl sample_timings_ssl_zero show ?thesis by simp
qed

subsection \<open>Deferred parsing against strict parsing\<close>

lemma sample_strict_text: "first_entry_text (ParseHar lib0 doc_one_bytes) = Some ''hello''"
  by code_simp

lemma sample_lazy_text: "first_entry_text (lazy_then_standard lib0 doc_one_bytes) = Some []"
  by code_simp

text \<open>
  C2 at the sample document, whose one response has the body text \<open>hello\<close>: strict
  parsing keeps the text, while \<open>ToStandardHar\<close> of the deferred archive loads the
  content and then copies \<open>Size\<close> and \<open>MimeType\<close> only, so the canonical archive it
  returns has an empty body text and is not the strictly parsed one.
\<close>

theorem lazy_ToStandardHar_drops_text:
  "first_entry_text (ParseHar lib0 doc_one_bytes) = Some ''hello''
   \<and> first_entry_text (lazy_then_standard lib0 doc_one_bytes) = Some []
   \<and> lazy_then_standard lib0 doc_one_bytes \<noteq> ParseHar lib0 doc_one_bytes"
proof -
  have "first_entry_text (lazy_then_standard lib0 doc_one_bytes)
          \<noteq> first_entry_text (ParseHar lib0 doc_one_bytes)"
    by (simp add: sample_strict_text sample_lazy_text)
  then have "lazy_then_standard lib0 doc_one_bytes \<noteq> ParseHar lib0 doc_one_bytes"
    by auto
  then show ?thesis
    by (simp add: sample_strict_text sample_lazy_text)
qed

subsection \<open>The streaming cursor\<close>

lemma find_entries_length: "length (snd (find_entries d)) \<le> length d"
proof (induction d)
  case Nil
  show ?case by simp
next
  case (Cons p d)
  obtain t v where p: "p = (t, v)" by (cases p)
  show ?case
  proof (cases "t = TString ''entries''")
    case True
    show ?thesis
    proof (cases d)
      case Nil
      with True p show ?thesis by simp
    next
      case (Cons q rest)
      obtain t' v' where q: "q = (t', v')" by (cases q)
      from True p Cons q show ?thesis by simp
    qed
  next
    case False
    with Cons.IH p show ?thesis by simp
  qed
qed

lemma Decoder_Decode_shrinks:
  assumes "d \<noteq> []"
  shows "length (snd (Decoder_Decode d)) < length d"
proof -
  from assms obtain t v rest where d: "d = (t, v) # rest"
    by (cases d) auto
  show ?thesis
  proof (cases v)
    case None
    with d show ?thesis by (simp add: Decoder_Decode_def)
  next
    case (Some j)
    have "length (drop (length (tokens j) - 1) rest) \<le> length rest" by simp
    with d Some show ?thesis by (simp add: Decoder_Decode_def)
  qed
qed

lemma Decoder_More_nonempty: "Decoder_More d \<Longrightarrow> d \<noteq> []"
  by (cases d) (simp_all add: Decoder_More_def)

text \<open>Every call of \<open>Next\<close> that returns true reads at least one token: the guard of \<open>drain\<close> always holds.\<close>

lemma Next_true_shrinks:
  assumes "Next L it = (True, it')"
  shows "length (it_decoder it') < length (it_decoder it)"
proof -
  define r where "r = (if it_currentPos it = 0 then find_entries (it_decoder it) else (None, it_decoder it))"
  obtain e d where r: "r = (e, d)" by (cases r)
  obtain x d' where dd: "Decoder_Decode d = (x, d')" by (cases "Decoder_Decode d")
  have le: "length d \<le> length (it_decoder it)"
    using find_entries_length [of "it_decoder it"] r by (simp add: r_def split: if_splits)
  have n: "Next L it =
      (if it_closed it \<or> it_err it \<noteq> None then (False, it)
       else (case r of
              (Some err, d) \<Rightarrow> (False, it\<lparr>it_decoder := d, it_err := Some err\<rparr>)
            | (None, d) \<Rightarrow>
                if \<not> Decoder_More d then (False, it\<lparr>it_decoder := d\<rparr>)
                else (case Decoder_Decode d of
                        (Inl err, d') \<Rightarrow> (False, it\<lparr>it_decoder := d', it_err := Some err\<rparr>)
                      | (Inr v, d') \<Rightarrow>
                          (case finish (dec_Entries L v zero_Entries) of
                             Inl err \<Rightarrow> (False, it\<lparr>it_decoder := d', it_err := Some (ErrJSON err)\<rparr>)
                           | Inr entry \<Rightarrow>
                               (True, it\<lparr>it_decoder := d', it_entry := entry,
                                         it_currentPos := it_currentPos it + 1\<rparr>)))))"
    unfolding Next_def r_def by (rule refl)
  show ?thesis
  proof (cases "it_closed it \<or> it_err it \<noteq> None")
    case True
    with assms n show ?thesis by simp
  next
    case live: False
    show ?thesis
    proof (cases e)
      case (Some err)
      with assms n live r show ?thesis by simp
    next
      case None
      show ?thesis
      proof (cases "Decoder_More d")
        case False
        with assms n live r None show ?thesis by simp
      next
        case more: True
        from Decoder_Decode_shrinks [OF Decoder_More_nonempty [OF more]] dd
        have lt: "length d' < length d" by simp
        show ?thesis
        proof (cases x)
          case (Inl err)
          with assms n live r None more dd show ?thesis by simp
        next
          case (Inr v)
          show ?thesis
          proof (cases "finish (dec_Entries L v zero_Entries)")
            case (Inl err)
            with assms n live r None more dd Inr show ?thesis by simp
          next
            case fin: (Inr entry)
            from assms n live r None more dd Inr fin
            have "it' = it\<lparr>it_decoder := d', it_entry := entry, it_currentPos := it_currentPos it + 1\<rparr>"
              by simp
            then have "it_decoder it' = d'" by simp
            with lt le show ?thesis by simp
          qed
        qed
      qed
    qed
  qed
qed

lemma sample_strict_one_entry:
  "map_option (\<lambda>har. length (slice (lg_Entries (hr_Log har)))) (fst (ParseHar lib0 doc_named_entries_bytes)) = Some 1"
  by code_simp

lemma sample_stream_named_entries:
  "stream_all lib0 doc_named_entries_bytes = Some (0, Some (ErrText MsgExpectedBracketAfterEntries))"
  by code_simp

lemma sample_stream_one:
  "stream_all lib0 doc_one_bytes = Some (1, None)"
  by code_simp

text \<open>
  C6 at the valid sample document whose creator is named \<open>entries\<close>: the archive has
  one entry, but the first \<open>Next\<close> takes the creator's name for the \<open>entries\<close> key,
  finds no \<open>[\<close> after it, returns false and keeps an error that \<open>Err\<close> reports. On the
  document that differs in the creator's name only, \<open>Next\<close> returns true once and
  \<open>Err\<close> is nil.
\<close>

theorem Next_mistakes_string_value_for_entries_key:
  "map_option (\<lambda>har. length (slice (lg_Entries (hr_Log har)))) (fst (ParseHar lib0 doc_named_entries_bytes)) = Some 1
   \<and> stream_all lib0 doc_named_entries_bytes = Some (0, Some (ErrText MsgExpectedBracketAfterEntries))
   \<and> stream_all lib0 doc_one_bytes = Some (1, None)"
  using sample_strict_one_entry sample_stream_named_entries sample_stream_one
  by simp

subsection \<open>Accessors of the provider layer\<close>

text \<open>
  C9 at the entry that the package's own builder makes (content size 0, no MIME type),
  converted to the compact form: \<open>GetContent\<close> returns the nil interface, and the call
  of a content accessor on it panics. The canonical response and the deferred response
  without content both return a provider whose \<open>GetSize\<close> is 0.
\<close>

theorem OptimizedResponse_GetContent_nil:
  "OptimizedResponse_GetContent
     (oe_Response (convertToOptimizedEntry (AddEntry_entry 63839664000 ''GET'' ''https://example.com/'' ''HTTP/1.1'' []))) = None
   \<and> invoke (OptimizedResponse_GetContent
        (oe_Response (convertToOptimizedEntry (AddEntry_entry 63839664000 ''GET'' ''https://example.com/'' ''HTTP/1.1'' []))))
        ContentProvider_GetSize = Inl NilDereference
   \<and> invoke (Response_GetContent
        (en_Response (AddEntry_entry 63839664000 ''GET'' ''https://example.com/'' ''HTTP/1.1'' [])))
        ContentProvider_GetSize = Inr 0
   \<and> invoke (LazyResponse_GetContent zero_LazyResponse) ContentProvider_GetSize = Inr 0"
  by (simp add: OptimizedResponse_GetContent_def convertToOptimizedEntry_def AddEntry_entry_def
      invoke_def Response_GetContent_def LazyResponse_GetContent_def zero_LazyResponse_def
      Content_GetSize_def lazyContentWrapper_GetSize_def)

text \<open>The same response, asked for its MIME type through the interface.\<close>

theorem OptimizedResponse_GetContent_nil_witness:
  "invoke (OptimizedResponse_GetContent
        (oe_Response (convertToOptimizedEntry (AddEntry_entry 63839664000 ''GET'' ''https://example.com/'' ''HTTP/1.1'' []))))
        ContentProvider_GetMimeType = Inl NilDereference"
  using OptimizedResponse_GetContent_nil [THEN conjunct1]
  by (simp add: invoke_def)

subsection \<open>When lenient parsing returns an archive\<close>

lemma HasPartialErrors_AddPartialError [simp]: "HasPartialErrors (AddPartialError r e)"
  by (cases r) (simp add: HasPartialErrors_def AddPartialError_def)

lemma not_recovered_start: "\<not> something_recovered (fst lenient_start)"
  by (simp add: something_recovered_def lenient_start_def slice_def)

lemma parseLenient_decision:
  assumes "lib_scan L bytes = Inr (JObj ps)"
    and "lenient_log L (map_of (rev ps)) lenient_start = (har, rootError)"
  shows "parseLenient L bytes opts =
           (if HasPartialErrors rootError \<and> po_CollectWarnings opts
            then (if something_recovered har then (Some har, Some (ErrHar rootError))
                  else (None, Some (ErrHar rootError)))
            else if HasPartialErrors rootError then (None, Some (ErrHar rootError))
            else (Some har, None))"
  using assms by (simp add: parseLenient_def dec_raw_map_def something_recovered_def)

lemma lenient_log_absent:
  assumes "rawData ''log'' = None"
  shows "lenient_log L rawData lenient_start =
           (fst lenient_start, AddPartialError (snd lenient_start) (NewMissingFieldError ''log''))"
  using assms by (simp add: lenient_log_def case_prod_beta)

lemma lenient_log_not_object:
  assumes "rawData ''log'' = Some j" and "dec_raw_map j = Inl e"
  shows "lenient_log L rawData lenient_start =
           (fst lenient_start,
            AddPartialError (snd lenient_start)
              (WithField (NewJSONParseError MsgCannotParseLog (Some e)) ''log''))"
  using assms by (simp add: lenient_log_def case_prod_beta)

lemma sample_emptylog:
  "parseLenient lib0 doc_emptylog_bytes (lenient_options True) = (Some (fst lenient_start), None)"
  by code_simp

text \<open>
  C8, as stated, at the document \<open>{"log":{}}\<close>: nothing is decoded from the log (no
  version, no pages, no entries), yet \<open>parseLenient\<close> returns the empty archive and
  no error, because no field failed to decode.
\<close>

theorem parseLenient_empty_log_counterexample:
  "\<not> something_recovered (fst lenient_start)
   \<and> parseLenient lib0 doc_emptylog_bytes (lenient_options True) = (Some (fst lenient_start), None)
   \<and> \<not> fails_outright (parseLenient lib0 doc_emptylog_bytes (lenient_options True))"
  using sample_emptylog not_recovered_start by (simp add: fails_outright_def)

text \<open>
  C8, amended. For a document that scans to an object: if the \<open>log\<close> member is absent,
  or is not an object, or if some field failed to decode and nothing was recovered (no
  version, no pages, no entries), \<open>parseLenient\<close> returns no archive and an error,
  whether warnings are collected or not; if some field failed, something was recovered
  and warnings are collected, it returns the archive together with the error; if some
  field failed and warnings are not collected, it returns no archive and the error; and
  if no field failed it returns the archive without an error, even an empty one.
\<close>

theorem parseLenient_outcomes:
  assumes "lib_scan L bytes = Inr (JObj ps)"
    and "lenient_log L (map_of (rev ps)) lenient_start = (har, rootError)"
  shows "(map_of (rev ps) ''log'' = None \<longrightarrow> fails_outright (parseLenient L bytes opts))
       \<and> ((case map_of (rev ps) ''log'' of None \<Rightarrow> False | Some j \<Rightarrow> isl (dec_raw_map j))
            \<longrightarrow> fails_outright (parseLenient L bytes opts))
       \<and> (HasPartialErrors rootError \<and> \<not> something_recovered har
            \<longrightarrow> fails_outright (parseLenient L bytes opts))
       \<and> (HasPartialErrors rootError \<and> something_recovered har \<and> po_CollectWarnings opts
            \<longrightarrow> parseLenient L bytes opts = (Some har, Some (ErrHar rootError)))
       \<and> (HasPartialErrors rootError \<and> \<not> po_CollectWarnings opts
            \<longrightarrow> parseLenient L bytes opts = (None, Some (ErrHar rootError)))
       \<and> (\<not> HasPartialErrors rootError \<longrightarrow> parseLenient L bytes opts = (Some har, None))"
proof -
  note d = parseLenient_decision [OF assms, of opts]
  have a: "map_of (rev ps) ''log'' = None \<longrightarrow> fails_outright (parseLenient L bytes opts)"
  proof
    assume n: "map_of (rev ps) ''log'' = None"
    from lenient_log_absent [where rawData = "map_of (rev ps)" and L = L, OF n] assms(2)
    have "har = fst lenient_start" and "HasPartialErrors rootError" by auto
    with d not_recovered_start show "fails_outright (parseLenient L bytes opts)"
      by (simp add: fails_outright_def)
  qed
  have b: "(case map_of (rev ps) ''log'' of None \<Rightarrow> False | Some j \<Rightarrow> isl (dec_raw_map j))
            \<longrightarrow> fails_outright (parseLenient L bytes opts)"
  proof
    assume "case map_of (rev ps) ''log'' of None \<Rightarrow> False | Some j \<Rightarrow> isl (dec_raw_map j)"
    then obtain j e where j: "map_of (rev ps) ''log'' = Some j" and e: "dec_raw_map j = Inl e"
      by (auto split: option.splits simp: isl_def)
    from lenient_log_not_object [where rawData = "map_of (rev ps)" and L = L, OF j e] assms(2)
    have "har = fst lenient_start" and "HasPartialErrors rootError" by auto
    with d not_recovered_start show "fails_outright (parseLenient L bytes opts)"
      by (simp add: fails_outright_def)
  qed
  from d have c: "HasPartialErrors rootError \<and> \<not> something_recovered har
            \<longrightarrow> fails_outright (parseLenient L bytes opts)"
    by (simp add: fails_outright_def)
  from d have e: "HasPartialErrors rootError \<and> something_recovered har \<and> po_CollectWarnings opts
            \<longrightarrow> parseLenient L bytes opts = (Some har, Some (ErrHar rootError))"
    by simp
  from d have f: "HasPartialErrors rootError \<and> \<not> po_CollectWarnings opts
            \<longrightarrow> parseLenient L bytes opts = (None, Some (ErrHar rootError))"
    by simp
  from d have g: "\<not> HasPartialErrors rootError \<longrightarrow> parseLenient L bytes opts = (Some har, None)"
    by simp
  from a b c e f g show ?thesis by blast
qed

lemma sample_nolog_scan: "lib_scan lib0 doc_nolog_bytes = Inr (JObj [])"
  by code_simp

lemma sample_nolog_state:
  "lenient_log lib0 (map_of (rev [])) lenient_start =
     (fst lenient_start, AddPartialError (snd lenient_start) (NewMissingFieldError ''log''))"
  by (rule lenient_log_absent) simp

theorem parseLenient_outcomes_witness:
  "lib_scan lib0 doc_nolog_bytes = Inr (JObj [])
   \<and> fails_outright (parseLenient lib0 doc_nolog_bytes (lenient_options True))
   \<and> fails_outright (parseLenient lib0 doc_nolog_bytes (lenient_options False))"
proof -
  have n: "map_of (rev []) ''log'' = (None :: json option)" by simp
  from parseLenient_outcomes [OF sample_nolog_scan sample_nolog_state, of "lenient_options True"] n
  have t: "fails_outright (parseLenient lib0 doc_nolog_bytes (lenient_options True))" by blast
  from parseLenient_outcomes [OF sample_nolog_scan sample_nolog_state, of "lenient_options False"] n
  have f: "fails_outright (parseLenient lib0 doc_nolog_bytes (lenient_options False))" by blast
  from sample_nolog_scan t f show ?thesis by blast
qed

subsection \<open>Lenient parsing with one invalid entry\<close>

lemma lenient_version_entries:
  "lg_Entries (hr_Log (fst (lenient_version ld st))) = lg_Entries (hr_Log (fst st))"
  by (cases st) (simp add: lenient_version_def split: option.splits sum.splits)

lemma lenient_creator_entries:
  "lg_Entries (hr_Log (fst (lenient_creator ld st))) = lg_Entries (hr_Log (fst st))"
  by (cases st) (simp add: lenient_creator_def split: option.splits sum.splits)

lemma lenient_pages_entries:
  "lg_Entries (hr_Log (fst (lenient_pages L i raws st))) = lg_Entries (hr_Log (fst st))"
proof (induction raws arbitrary: i st)
  case Nil
  show ?case by simp
next
  case (Cons raw raws)
  obtain har r where st: "st = (har, r)" by (cases st)
  show ?case
    by (simp add: st Cons.IH split: sum.splits)
qed

lemma lenient_pages_field_entries:
  "lg_Entries (hr_Log (fst (lenient_pages_field L ld st))) = lg_Entries (hr_Log (fst st))"
  by (cases st) (simp add: lenient_pages_field_def lenient_pages_entries split: option.splits sum.splits)

lemma before_entries_empty:
  assumes "lenient_pages_field L ld (lenient_creator ld (lenient_version ld lenient_start)) = (har0, r0)"
  shows "lg_Entries (hr_Log har0) = Some []"
proof -
  have "lg_Entries (hr_Log (fst (lenient_pages_field L ld (lenient_creator ld (lenient_version ld lenient_start)))))
          = lg_Entries (hr_Log (fst lenient_start))"
    by (simp only: lenient_pages_field_entries lenient_creator_entries lenient_version_entries)
  with assms show ?thesis by (simp add: lenient_start_def)
qed

lemma set_entries_twice [simp]: "set_entries (set_entries har es) es' = set_entries har es'"
  by (simp add: set_entries_def)

lemma set_entries_slice [simp]: "slice (lg_Entries (hr_Log (set_entries har es))) = es"
  by (simp add: set_entries_def slice_def)

text \<open>The loop over the raw entries keeps those that decode and records an error for each other one.\<close>

lemma lenient_entries_loop:
  "lenient_entries L k raws (har, r) =
     (if good_entries L raws = [] then har
      else set_entries har (slice (lg_Entries (hr_Log har)) @ good_entries L raws),
      foldl AddPartialError r (entry_errors L k raws))"
proof (induction raws arbitrary: k har r)
  case Nil
  show ?case by (simp add: good_entries_def)
next
  case (Cons raw raws)
  show ?case
  proof (cases "entry_result L raw")
    case (Inl err)
    then have f: "finish (dec_Entries L raw zero_Entries) = Inl err"
      by (simp add: entry_result_def)
    have g: "good_entries L (raw # raws) = good_entries L raws"
      using Inl by (simp add: good_entries_def)
    have e: "entry_errors L k (raw # raws) = entry_error k err # entry_errors L (Suc k) raws"
      using Inl by simp
    have w: "WithField (NewJSONParseError (MsgCannotParseEntry (Suc k)) (Some err)) (idx ''log.entries'' k)
               = entry_error k err"
      by (simp add: WithField_def NewJSONParseError_def NewHarError_def entry_error_def)
    show ?thesis
      by (simp add: f g e w Cons.IH del: entry_errors.simps)
  next
    case (Inr entry)
    then have f: "finish (dec_Entries L raw zero_Entries) = Inr entry"
      by (simp add: entry_result_def)
    have g: "good_entries L (raw # raws) = entry # good_entries L raws"
      using Inr by (simp add: good_entries_def)
    have e: "entry_errors L k (raw # raws) = entry_errors L (Suc k) raws"
      using Inr by simp
    have s: "har\<lparr>hr_Log := (hr_Log har)\<lparr>lg_Entries := Some (slice (lg_Entries (hr_Log har)) @ [entry])\<rparr>\<rparr>
               = set_entries har (slice (lg_Entries (hr_Log har)) @ [entry])"
      by (simp add: set_entries_def)
    show ?thesis
      by (simp add: f g e s Cons.IH del: entry_errors.simps)
  qed
qed

lemma good_entries_append: "good_entries L (xs @ ys) = good_entries L xs @ good_entries L ys"
  by (simp add: good_entries_def)

lemma good_entries_Cons_bad:
  "entry_result L raw = Inl err \<Longrightarrow> good_entries L (raw # raws) = good_entries L raws"
  by (simp add: good_entries_def)

lemma entry_errors_append:
  "entry_errors L k (xs @ ys) = entry_errors L k xs @ entry_errors L (k + length xs) ys"
  by (induction xs arbitrary: k) simp_all

lemma good_entries_all:
  assumes "list_all (\<lambda>raw. \<not> isl (entry_result L raw)) raws"
  shows "map Inr (good_entries L raws) = map (entry_result L) raws"
  using assms
proof (induction raws)
  case Nil
  show ?case by (simp add: good_entries_def)
next
  case (Cons raw raws)
  then obtain entry where "entry_result L raw = Inr entry"
    by (cases "entry_result L raw") auto
  with Cons show ?case by (simp add: good_entries_def)
qed

lemma entry_errors_all_good:
  assumes "list_all (\<lambda>raw. \<not> isl (entry_result L raw)) raws"
  shows "entry_errors L k raws = []"
  using assms
proof (induction raws arbitrary: k)
  case Nil
  show ?case by simp
next
  case (Cons raw raws)
  then obtain entry where "entry_result L raw = Inr entry"
    by (cases "entry_result L raw") auto
  with Cons show ?case by simp
qed

lemma one_invalid_entry:
  assumes bad: "entry_result L bad = Inl err"
    and good: "list_all (\<lambda>raw. \<not> isl (entry_result L raw)) (xs @ ys)"
  shows "good_entries L (xs @ [bad] @ ys) = good_entries L (xs @ ys)"
    and "entry_errors L 0 (xs @ [bad] @ ys) = [entry_error (length xs) err]"
    and "length (good_entries L (xs @ ys)) = length (xs @ [bad] @ ys) - 1"
proof -
  from good have gx: "list_all (\<lambda>raw. \<not> isl (entry_result L raw)) xs"
    and gy: "list_all (\<lambda>raw. \<not> isl (entry_result L raw)) ys"
    by simp_all
  show "good_entries L (xs @ [bad] @ ys) = good_entries L (xs @ ys)"
    by (simp add: good_entries_append good_entries_Cons_bad [OF bad])
  show "entry_errors L 0 (xs @ [bad] @ ys) = [entry_error (length xs) err]"
    using bad by (simp add: entry_errors_append entry_errors_all_good [OF gx] entry_errors_all_good [OF gy])
  from good_entries_all [OF good] have "length (map Inr (good_entries L (xs @ ys)) :: (json_err + Entries) list) = length (map (entry_result L) (xs @ ys))"
    by simp
  then show "length (good_entries L (xs @ ys)) = length (xs @ [bad] @ ys) - 1"
    by simp
qed

lemma sample_badstatus_count: "entries_count (ParseHarLenient lib0 doc_badstatus_bytes) = Some 1"
  by code_simp

lemma sample_badstatus_fields: "partial_fields (ParseHarLenient lib0 doc_badstatus_bytes) = [''log.entries[1]'']"
  by code_simp

text \<open>
  C3, as stated, at the sample document with two entries of which the second has the
  status \<open>"not-a-number"\<close>: lenient parsing returns one entry, not two, and the field
  path of the one partial error is \<open>log.entries[1]\<close>, the entry, not
  \<open>log.entries[1].response.status\<close>.
\<close>

theorem lenient_invalid_entry_counterexample:
  "entries_count (ParseHarLenient lib0 doc_badstatus_bytes) = Some 1
   \<and> partial_fields (ParseHarLenient lib0 doc_badstatus_bytes) = [''log.entries[1]'']
   \<and> \<not> (entries_count (ParseHarLenient lib0 doc_badstatus_bytes) = Some 2
         \<and> partial_fields (ParseHarLenient lib0 doc_badstatus_bytes) = [''log.entries[1].response.status''])"
  using sample_badstatus_count sample_badstatus_fields by simp

text \<open>
  C3, amended. Take a document whose \<open>log\<close> is an object, whose \<open>entries\<close> is an
  array in which exactly one element (at index \<open>length xs\<close>) does not decode as an
  entry while at least one other does, and whose version, creator and pages decode
  without error. With warning collection on, lenient decoding returns the archive whose
  entries are the other entries in their order (the invalid entry is dropped whole: one
  entry fewer than the array has elements), together with an error that has exactly one
  partial error, of kind JsonParse, wrapping the decoder's error, with the field path
  \<open>log.entries[i]\<close> of the entry.
\<close>

theorem lenient_one_invalid_entry:
  assumes scan: "lib_scan L bytes = Inr (JObj ps)"
    and log: "map_of (rev ps) ''log'' = Some (JObj lps)"
    and ents: "map_of (rev lps) ''entries'' = Some (JArr (xs @ [bad] @ ys))"
    and before: "lenient_pages_field L (map_of (rev lps))
                   (lenient_creator (map_of (rev lps)) (lenient_version (map_of (rev lps)) lenient_start))
                 = (har0, snd lenient_start)"
    and bad: "entry_result L bad = Inl err"
    and good: "list_all (\<lambda>raw. \<not> isl (entry_result L raw)) (xs @ ys)"
    and others: "xs @ ys \<noteq> []"
    and collect: "po_CollectWarnings opts"
  shows "parseLenient L bytes opts =
           (Some (set_entries har0 (good_entries L (xs @ ys))),
            Some (ErrHar (HarError ErrCodeJSONParse MsgLenientRoot None []
                            [HarError ErrCodeJSONParse (MsgCannotParseEntry (length xs + 1)) (Some err)
                               (idx ''log.entries'' (length xs)) []])))
         \<and> length (good_entries L (xs @ ys)) = length (xs @ [bad] @ ys) - 1
         \<and> map Inr (good_entries L (xs @ ys)) = map (entry_result L) (xs @ ys)"
proof -
  note one = one_invalid_entry [OF bad good]
  have e0: "lg_Entries (hr_Log har0) = Some []"
    by (rule before_entries_empty [OF before])
  from good_entries_all [OF good] others have ne: "good_entries L (xs @ ys) \<noteq> []"
    by (metis map_is_Nil_conv)
  have r0: "snd lenient_start = HarError ErrCodeJSONParse MsgLenientRoot None [] []"
    by (simp add: lenient_start_def)
  from lenient_entries_loop [of L 0 "xs @ [bad] @ ys" har0 "snd lenient_start"]
  have "lenient_entries L 0 (xs @ [bad] @ ys) (har0, snd lenient_start) =
          (if good_entries L (xs @ ys) = [] then har0
           else set_entries har0 (slice (lg_Entries (hr_Log har0)) @ good_entries L (xs @ ys)),
           foldl AddPartialError (snd lenient_start) [entry_error (length xs) err])"
    by (simp only: one(1) one(2))
  then have loop: "lenient_entries L 0 (xs @ [bad] @ ys) (har0, snd lenient_start) =
          (set_entries har0 (good_entries L (xs @ ys)),
           HarError ErrCodeJSONParse MsgLenientRoot None [] [entry_error (length xs) err])"
    using ne by (simp add: e0 slice_def r0 AddPartialError_def)
  then have loop': "lenient_entries L 0 (xs @ bad # ys) (har0, snd lenient_start) =
          (set_entries har0 (good_entries L (xs @ ys)),
           HarError ErrCodeJSONParse MsgLenientRoot None [] [entry_error (length xs) err])"
    by simp
  have st: "lenient_log L (map_of (rev ps)) lenient_start =
          (set_entries har0 (good_entries L (xs @ ys)),
           HarError ErrCodeJSONParse MsgLenientRoot None [] [entry_error (length xs) err])"
    by (simp add: lenient_log_def case_prod_beta log dec_raw_map_def lenient_entries_field_def
        before ents dec_raw_slice_def loop')
  have hp: "HasPartialErrors (HarError ErrCodeJSONParse MsgLenientRoot None [] [entry_error (length xs) err])"
    by (simp add: HasPartialErrors_def)
  have rec: "something_recovered (set_entries har0 (good_entries L (xs @ ys)))"
    using ne by (simp add: something_recovered_def)
  from parseLenient_decision [OF scan st, of opts] hp rec collect
  have "parseLenient L bytes opts =
           (Some (set_entries har0 (good_entries L (xs @ ys))),
            Some (ErrHar (HarError ErrCodeJSONParse MsgLenientRoot None [] [entry_error (length xs) err])))"
    by simp
  with one(3) good_entries_all [OF good] show ?thesis
    by (simp add: entry_error_def)
qed
lemma sample_badstatus_scan:
  "lib_scan lib0 doc_badstatus_bytes = Inr (JObj [(''log'', JObj sample_log_members)])"
  by code_simp

lemma sample_badstatus_log:
  "map_of (rev [(''log'', JObj sample_log_members)]) ''log'' = Some (JObj sample_log_members)"
  by simp

lemma sample_badstatus_entries:
  "map_of (rev sample_log_members) ''entries'' = Some (JArr ([sample_good_entry] @ [sample_bad_entry] @ []))"
  by (simp add: sample_log_members_def)

lemma sample_badstatus_before:
  "lenient_pages_field lib0 (map_of (rev sample_log_members))
     (lenient_creator (map_of (rev sample_log_members))
        (lenient_version (map_of (rev sample_log_members)) lenient_start))
   = (sample_before_entries, snd lenient_start)"
  by code_simp

lemma sample_bad_entry_result:
  "entry_result lib0 sample_bad_entry = Inl (UnmarshalTypeError ''string'' ''int'' ''response.status'')"
  by code_simp

lemma sample_good_entry_result:
  "list_all (\<lambda>raw. \<not> isl (entry_result lib0 raw)) ([sample_good_entry] @ [])"
  by code_simp

theorem lenient_one_invalid_entry_witness:
  "lib_scan lib0 doc_badstatus_bytes = Inr (JObj [(''log'', JObj sample_log_members)])
   \<and> entry_result lib0 sample_bad_entry = Inl (UnmarshalTypeError ''string'' ''int'' ''response.status'')
   \<and> parseLenient lib0 doc_badstatus_bytes (lenient_options True) =
           (Some (set_entries sample_before_entries (good_entries lib0 ([sample_good_entry] @ []))),
            Some (ErrHar (HarError ErrCodeJSONParse MsgLenientRoot None []
                            [HarError ErrCodeJSONParse (MsgCannotParseEntry (length [sample_good_entry] + 1))
                               (Some (UnmarshalTypeError ''string'' ''int'' ''response.status''))
                               (idx ''log.entries'' (length [sample_good_entry])) []])))"
proof -
  have others: "[sample_good_entry] @ [] \<noteq> []" by simp
  have collect: "po_CollectWarnings (lenient_options True)" by (simp add: lenient_options_def)
  note t = lenient_one_invalid_entry [OF sample_badstatus_scan sample_badstatus_log
      sample_badstatus_entries sample_badstatus_before sample_bad_entry_result
      sample_good_entry_result others collect]
  show ?thesis
    by (rule conjI [OF sample_badstatus_scan conjI [OF sample_bad_entry_result t [THEN conjunct1]]])
qed

subsection \<open>Validation\<close>

lemma add_all_HarError:
  "foldl AddPartialError (HarError c m w f ps) vs = HarError c m w f (ps @ vs)"
  by (induction vs arbitrary: ps) (simp_all add: AddPartialError_def)

lemma add_all_if:
  "(if b then AddPartialError r e else r) = foldl AddPartialError r (if b then [e] else [])"
  by simp

lemma validateHeaders_from_eq:
  "validateHeaders_from k headers fieldPath r =
     foldl AddPartialError r (header_violations fieldPath k headers)"
proof (induction headers arbitrary: k r)
  case Nil
  show ?case by (simp add: header_violations_def)
next
  case (Cons header headers)
  have "header_violations fieldPath k (header # headers) =
          (if h_Name header = []
           then [NewValidationError MsgHeaderNeedsName (idx fieldPath k @ ''.name'')] else [])
          @ header_violations fieldPath (Suc k) headers"
    by (simp add: header_violations_def)
  then show ?case by (simp add: Cons.IH)
qed

lemma validateCookies_from_eq:
  "validateCookies_from k cookies fieldPath r =
     foldl AddPartialError r (cookie_violations fieldPath k cookies)"
proof (induction cookies arbitrary: k r)
  case Nil
  show ?case by (simp add: cookie_violations_def)
next
  case (Cons cookie cookies)
  have "cookie_violations fieldPath k (cookie # cookies) =
          (if ck_Name cookie = []
           then [NewValidationError MsgCookieNeedsName (idx fieldPath k @ ''.name'')] else [])
          @ cookie_violations fieldPath (Suc k) cookies"
    by (simp add: cookie_violations_def)
  then show ?case by (simp add: Cons.IH)
qed

lemma validateRequest_eq:
  "validateRequest L req fieldPath r = foldl AddPartialError r (request_violations L fieldPath req)"
  by (simp add: validateRequest_def request_violations_def Let_def validateHeaders_def
      validateCookies_def validateHeaders_from_eq validateCookies_from_eq split: option.splits)

lemma validateResponse_eq:
  "validateResponse resp fieldPath r = foldl AddPartialError r (response_violations fieldPath resp)"
  by (simp add: validateResponse_def response_violations_def Let_def validateContent_def
      validateHeaders_def validateCookies_def validateHeaders_from_eq validateCookies_from_eq)

lemma validateTimings_eq:
  "validateTimings timings fieldPath r = foldl AddPartialError r (timings_violations fieldPath timings)"
  by (simp add: validateTimings_def timings_violations_def Let_def)

lemma validateEntries_from_eq:
  "validateEntries_from L k entries r = foldl AddPartialError r (entries_violations L k entries)"
proof (induction entries arbitrary: k r)
  case Nil
  show ?case by (simp add: entries_violations_def)
next
  case (Cons entry entries)
  have c: "entries_violations L k (entry # entries) =
          entry_violations L k entry @ entries_violations L (Suc k) entries"
    by (simp add: entries_violations_def)
  have s: "validateTimings (en_Timings entry) (idx ''log.entries'' k @ ''.timings'')
             (validateResponse (en_Response entry) (idx ''log.entries'' k @ ''.response'')
               (validateRequest L (en_Request entry) (idx ''log.entries'' k @ ''.request'')
                 (if IsZero (en_StartedDateTime entry)
                  then AddPartialError r
                         (NewValidationError MsgEntryNeedsStartTime
                            (idx ''log.entries'' k @ ''.startedDateTime''))
                  else r)))
           = foldl AddPartialError r (entry_violations L k entry)"
    by (simp add: validateTimings_eq validateResponse_eq validateRequest_eq entry_violations_def)
  show ?case
    unfolding validateEntries_from.simps Let_def s Cons.IH c by simp
qed

lemma validatePages_from_eq:
  "validatePages_from k pages r = foldl AddPartialError r (pages_violations k pages)"
proof (induction pages arbitrary: k r)
  case Nil
  show ?case by (simp add: pages_violations_def)
next
  case (Cons page pages)
  have c: "pages_violations k (page # pages) = page_violations k page @ pages_violations (Suc k) pages"
    by (simp add: pages_violations_def)
  show ?case
    by (simp add: Let_def c Cons.IH validatePageTimings_def page_violations_def)
qed

lemma validateVersion_eq:
  "validateVersion har r = foldl AddPartialError r (version_violations har)"
  by (simp add: validateVersion_def version_violations_def Let_def IsValidHarVersion_def
      validateHarV11_def validateHarV12_def validateHarV13_def)

lemma validateBasicStructure_eq:
  "validateBasicStructure har validationRoot =
     (validation_error (basic_violations har),
      if basic_violations har = [] then None else Some (validation_error (basic_violations har)))"
  by (simp add: validateBasicStructure_def validationRoot_def validation_error_def
      basic_violations_def Let_def AddPartialError_def HasPartialErrors_def)

lemma content_checks_eq:
  "validatePages (lg_Pages (hr_Log har))
     (validateEntries L (slice (lg_Entries (hr_Log har)))
        (validateVersion har (validation_error [])))
   = validation_error (content_violations L har)"
  by (simp add: validatePages_def validateEntries_def validatePages_from_eq
      validateEntries_from_eq validateVersion_eq content_violations_def validation_error_def
      add_all_HarError)

lemma ValidateHarFile_eq:
  "ValidateHarFile L (Some har) =
     (if basic_violations har \<noteq> [] then Some (validation_error (basic_violations har))
      else if content_violations L har \<noteq> [] then Some (validation_error (content_violations L har))
      else None)"
proof (cases "basic_violations har = []")
  case False
  then show ?thesis
    by (simp add: ValidateHarFile_def validateBasicStructure_eq)
next
  case True
  have "HasPartialErrors (validation_error (content_violations L har)) = (content_violations L har \<noteq> [])"
    by (simp add: HasPartialErrors_def validation_error_def)
  with True show ?thesis
    by (simp add: ValidateHarFile_def validateBasicStructure_eq Let_def content_checks_eq)
qed

lemma sample_invalid_result:
  "ValidateHarFile lib0 (Some sample_invalid_har) =
     Some (validation_error [NewMissingFieldError ''log.creator.name''])"
  by code_simp

lemma sample_invalid_all:
  "length (all_violations lib0 sample_invalid_har) = 8"
  by code_simp

text \<open>
  C5, as stated, at an archive without creator name whose one entry is the zero entry:
  the checks find eight violations (the creator name, and for the entry start time,
  method, URL, request version, status, response version and MIME type), but the error
  that \<open>ValidateHarFile\<close> returns lists the first one only, because it returns as soon
  as \<open>validateBasicStructure\<close> has found a violation.
\<close>

theorem ValidateHarFile_early_return_counterexample:
  "ValidateHarFile lib0 (Some sample_invalid_har) =
     Some (validation_error [NewMissingFieldError ''log.creator.name''])
   \<and> length (all_violations lib0 sample_invalid_har) = 8
   \<and> ValidateHarFile lib0 (Some sample_invalid_har) \<noteq>
       (if all_violations lib0 sample_invalid_har = [] then None
        else Some (validation_error (all_violations lib0 sample_invalid_har)))"
proof -
  have "all_violations lib0 sample_invalid_har \<noteq> [NewMissingFieldError ''log.creator.name'']"
    using sample_invalid_all by auto
  moreover have "all_violations lib0 sample_invalid_har \<noteq> []"
    using sample_invalid_all by auto
  ultimately show ?thesis
    using sample_invalid_result sample_invalid_all by (simp add: validation_error_def)
qed

text \<open>
  C5, amended. \<open>ValidateHarFile\<close> returns nil exactly when no check finds a violation.
  Otherwise it returns one error of kind Validation whose partial-error list is: when
  the basic structure is violated (version, creator name, creator version or the
  entries array missing), exactly these basic violations, in order, the other checks not
  being run; and when the basic structure is sound, all the violations found by the
  version check and the per-entry request, response, content, header, cookie and timing
  checks and the page checks, in the order of the document.
\<close>

theorem ValidateHarFile_collects:
  "ValidateHarFile L (Some har) =
     (if basic_violations har \<noteq> [] then Some (validation_error (basic_violations har))
      else if content_violations L har \<noteq> [] then Some (validation_error (content_violations L har))
      else None)
   \<and> (ValidateHarFile L (Some har) = None) = (all_violations L har = [])
   \<and> (basic_violations har = [] \<and> all_violations L har \<noteq> []) =
       (ValidateHarFile L (Some har) = Some (validation_error (all_violations L har))
        \<and> basic_violations har = [])"
  using ValidateHarFile_eq [of L har]
  by (auto simp: all_violations_def validation_error_def)

subsection \<open>The compact round trip\<close>

lemma update_mset:
  "distinct (map fst al) \<Longrightarrow>
     mset (AList.update k v al) = mset (filter (\<lambda>p. fst p \<noteq> k) al) + {#(k, v)#}"
proof (induction al)
  case Nil
  show ?case by simp
next
  case (Cons p ps)
  show ?case
  proof (cases "fst p = k")
    case True
    with Cons.prems have "k \<notin> fst ` set ps" by auto
    then have "filter (\<lambda>p. fst p \<noteq> k) ps = ps"
      by (auto simp: filter_id_conv)
    with True show ?thesis by (cases p) simp
  next
    case False
    with Cons show ?thesis by (cases p) simp
  qed
qed

lemma headers_to_map_snoc:
  "headers_to_map (hs @ [h]) = AList.update (h_Name h) (h_Value h) (headers_to_map hs)"
  by (simp add: headers_to_map_def)

lemma headers_to_map_distinct: "distinct (map fst (headers_to_map hs))"
  by (induction hs rule: rev_induct)
     (simp_all add: headers_to_map_snoc distinct_update, simp add: headers_to_map_def)

lemma last_headers_snoc:
  "last_headers (hs @ [h]) = filter (\<lambda>x. h_Name x \<noteq> h_Name h) (last_headers hs) @ [h]"
  by (induction hs) auto

lemma filter_image_mset_comp:
  "filter_mset P (image_mset f M) = image_mset f (filter_mset (\<lambda>x. P (f x)) M)"
  by (induction M) simp_all

lemma headers_to_map_mset:
  "mset (headers_to_map hs) = mset (map (\<lambda>h. (h_Name h, h_Value h)) (last_headers hs))"
proof (induction hs rule: rev_induct)
  case Nil
  show ?case by (simp add: headers_to_map_def)
next
  case (snoc h hs)
  have "mset (headers_to_map (hs @ [h])) =
          filter_mset (\<lambda>p. fst p \<noteq> h_Name h) (mset (headers_to_map hs)) + {#(h_Name h, h_Value h)#}"
    by (simp add: headers_to_map_snoc update_mset [OF headers_to_map_distinct])
  also have "filter_mset (\<lambda>p. fst p \<noteq> h_Name h) (mset (headers_to_map hs)) =
          mset (map (\<lambda>h. (h_Name h, h_Value h)) (filter (\<lambda>x. h_Name x \<noteq> h_Name h) (last_headers hs)))"
    unfolding snoc.IH by (simp add: filter_image_mset_comp)
  finally show ?case by (simp add: last_headers_snoc)
qed

lemma Headers_eta: "\<lparr>h_Name = h_Name x, h_Value = h_Value x\<rparr> = x"
  by (cases x) simp

lemma map_to_headers_mset:
  assumes "\<And>m. mset (lib_range L m) = mset m"
  shows "mset (map_to_headers L (headers_to_map hs)) = mset (last_headers hs)"
proof -
  have "mset (map_to_headers L (headers_to_map hs)) =
          image_mset (\<lambda>(name, val). \<lparr>h_Name = name, h_Value = val\<rparr>) (mset (lib_range L (headers_to_map hs)))"
    by (simp add: map_to_headers_def)
  also have "\<dots> = image_mset (\<lambda>(name, val). \<lparr>h_Name = name, h_Value = val\<rparr>)
                     (mset (map (\<lambda>h. (h_Name h, h_Value h)) (last_headers hs)))"
    by (simp only: assms headers_to_map_mset)
  also have "\<dots> = mset (last_headers hs)"
    by (simp add: comp_def multiset.map_comp Headers_eta)
  finally show ?thesis .
qed

lemma last_headers_distinct: "distinct (map h_Name hs) \<Longrightarrow> last_headers hs = hs"
  by (induction hs) auto

lemma deref_or_nonzero_real [simp]: "deref_or 0 (nonzero_real x) = x"
  by (simp add: deref_or_def nonzero_real_def)

lemma deref_or_nonzero_int [simp]: "deref_or 0 (nonzero_int x) = x"
  by (simp add: deref_or_def nonzero_int_def)

lemma deref_or_nonempty [simp]: "deref_or [] (nonempty x) = x"
  by (simp add: deref_or_def nonempty_def)

lemma zero_Cache_eq:
  "(zero_Cache = c) = (ca_Comment c = [] \<and> ca_BeforeRequest c = None \<and> ca_AfterRequest c = None)"
  by (cases c) (auto simp: zero_Cache_def)

lemma round_trip_entry:
  "convertToStandardEntry L (convertToOptimizedEntry e) =
     \<lparr>en_StartedDateTime = en_StartedDateTime e,
      en_Time = en_Time e,
      en_Request =
        \<lparr>rq_Method = HTTPMethod_String (ParseMethod (rq_Method (en_Request e))),
         rq_URL = rq_URL (en_Request e),
         rq_HTTPVersion = rq_HTTPVersion (en_Request e),
         rq_Cookies = rq_Cookies (en_Request e),
         rq_Headers = map_to_headers L (headers_to_map (rq_Headers (en_Request e))),
         rq_QueryString = [],
         rq_PostData = None,
         rq_HeadersSize = rq_HeadersSize (en_Request e),
         rq_BodySize = rq_BodySize (en_Request e)\<rparr>,
      en_Response =
        \<lparr>rs_Status = rs_Status (en_Response e),
         rs_StatusText = rs_StatusText (en_Response e),
         rs_HTTPVersion = rs_HTTPVersion (en_Response e),
         rs_Cookies = rs_Cookies (en_Response e),
         rs_Headers = map_to_headers L (headers_to_map (rs_Headers (en_Response e))),
         rs_Content = \<lparr>ct_Size = ct_Size (rs_Content (en_Response e)),
                       ct_MimeType = ct_MimeType (rs_Content (en_Response e)),
                       ct_Text = [], ct_Encoding = []\<rparr>,
         rs_RedirectURL = rs_RedirectURL (en_Response e),
         rs_HeadersSize = rs_HeadersSize (en_Response e),
         rs_BodySize = rs_BodySize (en_Response e),
         rs_TransferSize = rs_TransferSize (en_Response e),
         rs_Error = None\<rparr>,
      en_Cache = en_Cache e,
      en_Timings = en_Timings e,
      en_Pageref = en_Pageref e,
      en_ServerIPAddress = en_ServerIPAddress e,
      en_Connection = en_Connection e,
      en_Initiator = zero_Initiator,
      en_Priority = [],
      en_ResourceType = []\<rparr>"
  unfolding convertToStandardEntry_def convertToOptimizedEntry_def
  by (auto simp: deref_or_def zero_Content_def zero_Cache_eq nonzero_int_def nonzero_real_def
      nonempty_def)

lemma round_trip_kept:
  assumes "\<And>m. mset (lib_range L m) = mset m"
  shows "compact_kept e (convertToStandardEntry L (convertToOptimizedEntry e))"
  unfolding round_trip_entry compact_kept_def
  by (simp add: map_to_headers_mset [OF assms])

lemma standard_method_kept:
  assumes "m \<in> set (map fst stringToMethod)"
  shows "HTTPMethod_String (ParseMethod m) = m"
proof -
  have "list_all (\<lambda>m. HTTPMethod_String (ParseMethod m) = m) (map fst stringToMethod)"
    by code_simp
  with assms show ?thesis by (auto simp: list_all_iff)
qed

lemma pairs_mset: "mset hs' = mset hs \<Longrightarrow> pairs hs' = pairs hs"
  unfolding pairs_def by (metis mset_map set_mset_mset)

lemma round_trip_exact:
  assumes perm: "\<And>m. mset (lib_range L m) = mset m" and e: "compact_exact e"
  shows "same_modulo_order e (convertToStandardEntry L (convertToOptimizedEntry e))"
proof -
  have q: "pairs (map_to_headers L (headers_to_map (rq_Headers (en_Request e)))) =
           pairs (rq_Headers (en_Request e))"
    using e by (intro pairs_mset)
      (simp add: map_to_headers_mset [OF perm] last_headers_distinct compact_exact_def)
  have s: "pairs (map_to_headers L (headers_to_map (rs_Headers (en_Response e)))) =
           pairs (rs_Headers (en_Response e))"
    using e by (intro pairs_mset)
      (simp add: map_to_headers_mset [OF perm] last_headers_distinct compact_exact_def)
  have m: "HTTPMethod_String (ParseMethod (rq_Method (en_Request e))) = rq_Method (en_Request e)"
    using e by (intro standard_method_kept) (simp add: compact_exact_def)
  have w: "without_lists (convertToStandardEntry L (convertToOptimizedEntry e)) = without_lists e"
    unfolding round_trip_entry without_lists_def using e m
    by (simp add: compact_exact_def)
  show ?thesis
    unfolding same_modulo_order_def
    using q s w e by (simp add: round_trip_entry compact_exact_def pairs_def)
qed

lemma round_trip_entries:
  "slice (lg_Entries (hr_Log (ToStandardHar L (ToOptimizedHar A)))) =
     map (\<lambda>e. convertToStandardEntry L (convertToOptimizedEntry e)) (slice (lg_Entries (hr_Log A)))"
  by (simp add: ToStandardHar_def ToOptimizedHar_def slice_def comp_def)

lemma sample_har_valid: "ValidateHarFile lib0 (Some (sample_har two_cookies)) = None"
  by code_simp

lemma sample_har_headers:
  "map (\<lambda>e. rs_Headers (en_Response e))
     (slice (lg_Entries (hr_Log (ToStandardHar lib0 (ToOptimizedHar (sample_har two_cookies))))))
   = [[\<lparr>h_Name = ''Set-Cookie'', h_Value = ''b=2''\<rparr>]]"
  unfolding round_trip_entries
  by (simp add: round_trip_entry sample_har_def sample_get_entry_def
      two_cookies_def slice_def map_to_headers_def headers_to_map_def lib0_def)

text \<open>
  C1, as stated, at a valid archive whose one response has two \<open>Set-Cookie\<close> headers:
  the compact form keeps the headers in a map from name to value, so that the round
  trip returns the last of them only, and the set of name/value pairs of the response
  is not preserved.
\<close>

theorem compact_round_trip_counterexample:
  "ValidateHarFile lib0 (Some (sample_har two_cookies)) = None
   \<and> map (\<lambda>e. rs_Headers (en_Response e))
       (slice (lg_Entries (hr_Log (ToStandardHar lib0 (ToOptimizedHar (sample_har two_cookies))))))
     = [[\<lparr>h_Name = ''Set-Cookie'', h_Value = ''b=2''\<rparr>]]
   \<and> \<not> round_trip_equal (sample_har two_cookies)
         (ToStandardHar lib0 (ToOptimizedHar (sample_har two_cookies)))"
proof -
  have "\<not> round_trip_equal (sample_har two_cookies)
         (ToStandardHar lib0 (ToOptimizedHar (sample_har two_cookies)))"
    unfolding round_trip_equal_def round_trip_entries same_modulo_order_def
    by (simp add: round_trip_entry sample_har_def sample_get_entry_def
      two_cookies_def slice_def map_to_headers_def headers_to_map_def lib0_def pairs_def)
  with sample_har_valid sample_har_headers show ?thesis by simp
qed

text \<open>
  C1, amended. Let a \<open>range\<close> over a map visit each of its entries once. Then the round
  trip through the compact form keeps the version, the creator, the pages and the
  number and order of the entries, and of each entry what \<open>compact_kept\<close> lists: every
  field but the method, the headers, the post data, the error, the initiator, the
  priority and the resource type is equal; the method is the name of the parsed method
  (\<open>UNKNOWN\<close> for a name that is not in the table); the headers are, in some order, the
  headers that no later header of the same name follows; the other five are empty. For
  an archive of which every entry is within what the compact form holds
  (\<open>compact_exact\<close>) the result equals the archive but for the order of the headers.
\<close>

theorem compact_round_trip:
  assumes "\<And>m. mset (lib_range L m) = mset m"
  shows "lg_Version (hr_Log (ToStandardHar L (ToOptimizedHar A))) = lg_Version (hr_Log A)
   \<and> lg_Creator (hr_Log (ToStandardHar L (ToOptimizedHar A))) = lg_Creator (hr_Log A)
   \<and> lg_Pages (hr_Log (ToStandardHar L (ToOptimizedHar A))) = lg_Pages (hr_Log A)
   \<and> lg_Entries (hr_Log (ToStandardHar L (ToOptimizedHar A))) \<noteq> None
   \<and> list_all2 compact_kept (slice (lg_Entries (hr_Log A)))
       (slice (lg_Entries (hr_Log (ToStandardHar L (ToOptimizedHar A)))))
   \<and> (list_all compact_exact (slice (lg_Entries (hr_Log A))) \<longrightarrow>
        round_trip_equal A (ToStandardHar L (ToOptimizedHar A)))"
proof -
  have head: "lg_Version (hr_Log (ToStandardHar L (ToOptimizedHar A))) = lg_Version (hr_Log A)
   \<and> lg_Creator (hr_Log (ToStandardHar L (ToOptimizedHar A))) = lg_Creator (hr_Log A)
   \<and> lg_Pages (hr_Log (ToStandardHar L (ToOptimizedHar A))) = lg_Pages (hr_Log A)
   \<and> lg_Entries (hr_Log (ToStandardHar L (ToOptimizedHar A))) \<noteq> None"
    by (simp add: ToStandardHar_def ToOptimizedHar_def)
  have kept: "list_all2 compact_kept (slice (lg_Entries (hr_Log A)))
       (slice (lg_Entries (hr_Log (ToStandardHar L (ToOptimizedHar A)))))"
    unfolding round_trip_entries
    by (simp add: list_all2_map2 list_all2_same round_trip_kept [OF assms])
  have exact: "round_trip_equal A (ToStandardHar L (ToOptimizedHar A))"
    if "list_all compact_exact (slice (lg_Entries (hr_Log A)))"
    unfolding round_trip_equal_def round_trip_entries using that head
    by (simp add: list_all2_map2 list_all2_same list_all_iff round_trip_exact [OF assms])
  from head kept exact show ?thesis by blast
qed

theorem compact_round_trip_witness:
  "list_all compact_exact (slice (lg_Entries (hr_Log (sample_har two_headers))))
   \<and> ValidateHarFile lib0 (Some (sample_har two_headers)) = None
   \<and> round_trip_equal (sample_har two_headers)
       (ToStandardHar lib0 (ToOptimizedHar (sample_har two_headers)))
   \<and> list_all2 compact_kept (slice (lg_Entries (hr_Log (sample_har two_headers))))
       (slice (lg_Entries (hr_Log (ToStandardHar lib0 (ToOptimizedHar (sample_har two_headers))))))"
proof -
  have perm: "\<And>m. mset (lib_range lib0 m) = mset m"
    by (simp add: lib0_def)
  have ex: "list_all compact_exact (slice (lg_Entries (hr_Log (sample_har two_headers))))"
    by (simp add: sample_har_def sample_get_entry_def two_headers_def slice_def compact_exact_def
        stringToMethod_def zero_Entries_def zero_Request_def zero_Response_def)
  have valid: "ValidateHarFile lib0 (Some (sample_har two_headers)) = None"
    by code_simp
  note p = compact_round_trip [of lib0 "sample_har two_headers", OF perm]
  from p ex valid show ?thesis by blast
qed

end
